theory Spec2Isabelle
  imports Complex_Main "HOL-Library.Stream"
begin

section \<open>Python string and list operations used by the adaptor\<close>

text \<open>
  Byte strings and ASCII text are both \<open>string\<close> (a list of 8-bit characters).
  \<open>CRLF\<close> is the two bytes \<^verbatim>\<open>\r\n\<close>.
\<close>

definition CRLF :: string where
  "CRLF = [CHR 0x0D, CHR 0x0A]"

definition LF :: string where
  "LF = [CHR 0x0A]"

text \<open>\<^verbatim>\<open>bytes.endswith\<close>.\<close>

definition endswith :: "string \<Rightarrow> string \<Rightarrow> bool" where
  "endswith s t = (length t \<le> length s \<and> drop (length s - length t) s = t)"

text \<open>\<^verbatim>\<open>bytes.decode('ascii')\<close> raises UnicodeDecodeError on a byte above 127.\<close>

definition is_ascii :: "string \<Rightarrow> bool" where
  "is_ascii s = list_all (\<lambda>c. (of_char c :: nat) < 128) s"

text \<open>\<^verbatim>\<open>str.strip(chars)\<close>: removes leading and trailing characters of \<open>chars\<close>.\<close>

definition strip :: "string \<Rightarrow> string \<Rightarrow> string" where
  "strip chars s =
     rev (dropWhile (\<lambda>c. c \<in> set chars) (rev (dropWhile (\<lambda>c. c \<in> set chars) s)))"

text \<open>
  \<^verbatim>\<open>str.isspace\<close> on ASCII text: tab, line feed, vertical tab, form feed, carriage
  return, the four separators 0x1C..0x1F and the space.
\<close>

definition isspace :: "char \<Rightarrow> bool" where
  "isspace c = (c \<in> set [CHR 0x09, CHR 0x0A, CHR 0x0B, CHR 0x0C, CHR 0x0D,
                          CHR 0x1C, CHR 0x1D, CHR 0x1E, CHR 0x1F, CHR 0x20])"

text \<open>
  \<^verbatim>\<open>str.split()\<close> with no argument: the maximal runs of non-whitespace characters.
  \<open>split_acc w s\<close> scans \<open>s\<close> with the token under construction \<open>w\<close>.
\<close>

fun split_acc :: "string \<Rightarrow> string \<Rightarrow> string list" where
  "split_acc w [] = (if w = [] then [] else [w])"
| "split_acc w (c # cs) =
     (if isspace c then (if w = [] then split_acc [] cs else w # split_acc [] cs)
      else split_acc (w @ [c]) cs)"

definition split :: "string \<Rightarrow> string list" where
  "split s = split_acc [] s"

text \<open>\<^verbatim>\<open>xs[i:j]\<close> for constant \<open>0 \<le> i \<le> j\<close>, and \<^verbatim>\<open>xs[i]\<close>, which raises IndexError
  (here \<open>None\<close>) out of range.\<close>

definition slice :: "nat \<Rightarrow> nat \<Rightarrow> 'a list \<Rightarrow> 'a list" where
  "slice i j xs = take (j - i) (drop i xs)"

definition item :: "'a list \<Rightarrow> nat \<Rightarrow> 'a option" where
  "item xs i = (if i < length xs then Some (xs ! i) else None)"

section \<open>Numbers\<close>

text \<open>
  The positions, limits and speeds are Python numbers (floats, or ints a caller passes).
  Their arithmetic is IEEE floating point, which is not modelled: the operations the
  adaptor applies to numbers are the fields of a record that every function takes as
  its first argument, and the theorems hold for every such record.
  \<^item> \<open>py_lit q\<close>: the value of the numeric literal \<open>q\<close> (\<^verbatim>\<open>1e6\<close>, \<^verbatim>\<open>1.6384\<close>, \<^verbatim>\<open>0.01\<close>, \<^verbatim>\<open>750\<close>);
  \<^item> \<open>py_add\<close>, \<open>py_mul\<close>, \<open>py_div\<close>: \<^verbatim>\<open>+\<close>, \<^verbatim>\<open>*\<close>, \<^verbatim>\<open>/\<close>;
  \<^item> \<open>py_le\<close>, \<open>py_lt\<close>, \<open>py_eq\<close>: \<^verbatim>\<open><=\<close>, \<^verbatim>\<open><\<close>, \<^verbatim>\<open>==\<close>;
  \<^item> \<open>py_str\<close>: \<^verbatim>\<open>str(x)\<close>; \<open>py_float\<close>: \<^verbatim>\<open>float(s)\<close>, \<open>None\<close> where it raises ValueError;
  \<^item> \<open>py_round3\<close>: \<^verbatim>\<open>round(x, 3)\<close>.
\<close>

record 'f numbers =
  py_lit :: "rat \<Rightarrow> 'f"
  py_add :: "'f \<Rightarrow> 'f \<Rightarrow> 'f"
  py_mul :: "'f \<Rightarrow> 'f \<Rightarrow> 'f"
  py_div :: "'f \<Rightarrow> 'f \<Rightarrow> 'f"
  py_le :: "'f \<Rightarrow> 'f \<Rightarrow> bool"
  py_lt :: "'f \<Rightarrow> 'f \<Rightarrow> bool"
  py_eq :: "'f \<Rightarrow> 'f \<Rightarrow> bool"
  py_str :: "'f \<Rightarrow> string"
  py_float :: "string \<Rightarrow> 'f option"
  py_round3 :: "'f \<Rightarrow> 'f"

section \<open>The serial port\<close>

text \<open>
  The port is the adaptor's environment. \<open>written\<close> is the list of byte strings passed
  to \<^verbatim>\<open>port.write\<close>, oldest first. \<open>incoming\<close> is what the device will answer: its
  \<open>k\<close>-th element is the line the \<open>k\<close>-th \<^verbatim>\<open>port.readline()\<close> from now returns (empty on
  a timeout) together with the number of bytes left unread in the input buffer after
  it. \<open>in_waiting\<close> is that number for the last line read. The stream is infinite, so a
  device that answers BUSY forever is a value of this type.
\<close>

record port =
  written :: "string list"
  in_waiting :: nat
  incoming :: "(string \<times> nat) stream"

definition port_write :: "port \<Rightarrow> string \<Rightarrow> port" where
  "port_write p b = p\<lparr>written := written p @ [b]\<rparr>"

definition port_readline :: "port \<Rightarrow> string \<times> port" where
  "port_readline p =
     (fst (shd (incoming p)),
      p\<lparr>in_waiting := snd (shd (incoming p)), incoming := stl (incoming p)\<rparr>)"

section \<open>The controller\<close>

text \<open>
  One \<^verbatim>\<open>print\<close> call is recorded as its format string and its arguments.
\<close>

datatype 'f pyval = PStr string | PBytes string | PNum 'f | PBool bool

text \<open>
  The attributes of \<^verbatim>\<open>Controller\<close>. \<open>moving\<close>, \<open>moving_x\<close> and \<open>moving_y\<close> are
  \<^verbatim>\<open>_moving\<close>, \<^verbatim>\<open>_moving_x\<close> and \<^verbatim>\<open>_moving_y\<close>; \<open>stdout\<close> is the console, one entry per
  \<^verbatim>\<open>print\<close> call.
\<close>

record 'f controller =
  name :: string
  verbose :: bool
  very_verbose :: bool
  x_min_mm :: 'f
  x_max_mm :: 'f
  y_min_mm :: 'f
  y_max_mm :: 'f
  port :: port
  device_id :: string
  device_name :: string
  device_address :: string
  moving :: bool
  moving_x :: bool
  moving_y :: bool
  x_mm :: 'f
  y_mm :: 'f
  x_mmps :: 'f
  y_mmps :: 'f
  stdout :: "(string \<times> 'f pyval list) list"

text \<open>
  Exceptions. An \<open>AssertionError\<close> carries the message of its \<^verbatim>\<open>assert\<close> (the format
  string; empty when the \<^verbatim>\<open>assert\<close> has none), an \<open>Exception\<close> the format string of its
  \<^verbatim>\<open>raise\<close>.
\<close>

datatype error =
  AssertionError string | IndexError | ValueError | UnicodeDecodeError | Exception string

text \<open>
  A method call either returns a value or raises; both leave a controller behind
  (\<open>after\<close>).
\<close>

datatype ('f, 'a) outcome =
  Returns 'a (after: "'f controller") | Raises error (after: "'f controller")

definition py_print :: "'f controller \<Rightarrow> string \<Rightarrow> 'f pyval list \<Rightarrow> 'f controller" where
  "py_print s fmt args = s\<lparr>stdout := stdout s @ [(fmt, args)]\<rparr>"

datatype response_type = reply | info | alert

fun response_type_to_char :: "response_type \<Rightarrow> char" where
  "response_type_to_char reply = CHR ''@''"
| "response_type_to_char info = CHR ''#''"
| "response_type_to_char alert = CHR ''!''"

text \<open>\<^verbatim>\<open>_send\<close> (lines 73-94). The command text is ASCII at every call (literals,
  the device address decoded from ASCII, and \<^verbatim>\<open>str\<close> of a number), so encoding it does
  not fail.\<close>

definition send :: "'f controller \<Rightarrow> string \<Rightarrow> response_type \<Rightarrow> ('f, string) outcome" where
  "send s cmd rtype =
     (let cmdb = ''/'' @ device_address s @ '' '' @ cmd @ LF;
          s = (if very_verbose s
               then py_print s ''%s: sending cmd = '' [PStr (name s), PBytes cmdb] else s);
          s = s\<lparr>port := port_write (port s) cmdb\<rparr>;
          (response, p) = port_readline (port s);
          s = s\<lparr>port := p\<rparr>;
          s = (if very_verbose s
               then py_print s ''%s: response    = '' [PStr (name s), PBytes response] else s)
      in if \<not> endswith response CRLF
         then Raises (AssertionError ''%s: unexpected response terminator'') s
         else if \<not> is_ascii response then Raises UnicodeDecodeError s
         else
           (let response = strip CRLF response in
            (case response of
               [] \<Rightarrow> Raises IndexError s
             | c # _ \<Rightarrow>
                 if c \<noteq> response_type_to_char rtype
                 then Raises (AssertionError ''%s: unexpected response character (%s)'') s
                 else if slice 1 3 response \<noteq> device_address s
                 then Raises (AssertionError ''%s: unexpected device address (%s)'') s
                 else
                   (case (if verbose s
                          then (case item (split response) 2 of
                                  None \<Rightarrow> Inl IndexError
                                | Some status \<Rightarrow>
                                    Inr (if status \<noteq> ''OK''
                                         then py_print s ''%s: command rejected'' [PStr (name s)]
                                         else s))
                          else Inr s) of
                      Inl e \<Rightarrow> Raises e s
                    | Inr s \<Rightarrow>
                        if in_waiting (port s) \<noteq> 0 then Raises (AssertionError []) s
                        else Returns (drop 4 response) s))))"

text \<open>\<^verbatim>\<open>_get_status\<close> (lines 96-105).\<close>

definition get_status :: "'f controller \<Rightarrow> ('f, string) outcome" where
  "get_status s =
     (let s = (if very_verbose s then py_print s ''%s: getting status'' [PStr (name s)] else s)
      in (case send s [] reply of
            Raises e s \<Rightarrow> Raises e s
          | Returns status s \<Rightarrow>
              (let s = (if very_verbose s
                        then py_print s ''%s:  = %s'' [PStr (name s), PStr status] else s);
                   s = s\<lparr>moving := False\<rparr>
               in (case item (split status) 2 of
                     None \<Rightarrow> Raises IndexError s
                   | Some busy \<Rightarrow>
                       Returns status (if busy = ''BUSY'' then s\<lparr>moving := True\<rparr> else s)))))"

text \<open>\<^verbatim>\<open>_get_warnings\<close> (lines 107-113).\<close>

definition get_warnings :: "'f controller \<Rightarrow> ('f, string) outcome" where
  "get_warnings s =
     (let s = (if very_verbose s then py_print s ''%s: getting warnings'' [PStr (name s)] else s)
      in (case send s ''warnings'' reply of
            Raises e s \<Rightarrow> Raises e s
          | Returns warnings s \<Rightarrow>
              Returns warnings
                (if very_verbose s
                 then py_print s ''%s:  = %s'' [PStr (name s), PStr warnings] else s)))"

text \<open>\<^verbatim>\<open>_finish_moving\<close> (lines 115-120). The loop runs as long as the device answers
  BUSY; \<open>None\<close> is the run that never returns.\<close>

partial_function (option) finish_moving :: "'f controller \<Rightarrow> ('f, unit) outcome option" where
  "finish_moving s =
     (if moving s
      then (case get_status s of
              Raises e s' \<Rightarrow> Some (Raises e s')
            | Returns _ s' \<Rightarrow> finish_moving s')
      else Some (Returns ()
             (if verbose s then py_print s ''%s:  -> finished moving'' [PStr (name s)] else s)))"

text \<open>\<^verbatim>\<open>_home\<close> (lines 122-130).\<close>

definition home :: "'f controller \<Rightarrow> ('f, unit) outcome option" where
  "home s =
     (let s = (if verbose s then py_print s ''%s: homing'' [PStr (name s)] else s)
      in (case send s ''home'' reply of
            Raises e s \<Rightarrow> Some (Raises e s)
          | Returns r s \<Rightarrow>
              if r \<noteq> ''0 OK BUSY WR 0'' then Some (Raises (AssertionError []) s)
              else
                (case finish_moving (s\<lparr>moving := True\<rparr>) of
                   None \<Rightarrow> None
                 | Some (Raises e s) \<Rightarrow> Some (Raises e s)
                 | Some (Returns _ s) \<Rightarrow>
                     Some (Returns ()
                       (if verbose s then py_print s ''%s: done homing'' [PStr (name s)]
                        else s)))))"

text \<open>\<^verbatim>\<open>_get_status_x\<close> (lines 132-141).\<close>

definition get_status_x :: "'f controller \<Rightarrow> ('f, string) outcome" where
  "get_status_x s =
     (let s = (if very_verbose s
               then py_print s ''%s: getting status on x'' [PStr (name s)] else s)
      in (case send s ''1'' reply of
            Raises e s \<Rightarrow> Raises e s
          | Returns status_x s \<Rightarrow>
              (let s = (if very_verbose s
                        then py_print s ''%s:  = %s'' [PStr (name s), PStr status_x] else s);
                   s = s\<lparr>moving_x := False\<rparr>
               in (case item (split status_x) 2 of
                     None \<Rightarrow> Raises IndexError s
                   | Some busy \<Rightarrow>
                       Returns status_x
                         (if busy = ''BUSY'' then s\<lparr>moving_x := True\<rparr> else s)))))"

text \<open>\<^verbatim>\<open>_finish_moving_x\<close> (lines 143-148).\<close>

partial_function (option) finish_moving_x :: "'f controller \<Rightarrow> ('f, unit) outcome option" where
  "finish_moving_x s =
     (if moving_x s
      then (case get_status_x s of
              Raises e s' \<Rightarrow> Some (Raises e s')
            | Returns _ s' \<Rightarrow> finish_moving_x s')
      else Some (Returns ()
             (if very_verbose s
              then py_print s ''%s:  -> finished moving x'' [PStr (name s)] else s)))"

text \<open>\<^verbatim>\<open>_move_x\<close> (lines 150-166).\<close>

definition move_x ::
  "'f numbers \<Rightarrow> 'f controller \<Rightarrow> 'f \<Rightarrow> bool \<Rightarrow> bool \<Rightarrow> ('f, unit) outcome option" where
  "move_x fl s x relative block =
     (case (if moving_x s then finish_moving_x s else Some (Returns () s)) of
        None \<Rightarrow> None
      | Some (Raises e s) \<Rightarrow> Some (Raises e s)
      | Some (Returns _ s) \<Rightarrow>
          (let s = (if very_verbose s
                    then py_print s ''%s: moving to x_mm = %10.06f (relative=%s)''
                           [PStr (name s), PNum x, PBool relative]
                    else s);
               x = (if relative then py_add fl (x_mm s) x else x)
           in if \<not> (py_le fl (x_min_mm s) x \<and> py_le fl x (x_max_mm s))
              then Some (Returns ()
                     (if verbose s
                      then py_print s ''%s: ***WARNING*** -> x_mm out of limits'' [PStr (name s)]
                      else s))
              else
                (case send s (''1 move abs '' @ py_str fl (py_mul fl (py_lit fl 1000000) x))
                        reply of
                   Raises e s \<Rightarrow> Some (Raises e s)
                 | Returns _ s \<Rightarrow>
                     (let s = s\<lparr>moving_x := True, x_mm := x\<rparr>
                      in if block then finish_moving_x s else Some (Returns () s)))))"

text \<open>\<^verbatim>\<open>_stop_x\<close> (lines 168-174).\<close>

definition stop_x :: "'f controller \<Rightarrow> ('f, unit) outcome" where
  "stop_x s =
     (let s = (if very_verbose s then py_print s ''%s: stopping x axis'' [PStr (name s)] else s)
      in (case send s ''1 stop'' reply of
            Raises e s \<Rightarrow> Raises e s
          | Returns r s \<Rightarrow>
              if r \<notin> set [''1 OK BUSY -- 0'', ''1 OK BUSY NI 0'']
              then Raises (AssertionError []) s
              else Returns ()
                     (if very_verbose s
                      then py_print s ''%s: done stopping'' [PStr (name s)] else s)))"

text \<open>\<^verbatim>\<open>_get_position_x\<close> (lines 176-182).\<close>

definition get_position_x :: "'f numbers \<Rightarrow> 'f controller \<Rightarrow> ('f, 'f) outcome" where
  "get_position_x fl s =
     (let s = (if very_verbose s
               then py_print s ''%s: getting position x'' [PStr (name s)] else s)
      in (case send s ''1 get pos'' reply of
            Raises e s \<Rightarrow> Raises e s
          | Returns r s \<Rightarrow>
              (case item (split r) 4 of
                 None \<Rightarrow> Raises IndexError s
               | Some p \<Rightarrow>
                   (case py_float fl p of
                      None \<Rightarrow> Raises ValueError s
                    | Some v \<Rightarrow>
                        (let s = s\<lparr>x_mm := py_mul fl (py_lit fl (1 / 1000000)) v\<rparr>;
                             s = (if very_verbose s
                                  then py_print s ''%s:  = %6.03f (mm)''
                                         [PStr (name s), PNum (x_mm s)]
                                  else s)
                         in Returns (x_mm s) s)))))"

text \<open>\<^verbatim>\<open>_get_status_y\<close> (lines 184-193).\<close>

definition get_status_y :: "'f controller \<Rightarrow> ('f, string) outcome" where
  "get_status_y s =
     (let s = (if very_verbose s
               then py_print s ''%s: getting status on y'' [PStr (name s)] else s)
      in (case send s ''2'' reply of
            Raises e s \<Rightarrow> Raises e s
          | Returns status_y s \<Rightarrow>
              (let s = (if very_verbose s
                        then py_print s ''%s:  = %s'' [PStr (name s), PStr status_y] else s);
                   s = s\<lparr>moving_y := False\<rparr>
               in (case item (split status_y) 2 of
                     None \<Rightarrow> Raises IndexError s
                   | Some busy \<Rightarrow>
                       Returns status_y
                         (if busy = ''BUSY'' then s\<lparr>moving_y := True\<rparr> else s)))))"

text \<open>\<^verbatim>\<open>_finish_moving_y\<close> (lines 195-200).\<close>

partial_function (option) finish_moving_y :: "'f controller \<Rightarrow> ('f, unit) outcome option" where
  "finish_moving_y s =
     (if moving_y s
      then (case get_status_y s of
              Raises e s' \<Rightarrow> Some (Raises e s')
            | Returns _ s' \<Rightarrow> finish_moving_y s')
      else Some (Returns ()
             (if very_verbose s
              then py_print s ''%s:  -> finished moving y'' [PStr (name s)] else s)))"

text \<open>\<^verbatim>\<open>_move_y\<close> (lines 202-218).\<close>

definition move_y ::
  "'f numbers \<Rightarrow> 'f controller \<Rightarrow> 'f \<Rightarrow> bool \<Rightarrow> bool \<Rightarrow> ('f, unit) outcome option" where
  "move_y fl s y relative block =
     (case (if moving_y s then finish_moving_y s else Some (Returns () s)) of
        None \<Rightarrow> None
      | Some (Raises e s) \<Rightarrow> Some (Raises e s)
      | Some (Returns _ s) \<Rightarrow>
          (let s = (if very_verbose s
                    then py_print s ''%s: moving to y_mm = %10.06f (relative=%s)''
                           [PStr (name s), PNum y, PBool relative]
                    else s);
               y = (if relative then py_add fl (y_mm s) y else y)
           in if \<not> (py_le fl (y_min_mm s) y \<and> py_le fl y (y_max_mm s))
              then Some (Returns ()
                     (if verbose s
                      then py_print s ''%s: ***WARNING*** -> y_mm out of limits'' [PStr (name s)]
                      else s))
              else
                (case send s (''2 move abs '' @ py_str fl (py_mul fl (py_lit fl 1000000) y))
                        reply of
                   Raises e s \<Rightarrow> Some (Raises e s)
                 | Returns _ s \<Rightarrow>
                     (let s = s\<lparr>moving_y := True, y_mm := y\<rparr>
                      in if block then finish_moving_y s else Some (Returns () s)))))"

text \<open>\<^verbatim>\<open>_stop_y\<close> (lines 220-226).\<close>

definition stop_y :: "'f controller \<Rightarrow> ('f, unit) outcome" where
  "stop_y s =
     (let s = (if very_verbose s then py_print s ''%s: stopping y axis'' [PStr (name s)] else s)
      in (case send s ''2 stop'' reply of
            Raises e s \<Rightarrow> Raises e s
          | Returns r s \<Rightarrow>
              if r \<notin> set [''2 OK BUSY -- 0'', ''2 OK BUSY NI 0'']
              then Raises (AssertionError []) s
              else Returns ()
                     (if very_verbose s
                      then py_print s ''%s: done stopping'' [PStr (name s)] else s)))"

text \<open>\<^verbatim>\<open>_get_position_y\<close> (lines 228-234).\<close>

definition get_position_y :: "'f numbers \<Rightarrow> 'f controller \<Rightarrow> ('f, 'f) outcome" where
  "get_position_y fl s =
     (let s = (if very_verbose s
               then py_print s ''%s: getting position y'' [PStr (name s)] else s)
      in (case send s ''2 get pos'' reply of
            Raises e s \<Rightarrow> Raises e s
          | Returns r s \<Rightarrow>
              (case item (split r) 4 of
                 None \<Rightarrow> Raises IndexError s
               | Some p \<Rightarrow>
                   (case py_float fl p of
                      None \<Rightarrow> Raises ValueError s
                    | Some v \<Rightarrow>
                        (let s = s\<lparr>y_mm := py_mul fl (py_lit fl (1 / 1000000)) v\<rparr>;
                             s = (if very_verbose s
                                  then py_print s ''%s:  = %6.03f (mm)''
                                         [PStr (name s), PNum (y_mm s)]
                                  else s)
                         in Returns (y_mm s) s)))))"

text \<open>\<^verbatim>\<open>get_position_mm\<close> (lines 236-244). The list comprehension converts the fifth and
  sixth token; a token that is not a number, or fewer than two tokens to unpack, raise
  ValueError.\<close>

definition get_position_mm :: "'f numbers \<Rightarrow> 'f controller \<Rightarrow> ('f, 'f \<times> 'f) outcome" where
  "get_position_mm fl s =
     (let s = (if verbose s then py_print s ''%s: getting position'' [PStr (name s)] else s)
      in (case send s ''get pos'' reply of
            Raises e s \<Rightarrow> Raises e s
          | Returns r s \<Rightarrow>
              (case map (py_float fl) (slice 4 6 (split r)) of
                 [Some px, Some py] \<Rightarrow>
                   (let s = s\<lparr>x_mm := py_mul fl (py_lit fl (1 / 1000000)) px,
                               y_mm := py_mul fl (py_lit fl (1 / 1000000)) py\<rparr>;
                        s = (if verbose s
                             then py_print s ''%s:  = (%6.03f, %6.03f) (mm)''
                                    [PStr (name s), PNum (x_mm s), PNum (y_mm s)]
                             else s)
                    in Returns (x_mm s, y_mm s) s)
               | _ \<Rightarrow> Raises ValueError s)))"

text \<open>\<^verbatim>\<open>move_mm\<close> (lines 246-258).\<close>

definition move_mm ::
  "'f numbers \<Rightarrow> 'f controller \<Rightarrow> 'f \<Rightarrow> 'f \<Rightarrow> bool \<Rightarrow> bool \<Rightarrow> ('f, unit) outcome option" where
  "move_mm fl s x y relative block =
     (let s = (if verbose s
               then py_print (py_print s ''%s: moving to x_mm, y_mm'' [PStr (name s)])
                      ''%s:  = %10.06f, %10.06f (relative=%s)''
                      [PStr (name s), PNum x, PNum y, PBool relative]
               else s)
      in (case move_x fl s x relative False of
            None \<Rightarrow> None
          | Some (Raises e s) \<Rightarrow> Some (Raises e s)
          | Some (Returns _ s) \<Rightarrow>
              (case move_y fl s y relative False of
                 None \<Rightarrow> None
               | Some (Raises e s) \<Rightarrow> Some (Raises e s)
               | Some (Returns _ s) \<Rightarrow>
                   (let s = s\<lparr>moving := True\<rparr>
                    in if block
                       then (case finish_moving s of
                               None \<Rightarrow> None
                             | Some (Raises e s) \<Rightarrow> Some (Raises e s)
                             | Some (Returns _ s) \<Rightarrow>
                                 Some (Returns () (s\<lparr>moving_x := False, moving_y := False\<rparr>)))
                       else Some (Returns () s)))))"

text \<open>\<^verbatim>\<open>get_maxspeed\<close> (lines 260-269).\<close>

definition from_wire_speed :: "'f numbers \<Rightarrow> 'f \<Rightarrow> 'f" where
  "from_wire_speed fl v =
     py_round3 fl (py_div fl (py_mul fl (py_lit fl (1 / 1000000)) v) (py_lit fl (16384 / 10000)))"

definition get_maxspeed :: "'f numbers \<Rightarrow> 'f controller \<Rightarrow> ('f, 'f \<times> 'f) outcome" where
  "get_maxspeed fl s =
     (let s = (if verbose s then py_print s ''%s: getting maxspeed'' [PStr (name s)] else s)
      in (case send s ''get maxspeed'' reply of
            Raises e s \<Rightarrow> Raises e s
          | Returns r s \<Rightarrow>
              (case map (py_float fl) (slice 4 6 (split r)) of
                 [Some sx, Some sy] \<Rightarrow>
                   (let s = s\<lparr>x_mmps := from_wire_speed fl sx, y_mmps := from_wire_speed fl sy\<rparr>;
                        s = (if verbose s
                             then py_print s ''%s:  = %6.03f, %6.03f (mm/s)''
                                    [PStr (name s), PNum (x_mmps s), PNum (y_mmps s)]
                             else s)
                    in Returns (x_mmps s, y_mmps s) s)
               | _ \<Rightarrow> Raises ValueError s)))"

text \<open>\<^verbatim>\<open>set_maxspeed\<close> (lines 271-283). An argument left out is \<open>None\<close>.
  \<^verbatim>\<open>1e6 * 1.6384 * x_mmps\<close> multiplies from the left.\<close>

definition to_wire_speed :: "'f numbers \<Rightarrow> 'f \<Rightarrow> 'f" where
  "to_wire_speed fl v = py_mul fl (py_mul fl (py_lit fl 1000000) (py_lit fl (16384 / 10000))) v"

definition set_maxspeed ::
  "'f numbers \<Rightarrow> 'f controller \<Rightarrow> 'f option \<Rightarrow> 'f option \<Rightarrow> ('f, unit) outcome" where
  "set_maxspeed fl s x_arg y_arg =
     (let x = (case x_arg of None \<Rightarrow> x_mmps s | Some v \<Rightarrow> v);
          y = (case y_arg of None \<Rightarrow> y_mmps s | Some v \<Rightarrow> v);
          s = (if verbose s
               then py_print (py_print s ''%s: setting maxspeed (x, y)'' [PStr (name s)])
                      ''%s:  = %10.06f, %10.06f (mm/s)'' [PStr (name s), PNum x, PNum y]
               else s)
      in if \<not> (py_le fl (py_lit fl (1 / 100)) x \<and> py_le fl x (py_lit fl 750) \<and>
                py_le fl (py_lit fl (1 / 100)) y \<and> py_le fl y (py_lit fl 750))
         then Raises (AssertionError []) s
         else
           (case send s (''1 set maxspeed '' @ py_str fl (to_wire_speed fl x)) reply of
              Raises e s \<Rightarrow> Raises e s
            | Returns _ s \<Rightarrow>
                (case send s (''2 set maxspeed '' @ py_str fl (to_wire_speed fl y)) reply of
                   Raises e s \<Rightarrow> Raises e s
                 | Returns _ s \<Rightarrow>
                     (case get_maxspeed fl s of
                        Raises e s \<Rightarrow> Raises e s
                      | Returns (rx, ry) s \<Rightarrow>
                          if \<not> (py_eq fl rx x \<and> py_eq fl ry y)
                          then Raises (AssertionError []) s
                          else Returns ()
                                 (if verbose s
                                  then py_print s ''%s: -> done setting maxspeed''
                                         [PStr (name s)]
                                  else s)))))"

section \<open>Construction\<close>

text \<open>
  \<^verbatim>\<open>__init__\<close> (lines 8-71) assigns the attributes one after the other. In the record an
  attribute not yet assigned holds a placeholder (zero, the empty string, \<open>False\<close>); the
  methods called during construction read an attribute only after it is assigned. The
  port is the one \<^verbatim>\<open>serial.Serial\<close> returns; that it cannot be opened (IOError) happens
  before any exchange and is left out.
\<close>

definition blank :: "'f numbers \<Rightarrow> port \<Rightarrow> string \<Rightarrow> bool \<Rightarrow> bool \<Rightarrow> 'f controller" where
  "blank fl p nm v vv =
     \<lparr>name = nm, verbose = v, very_verbose = vv,
      x_min_mm = py_lit fl 0, x_max_mm = py_lit fl 0,
      y_min_mm = py_lit fl 0, y_max_mm = py_lit fl 0,
      port = p, device_id = [], device_name = [], device_address = [],
      moving = False, moving_x = False, moving_y = False,
      x_mm = py_lit fl 0, y_mm = py_lit fl 0, x_mmps = py_lit fl 0, y_mmps = py_lit fl 0,
      stdout = []\<rparr>"

text \<open>Lines 36-59, \<^verbatim>\<open># check device id and address\<close>. \<^verbatim>\<open>split()[-1]\<close> raises IndexError
  on a response of whitespace only.\<close>

definition check_device_id :: "'f controller \<Rightarrow> ('f, unit) outcome" where
  "check_device_id s =
     (let cmd = ''/get device.id'' @ LF;
          s = (if verbose s then py_print s ''%s: getting device id'' [PStr (name s)] else s);
          s = (if very_verbose s
               then py_print s ''%s: sending cmd = '' [PStr (name s), PBytes cmd] else s);
          s = s\<lparr>port := port_write (port s) cmd\<rparr>;
          (response, p) = port_readline (port s);
          s = s\<lparr>port := p\<rparr>;
          s = (if very_verbose s
               then py_print s ''%s: response    = '' [PStr (name s), PBytes response] else s)
      in if length response = 0 then Raises (Exception ''%s: no response'') s
         else if \<not> is_ascii response then Raises UnicodeDecodeError s
         else
           (case split response of
              [] \<Rightarrow> Raises IndexError s
            | tokens \<Rightarrow>
                (let s = s\<lparr>device_id := last tokens\<rparr>;
                     s = (if verbose s
                          then py_print s ''%s:  = %s'' [PStr (name s), PStr (device_id s)]
                          else s)
                 in if device_id s = ''50998''
                    then
                      (let s = s\<lparr>device_name := ''X-ADR130B100B-SAE53D12''\<rparr>;
                           s = (if verbose s
                                then py_print s ''%s: device name = %s''
                                       [PStr (name s), PStr (device_name s)]
                                else s);
                           s = s\<lparr>device_address := slice 1 3 response\<rparr>;
                           s = (if verbose s
                                then py_print s ''%s: device address = %s''
                                       [PStr (name s), PStr (device_address s)]
                                else s)
                       in Returns () s)
                    else Raises (Exception ''device_id (%s) not recognised'') s)))"

text \<open>Lines 60-66, \<^verbatim>\<open># get status, check warnings and home if needed\<close>.\<close>

definition check_warnings :: "'f controller \<Rightarrow> ('f, unit) outcome option" where
  "check_warnings s =
     (case get_status s of
        Raises e s \<Rightarrow> Some (Raises e s)
      | Returns _ s \<Rightarrow>
          (case get_warnings s of
             Raises e s \<Rightarrow> Some (Raises e s)
           | Returns w s \<Rightarrow>
               (case (if w = ''0 OK IDLE WR 01 WR'' then home s else Some (Returns () s)) of
                  None \<Rightarrow> None
                | Some (Raises e s) \<Rightarrow> Some (Raises e s)
                | Some (Returns _ s) \<Rightarrow>
                    (case get_warnings s of
                       Raises e s \<Rightarrow> Some (Raises e s)
                     | Returns warnings s \<Rightarrow>
                         if warnings \<notin> set [''0 OK IDLE -- 00'', ''0 OK IDLE NI 01 NI'']
                         then Some (Raises (Exception ''warnings (%s) not recognised'') s)
                         else Some (Returns () s)))))"

text \<open>Lines 67-71, \<^verbatim>\<open># get x and y status, position and set maxspeed\<close>.\<close>

definition get_ready :: "'f numbers \<Rightarrow> 'f controller \<Rightarrow> 'f \<times> 'f \<Rightarrow> ('f, unit) outcome" where
  "get_ready fl s maxspeed_mmps =
     (case get_status_x s of
        Raises e s \<Rightarrow> Raises e s
      | Returns _ s \<Rightarrow>
          (case get_status_y s of
             Raises e s \<Rightarrow> Raises e s
           | Returns _ s \<Rightarrow>
               (case get_position_mm fl s of
                  Raises e s \<Rightarrow> Raises e s
                | Returns _ s \<Rightarrow>
                    set_maxspeed fl s (Some (fst maxspeed_mmps)) (Some (snd maxspeed_mmps)))))"

text \<open>\<^verbatim>\<open>__init__\<close>: the limits are legalized (lines 19-27), the port is opened
  (lines 28-35), and the three parts above follow.\<close>

definition init ::
  "'f numbers \<Rightarrow> port \<Rightarrow> string \<Rightarrow> bool \<Rightarrow> bool \<Rightarrow> 'f \<times> 'f \<Rightarrow> 'f \<times> 'f \<Rightarrow> 'f \<times> 'f \<Rightarrow>
     ('f, unit) outcome option" where
  "init fl which_port nm v vv x_limits_mm y_limits_mm maxspeed_mmps =
     (let s = blank fl which_port nm v vv
      in if \<not> list_all (\<lambda>x. py_le fl (py_lit fl 0) x \<and> py_le fl x (py_lit fl 130))
                 [fst x_limits_mm, snd x_limits_mm]
         then Some (Raises (AssertionError ''x limit out of range'') s)
         else if \<not> py_lt fl (fst x_limits_mm) (snd x_limits_mm)
         then Some (Raises (AssertionError ''limit error: x min > x max'') s)
         else if \<not> list_all (\<lambda>y. py_le fl (py_lit fl 0) y \<and> py_le fl y (py_lit fl 100))
                      [fst y_limits_mm, snd y_limits_mm]
         then Some (Raises (AssertionError ''y limit out of range'') s)
         else if \<not> py_lt fl (fst y_limits_mm) (snd y_limits_mm)
         then Some (Raises (AssertionError ''limit error: y min > y max'') s)
         else
           (let s = s\<lparr>x_min_mm := fst x_limits_mm, x_max_mm := snd x_limits_mm,
                       y_min_mm := fst y_limits_mm, y_max_mm := snd y_limits_mm\<rparr>;
                s = (if verbose s then py_print s ''%s: opening...'' [PStr (name s)] else s);
                s = (if verbose s then py_print s '' done.'' [] else s)
            in (case check_device_id s of
                  Raises e s \<Rightarrow> Some (Raises e s)
                | Returns _ s \<Rightarrow>
                    (case check_warnings s of
                       None \<Rightarrow> None
                     | Some (Raises e s) \<Rightarrow> Some (Raises e s)
                     | Some (Returns _ s) \<Rightarrow> Some (get_ready fl s maxspeed_mmps)))))"

section \<open>An exact instance of the numbers\<close>

text \<open>
  Rational numbers with exact arithmetic, to run the model on concrete inputs.
  \<open>exact_str\<close> prints the decimal expansion (\<^verbatim>\<open>65000000.0\<close>, at most 17 fractional
  digits), \<open>exact_float\<close> reads an optional minus sign, digits and an optional fraction,
  \<open>exact_round3\<close> rounds to three decimals. On the inputs of the examples below Python
  computes the same comparisons.
\<close>

definition digit_char :: "nat \<Rightarrow> char" where
  "digit_char d = ''0123456789'' ! (d mod 10)"

fun nat_str :: "nat \<Rightarrow> string" where
  "nat_str n = (if n < 10 then [digit_char n] else nat_str (n div 10) @ [digit_char (n mod 10)])"

fun frac_str :: "nat \<Rightarrow> rat \<Rightarrow> string" where
  "frac_str k r =
     (if k = 0 \<or> r = 0 then []
      else digit_char (nat \<lfloor>r * 10\<rfloor>) # frac_str (k - 1) (r * 10 - of_int \<lfloor>r * 10\<rfloor>))"

definition exact_str :: "rat \<Rightarrow> string" where
  "exact_str q =
     (let a = \<bar>q\<bar>; f = frac_str 17 (a - of_int \<lfloor>a\<rfloor>)
      in (if q < 0 then ''-'' else []) @ nat_str (nat \<lfloor>a\<rfloor>) @ ''.'' @
         (if f = [] then ''0'' else f))"

fun digits_val :: "string \<Rightarrow> nat \<Rightarrow> nat option" where
  "digits_val [] acc = Some acc"
| "digits_val (c # cs) acc =
     (if c \<in> set ''0123456789'' then digits_val cs (10 * acc + (of_char c - 48)) else None)"

definition exact_float :: "string \<Rightarrow> rat option" where
  "exact_float s =
     (let neg = (take 1 s = ''-'');
          t = (if neg then drop 1 s else s);
          ip = takeWhile (\<lambda>c. c \<noteq> CHR ''.'') t;
          fp = drop 1 (dropWhile (\<lambda>c. c \<noteq> CHR ''.'') t)
      in if ip = [] then None
         else (case (digits_val ip 0, digits_val fp 0) of
                 (Some a, Some b) \<Rightarrow>
                   Some ((if neg then - 1 else 1) * (of_nat a + of_nat b / 10 ^ length fp))
               | _ \<Rightarrow> None))"

definition exact_round3 :: "rat \<Rightarrow> rat" where
  "exact_round3 q = of_int (round (q * 1000)) / 1000"

definition exact :: "rat numbers" where
  "exact =
     \<lparr>py_lit = (\<lambda>q. q), py_add = (+), py_mul = (*), py_div = (/),
      py_le = (\<le>), py_lt = (<), py_eq = (=),
      py_str = exact_str, py_float = exact_float, py_round3 = exact_round3\<rparr>"

section \<open>Notions used in the statements\<close>

text \<open>
  \<open>command_bytes addr cmd\<close> is the line \<^verbatim>\<open>_send\<close> writes for \<open>cmd\<close>. \<open>exchange p b\<close> is
  the port after \<open>b\<close> is written and one line is read; \<open>exchanged s cmd\<close> is the controller
  then (with the two very-verbose prints). \<open>payload line\<close> is what \<^verbatim>\<open>_send\<close> returns for a
  line. \<open>accepts addr verb rtype rx\<close> says that the line and unread count \<open>rx\<close> pass every
  check of \<^verbatim>\<open>_send\<close>, and \<open>answered s cmd\<close> is the controller after such an exchange.
\<close>

definition command_bytes :: "string \<Rightarrow> string \<Rightarrow> string" where
  "command_bytes addr cmd = ''/'' @ addr @ '' '' @ cmd @ LF"

definition exchange :: "port \<Rightarrow> string \<Rightarrow> port" where
  "exchange p b =
     p\<lparr>written := written p @ [b], in_waiting := snd (shd (incoming p)),
       incoming := stl (incoming p)\<rparr>"

definition exchanged :: "'f controller \<Rightarrow> string \<Rightarrow> 'f controller" where
  "exchanged s cmd =
     s\<lparr>port := exchange (port s) (command_bytes (device_address s) cmd),
       stdout := stdout s @
         (if very_verbose s
          then [(''%s: sending cmd = '',
                 [PStr (name s), PBytes (command_bytes (device_address s) cmd)]),
                (''%s: response    = '',
                 [PStr (name s), PBytes (fst (shd (incoming (port s))))])]
          else [])\<rparr>"

definition payload :: "string \<Rightarrow> string" where
  "payload line = drop 4 (strip CRLF line)"

definition accepts :: "string \<Rightarrow> bool \<Rightarrow> response_type \<Rightarrow> string \<times> nat \<Rightarrow> bool" where
  "accepts addr verb rtype rx =
     (let response = strip CRLF (fst rx)
      in endswith (fst rx) CRLF \<and> is_ascii (fst rx) \<and> response \<noteq> [] \<and>
         hd response = response_type_to_char rtype \<and> slice 1 3 response = addr \<and>
         (verb \<longrightarrow> item (split response) 2 \<noteq> None) \<and> snd rx = 0)"

definition answered :: "'f controller \<Rightarrow> string \<Rightarrow> 'f controller" where
  "answered s cmd =
     (if verbose s \<and> item (split (strip CRLF (fst (shd (incoming (port s)))))) 2 \<noteq> Some ''OK''
      then py_print (exchanged s cmd) ''%s: command rejected'' [PStr (name s)]
      else exchanged s cmd)"

definition reports :: "string \<Rightarrow> bool \<Rightarrow> string \<times> nat \<Rightarrow> bool option" where
  "reports addr verb rx =
     (if accepts addr verb reply rx
      then (case item (split (payload (fst rx))) 2 of
              None \<Rightarrow> None
            | Some busy \<Rightarrow> Some (busy = ''BUSY''))
      else None)"

definition keeps_setup :: "'f controller \<Rightarrow> 'f controller \<Rightarrow> bool" where
  "keeps_setup s s' =
     (name s' = name s \<and> verbose s' = verbose s \<and> very_verbose s' = very_verbose s \<and>
      x_min_mm s' = x_min_mm s \<and> x_max_mm s' = x_max_mm s \<and>
      y_min_mm s' = y_min_mm s \<and> y_max_mm s' = y_max_mm s \<and>
      device_id s' = device_id s \<and> device_name s' = device_name s \<and>
      device_address s' = device_address s)"

definition keeps_cache :: "'f controller \<Rightarrow> 'f controller \<Rightarrow> bool" where
  "keeps_cache s s' =
     (x_mm s' = x_mm s \<and> y_mm s' = y_mm s \<and> x_mmps s' = x_mmps s \<and> y_mmps s' = y_mmps s)"

definition polls_to_idle :: "string \<Rightarrow> bool \<Rightarrow> (string \<times> nat) list \<Rightarrow> bool" where
  "polls_to_idle addr verb rxs =
     (rxs \<noteq> [] \<and> list_all (\<lambda>rx. reports addr verb rx = Some True) (butlast rxs) \<and>
      reports addr verb (last rxs) = Some False)"

definition target :: "'f numbers \<Rightarrow> 'f \<Rightarrow> 'f \<Rightarrow> bool \<Rightarrow> 'f" where
  "target fl cached requested relative =
     (if relative then py_add fl cached requested else requested)"

definition in_limits :: "'f numbers \<Rightarrow> 'f \<Rightarrow> 'f \<Rightarrow> 'f \<Rightarrow> bool" where
  "in_limits fl lo hi t = (py_le fl lo t \<and> py_le fl t hi)"

definition move_abs :: "'f numbers \<Rightarrow> string \<Rightarrow> 'f \<Rightarrow> string" where
  "move_abs fl axis t = axis @ '' move abs '' @ py_str fl (py_mul fl (py_lit fl 1000000) t)"

text \<open>
  Examples. \<open>script ls\<close> is a device that answers the lines \<open>ls\<close>, each with its
  terminator and nothing left unread, and is silent afterwards (every later read times
  out). \<open>stage dev\<close> is a controller as \<^verbatim>\<open>__init__\<close> leaves it with the default limits, at
  the centre of the travel, talking to the device \<open>dev\<close>.
\<close>

definition script :: "string list \<Rightarrow> (string \<times> nat) stream" where
  "script ls = map (\<lambda>l. (l @ CRLF, 0)) ls @- sconst ([], 0)"

definition stage :: "(string \<times> nat) stream \<Rightarrow> rat controller" where
  "stage dev =
     \<lparr>name = ''X-ADR130'', verbose = True, very_verbose = False,
      x_min_mm = 0, x_max_mm = 130, y_min_mm = 0, y_max_mm = 100,
      port = \<lparr>written = [], in_waiting = 0, incoming = dev\<rparr>,
      device_id = ''50998'', device_name = ''X-ADR130B100B-SAE53D12'', device_address = ''01'',
      moving = False, moving_x = False, moving_y = False,
      x_mm = 65, y_mm = 50, x_mmps = 100, y_mmps = 100, stdout = []\<rparr>"

definition busy_twice :: "rat controller" where
  "busy_twice =
     (stage (script [''@01 0 OK BUSY -- 0'', ''@01 0 OK BUSY -- 0'', ''@01 0 OK IDLE -- 0'']))
       \<lparr>moving := True, moving_x := True, moving_y := True\<rparr>"

definition no_terminator :: "rat controller" where
  "no_terminator = stage ((''@01 0 OK IDLE -- 0'', 0) ## sconst ([], 0))"

definition wrong_marker :: "rat controller" where
  "wrong_marker = stage (script [''#01 0 OK IDLE -- 0''])"

definition wrong_address :: "rat controller" where
  "wrong_address = stage (script [''@02 0 OK IDLE -- 0''])"

definition leftover :: "rat controller" where
  "leftover = stage ((''@01 0 OK IDLE -- 0'' @ CRLF, 5) ## sconst ([], 0))"

definition clean :: "rat controller" where
  "clean = stage (script [''@01 0 OK IDLE -- 0''])"

definition rejected_quiet :: "rat controller" where
  "rejected_quiet = (stage (script [''@01 0 RJ IDLE -- BADCOMMAND'']))\<lparr>verbose := False\<rparr>"

definition rejected_loud :: "rat controller" where
  "rejected_loud = stage (script [''@01 0 RJ IDLE -- BADCOMMAND''])"

definition stopping_x :: "rat controller" where
  "stopping_x = stage (script [''@01 1 OK BUSY -- 0''])"

definition centred :: "rat controller" where
  "centred =
     stage (script [''@01 0 OK BUSY -- 0'', ''@01 1 OK BUSY -- 0'', ''@01 1 OK IDLE -- 0''])"

definition one_reply :: "rat controller" where
  "one_reply = stage (script [''@01 0 OK BUSY -- 0''])"

definition still_moving_x :: "rat controller" where
  "still_moving_x = (stage (script [''@01 1 OK IDLE -- 0'']))\<lparr>moving_x := True\<rparr>"

definition requested :: "'f option \<Rightarrow> 'f \<Rightarrow> 'f" where
  "requested arg cached = (case arg of None \<Rightarrow> cached | Some v \<Rightarrow> v)"

definition legal_speed :: "'f numbers \<Rightarrow> 'f \<Rightarrow> bool" where
  "legal_speed fl v = (py_le fl (py_lit fl (1 / 100)) v \<and> py_le fl v (py_lit fl 750))"

definition set_speed_command :: "'f numbers \<Rightarrow> string \<Rightarrow> 'f \<Rightarrow> string" where
  "set_speed_command fl axis v =
     axis @ '' set maxspeed '' @
     py_str fl (py_mul fl (py_mul fl (py_lit fl 1000000) (py_lit fl (16384 / 10000))) v)"

definition too_fast :: "rat controller" where
  "too_fast = stage (script [])"

definition speed_echoed :: "rat controller" where
  "speed_echoed =
     stage (script [''@01 1 OK IDLE -- 0'', ''@01 2 OK IDLE -- 0'',
                    ''@01 0 OK IDLE -- 163840000 163840000''])"

definition speed_quantized :: "rat controller" where
  "speed_quantized =
     stage (script [''@01 1 OK IDLE -- 0'', ''@01 2 OK IDLE -- 0'',
                    ''@01 0 OK IDLE -- 163840655 163840655''])"

definition speeds :: "'f controller \<Rightarrow> 'f \<times> 'f" where
  "speeds s = (x_mmps s, y_mmps s)"

definition legal_limits :: "'f numbers \<Rightarrow> 'f \<times> 'f \<Rightarrow> 'f \<times> 'f \<Rightarrow> bool" where
  "legal_limits fl x_limits_mm y_limits_mm =
     (list_all (\<lambda>x. py_le fl (py_lit fl 0) x \<and> py_le fl x (py_lit fl 130))
        [fst x_limits_mm, snd x_limits_mm] \<and>
      py_lt fl (fst x_limits_mm) (snd x_limits_mm) \<and>
      list_all (\<lambda>y. py_le fl (py_lit fl 0) y \<and> py_le fl y (py_lit fl 100))
        [fst y_limits_mm, snd y_limits_mm] \<and>
      py_lt fl (fst y_limits_mm) (snd y_limits_mm))"

definition identifies :: "string \<Rightarrow> bool" where
  "identifies line =
     (line \<noteq> [] \<and> is_ascii line \<and> split line \<noteq> [] \<and> last (split line) = ''50998'')"

definition needs_homing :: "rat controller" where
  "needs_homing =
     stage (script [''@01 0 OK IDLE WR 0'', ''@01 0 OK IDLE WR 01 WR'', ''@01 0 OK BUSY WR 0'',
                    ''@01 0 OK BUSY WR 0'', ''@01 0 OK IDLE -- 0'', ''@01 0 OK IDLE -- 00''])"

definition stalled_port :: port where
  "stalled_port =
     \<lparr>written = [], in_waiting = 0,
      incoming = script [''@01 0 OK IDLE FS 50998'', ''@01 0 OK IDLE FS 0'',
                         ''@01 0 OK IDLE FS 01 FS'', ''@01 0 OK IDLE FS 01 FS'']\<rparr>"

definition speed_reapplied :: "rat controller" where
  "speed_reapplied =
     (stage (script [''@01 0 OK IDLE -- 163840000 81920000'', ''@01 1 OK IDLE -- 0'',
                     ''@01 2 OK IDLE -- 0'', ''@01 0 OK IDLE -- 163840000 81920000'']))
       \<lparr>x_mmps := 1, y_mmps := 1\<rparr>"

definition speed_cached :: "rat controller" where
  "speed_cached =
     (stage (script [''@01 1 OK IDLE -- 0'', ''@01 2 OK IDLE -- 0'',
                     ''@01 0 OK IDLE -- 163840000 81920000'']))
       \<lparr>x_mmps := 100, y_mmps := 50\<rparr>"

section \<open>Properties of one exchange\<close>

declare nat_str.simps [simp del]
declare frac_str.simps [simp del]

lemma exchange_simps [simp]:
  "written (exchange p b) = written p @ [b]"
  "in_waiting (exchange p b) = snd (shd (incoming p))"
  "incoming (exchange p b) = stl (incoming p)"
  by (simp_all add: exchange_def)

lemma py_print_simps [simp]:
  "name (py_print s f a) = name s"
  "verbose (py_print s f a) = verbose s"
  "very_verbose (py_print s f a) = very_verbose s"
  "x_min_mm (py_print s f a) = x_min_mm s"
  "x_max_mm (py_print s f a) = x_max_mm s"
  "y_min_mm (py_print s f a) = y_min_mm s"
  "y_max_mm (py_print s f a) = y_max_mm s"
  "port (py_print s f a) = port s"
  "device_id (py_print s f a) = device_id s"
  "device_name (py_print s f a) = device_name s"
  "device_address (py_print s f a) = device_address s"
  "moving (py_print s f a) = moving s"
  "moving_x (py_print s f a) = moving_x s"
  "moving_y (py_print s f a) = moving_y s"
  "x_mm (py_print s f a) = x_mm s"
  "y_mm (py_print s f a) = y_mm s"
  "x_mmps (py_print s f a) = x_mmps s"
  "y_mmps (py_print s f a) = y_mmps s"
  "stdout (py_print s f a) = stdout s @ [(f, a)]"
  by (simp_all add: py_print_def)

lemma exchanged_simps [simp]:
  "name (exchanged s c) = name s"
  "verbose (exchanged s c) = verbose s"
  "very_verbose (exchanged s c) = very_verbose s"
  "x_min_mm (exchanged s c) = x_min_mm s"
  "x_max_mm (exchanged s c) = x_max_mm s"
  "y_min_mm (exchanged s c) = y_min_mm s"
  "y_max_mm (exchanged s c) = y_max_mm s"
  "port (exchanged s c) = exchange (port s) (command_bytes (device_address s) c)"
  "device_id (exchanged s c) = device_id s"
  "device_name (exchanged s c) = device_name s"
  "device_address (exchanged s c) = device_address s"
  "moving (exchanged s c) = moving s"
  "moving_x (exchanged s c) = moving_x s"
  "moving_y (exchanged s c) = moving_y s"
  "x_mm (exchanged s c) = x_mm s"
  "y_mm (exchanged s c) = y_mm s"
  "x_mmps (exchanged s c) = x_mmps s"
  "y_mmps (exchanged s c) = y_mmps s"
  by (simp_all add: exchanged_def)

lemma answered_simps [simp]:
  "name (answered s c) = name s"
  "verbose (answered s c) = verbose s"
  "very_verbose (answered s c) = very_verbose s"
  "x_min_mm (answered s c) = x_min_mm s"
  "x_max_mm (answered s c) = x_max_mm s"
  "y_min_mm (answered s c) = y_min_mm s"
  "y_max_mm (answered s c) = y_max_mm s"
  "port (answered s c) = exchange (port s) (command_bytes (device_address s) c)"
  "device_id (answered s c) = device_id s"
  "device_name (answered s c) = device_name s"
  "device_address (answered s c) = device_address s"
  "moving (answered s c) = moving s"
  "moving_x (answered s c) = moving_x s"
  "moving_y (answered s c) = moving_y s"
  "x_mm (answered s c) = x_mm s"
  "y_mm (answered s c) = y_mm s"
  "x_mmps (answered s c) = x_mmps s"
  "y_mmps (answered s c) = y_mmps s"
  by (simp_all add: answered_def)

lemma send_prefix:
  "(let cmdb = ''/'' @ device_address s @ '' '' @ cmd @ LF;
        s = (if very_verbose s
             then py_print s ''%s: sending cmd = '' [PStr (name s), PBytes cmdb] else s);
        s = s\<lparr>port := port_write (port s) cmdb\<rparr>;
        (response, p) = port_readline (port s);
        s = s\<lparr>port := p\<rparr>;
        s = (if very_verbose s
             then py_print s ''%s: response    = '' [PStr (name s), PBytes response] else s)
    in f response s) = f (fst (shd (incoming (port s)))) (exchanged s cmd)"
  by (cases "very_verbose s")
    (simp_all add: Let_def exchanged_def exchange_def command_bytes_def py_print_def
       port_readline_def port_write_def)

lemma send_unfold:
  "send s cmd rtype =
     (let response = fst (shd (incoming (port s))); s = exchanged s cmd
      in if \<not> endswith response CRLF
         then Raises (AssertionError ''%s: unexpected response terminator'') s
         else if \<not> is_ascii response then Raises UnicodeDecodeError s
         else
           (let response = strip CRLF response in
            (case response of
               [] \<Rightarrow> Raises IndexError s
             | c # _ \<Rightarrow>
                 if c \<noteq> response_type_to_char rtype
                 then Raises (AssertionError ''%s: unexpected response character (%s)'') s
                 else if slice 1 3 response \<noteq> device_address s
                 then Raises (AssertionError ''%s: unexpected device address (%s)'') s
                 else
                   (case (if verbose s
                          then (case item (split response) 2 of
                                  None \<Rightarrow> Inl IndexError
                                | Some status \<Rightarrow>
                                    Inr (if status \<noteq> ''OK''
                                         then py_print s ''%s: command rejected'' [PStr (name s)]
                                         else s))
                          else Inr s) of
                      Inl e \<Rightarrow> Raises e s
                    | Inr s \<Rightarrow>
                        if in_waiting (port s) \<noteq> 0 then Raises (AssertionError []) s
                        else Returns (drop 4 response) s))))"
  unfolding send_def
  apply (subst send_prefix)
  apply (simp only: Let_def)
  done

lemma send_accepted:
  assumes "accepts (device_address s) (verbose s) rtype (shd (incoming (port s)))"
  shows "send s cmd rtype = Returns (payload (fst (shd (incoming (port s))))) (answered s cmd)"
proof -
  obtain line n where ln: "shd (incoming (port s)) = (line, n)" by (cases "shd (incoming (port s))")
  from assms ln obtain c r where
    a: "endswith line CRLF" "is_ascii line" "strip CRLF line = c # r"
      "c = response_type_to_char rtype" "slice 1 3 (c # r) = device_address s"
      "verbose s \<longrightarrow> item (split (c # r)) 2 \<noteq> None" "n = 0"
    by (cases "strip CRLF line") (auto simp: accepts_def Let_def)
  show ?thesis
  proof (cases "verbose s")
    case True
    with a obtain st where st: "item (split (c # r)) 2 = Some st" by auto
    show ?thesis
      using a True st ln
      by (simp add: send_unfold Let_def answered_def payload_def)
  next
    case False
    show ?thesis
      using a False ln
      by (simp add: send_unfold Let_def answered_def payload_def)
  qed
qed

lemma send_returns_iff:
  "(\<exists>r s'. send s cmd rtype = Returns r s') \<longleftrightarrow>
     accepts (device_address s) (verbose s) rtype (shd (incoming (port s)))"
proof
  assume "accepts (device_address s) (verbose s) rtype (shd (incoming (port s)))"
  then show "\<exists>r s'. send s cmd rtype = Returns r s'" by (auto simp: send_accepted)
next
  assume "\<exists>r s'. send s cmd rtype = Returns r s'"
  then obtain r s' where "send s cmd rtype = Returns r s'" by blast
  then show "accepts (device_address s) (verbose s) rtype (shd (incoming (port s)))"
    by (cases "shd (incoming (port s))")
       (auto simp: send_unfold Let_def accepts_def split: if_splits list.splits option.splits)
qed

lemma keeps_setup_refl [simp]: "keeps_setup s s"
  by (simp add: keeps_setup_def)

lemma keeps_cache_refl [simp]: "keeps_cache s s"
  by (simp add: keeps_cache_def)

lemma keeps_setup_trans: "keeps_setup s s1 \<Longrightarrow> keeps_setup s1 s2 \<Longrightarrow> keeps_setup s s2"
  by (simp add: keeps_setup_def)

lemma keeps_cache_trans: "keeps_cache s s1 \<Longrightarrow> keeps_cache s1 s2 \<Longrightarrow> keeps_cache s s2"
  by (simp add: keeps_cache_def)

lemma get_status_reports:
  assumes "reports (device_address s) (verbose s) (shd (incoming (port s))) = Some b"
  shows "\<exists>s'. get_status s = Returns (payload (fst (shd (incoming (port s))))) s' \<and>
           moving s' = b \<and>
           port s' = exchange (port s) (command_bytes (device_address s) []) \<and>
           keeps_setup s s' \<and> keeps_cache s s' \<and>
           moving_x s' = moving_x s \<and> moving_y s' = moving_y s"
proof -
  let ?s0 = "if very_verbose s then py_print s ''%s: getting status'' [PStr (name s)] else s"
  from assms have acc: "accepts (device_address ?s0) (verbose ?s0) reply (shd (incoming (port ?s0)))"
    by (simp add: reports_def split: if_splits)
  from assms obtain t where t: "item (split (payload (fst (shd (incoming (port s)))))) 2 = Some t"
    and b: "b = (t = ''BUSY'')"
    by (auto simp: reports_def split: if_splits option.splits)
  have pl: "payload (fst (shd (incoming (port ?s0)))) = payload (fst (shd (incoming (port s))))"
    by simp
  show ?thesis
    unfolding get_status_def Let_def send_accepted [OF acc] pl
    using t b by (simp add: keeps_setup_def keeps_cache_def)
qed

lemma get_status_x_reports:
  assumes "reports (device_address s) (verbose s) (shd (incoming (port s))) = Some b"
  shows "\<exists>s'. get_status_x s = Returns (payload (fst (shd (incoming (port s))))) s' \<and>
           moving_x s' = b \<and>
           port s' = exchange (port s) (command_bytes (device_address s) ''1'') \<and>
           keeps_setup s s' \<and> keeps_cache s s' \<and>
           moving s' = moving s \<and> moving_y s' = moving_y s"
proof -
  let ?s0 = "if very_verbose s then py_print s ''%s: getting status on x'' [PStr (name s)] else s"
  from assms have acc: "accepts (device_address ?s0) (verbose ?s0) reply (shd (incoming (port ?s0)))"
    by (simp add: reports_def split: if_splits)
  from assms obtain t where t: "item (split (payload (fst (shd (incoming (port s)))))) 2 = Some t"
    and b: "b = (t = ''BUSY'')"
    by (auto simp: reports_def split: if_splits option.splits)
  have pl: "payload (fst (shd (incoming (port ?s0)))) = payload (fst (shd (incoming (port s))))"
    by simp
  show ?thesis
    unfolding get_status_x_def Let_def send_accepted [OF acc] pl
    using t b by (simp add: keeps_setup_def keeps_cache_def)
qed

lemma get_status_y_reports:
  assumes "reports (device_address s) (verbose s) (shd (incoming (port s))) = Some b"
  shows "\<exists>s'. get_status_y s = Returns (payload (fst (shd (incoming (port s))))) s' \<and>
           moving_y s' = b \<and>
           port s' = exchange (port s) (command_bytes (device_address s) ''2'') \<and>
           keeps_setup s s' \<and> keeps_cache s s' \<and>
           moving s' = moving s \<and> moving_x s' = moving_x s"
proof -
  let ?s0 = "if very_verbose s then py_print s ''%s: getting status on y'' [PStr (name s)] else s"
  from assms have acc: "accepts (device_address ?s0) (verbose ?s0) reply (shd (incoming (port ?s0)))"
    by (simp add: reports_def split: if_splits)
  from assms obtain t where t: "item (split (payload (fst (shd (incoming (port s)))))) 2 = Some t"
    and b: "b = (t = ''BUSY'')"
    by (auto simp: reports_def split: if_splits option.splits)
  have pl: "payload (fst (shd (incoming (port ?s0)))) = payload (fst (shd (incoming (port s))))"
    by simp
  show ?thesis
    unfolding get_status_y_def Let_def send_accepted [OF acc] pl
    using t b by (simp add: keeps_setup_def keeps_cache_def)
qed

lemma finish_moving_idle:
  "\<not> moving s \<Longrightarrow>
     finish_moving s =
       Some (Returns ()
         (if verbose s then py_print s ''%s:  -> finished moving'' [PStr (name s)] else s))"
  by (subst finish_moving.simps) simp

lemma finish_moving_polls:
  assumes "moving s"
    and "incoming (port s) = busy @- (idle ## rest)"
    and "\<forall>rx \<in> set busy. reports (device_address s) (verbose s) rx = Some True"
    and "reports (device_address s) (verbose s) idle = Some False"
  shows "\<exists>s'. finish_moving s = Some (Returns () s') \<and> \<not> moving s' \<and>
           written (port s') =
             written (port s) @
               replicate (Suc (length busy)) (command_bytes (device_address s) []) \<and>
           in_waiting (port s') = 0 \<and> incoming (port s') = rest \<and>
           keeps_setup s s' \<and> keeps_cache s s' \<and>
           moving_x s' = moving_x s \<and> moving_y s' = moving_y s"
  using assms
proof (induction busy arbitrary: s)
  case Nil
  then have "reports (device_address s) (verbose s) (shd (incoming (port s))) = Some False"
    by simp
  from get_status_reports [OF this] obtain s1 where
    s1: "get_status s = Returns (payload (fst (shd (incoming (port s))))) s1" "\<not> moving s1"
      "port s1 = exchange (port s) (command_bytes (device_address s) [])"
      "keeps_setup s s1" "keeps_cache s s1" "moving_x s1 = moving_x s" "moving_y s1 = moving_y s"
    by auto
  from Nil.prems(4) have "snd idle = 0"
    by (simp add: reports_def accepts_def Let_def split: if_splits)
  with s1 Nil.prems show ?case
    by (subst finish_moving.simps)
       (simp add: finish_moving_idle keeps_setup_def keeps_cache_def)
next
  case (Cons rx busy)
  then have "reports (device_address s) (verbose s) (shd (incoming (port s))) = Some True"
    by simp
  from get_status_reports [OF this] obtain s1 where
    s1: "get_status s = Returns (payload (fst (shd (incoming (port s))))) s1" "moving s1"
      "port s1 = exchange (port s) (command_bytes (device_address s) [])"
      "keeps_setup s s1" "keeps_cache s s1" "moving_x s1 = moving_x s" "moving_y s1 = moving_y s"
    by auto
  from s1 Cons.prems have p: "incoming (port s1) = busy @- (idle ## rest)"
    "device_address s1 = device_address s" "verbose s1 = verbose s"
    by (simp_all add: keeps_setup_def)
  from Cons.IH [of s1] s1(2) p Cons.prems obtain s' where
    s': "finish_moving s1 = Some (Returns () s')" "\<not> moving s'"
      "written (port s') =
         written (port s1) @ replicate (Suc (length busy)) (command_bytes (device_address s) [])"
      "in_waiting (port s') = 0" "incoming (port s') = rest"
      "keeps_setup s1 s'" "keeps_cache s1 s'"
      "moving_x s' = moving_x s1" "moving_y s' = moving_y s1"
    by auto
  have "finish_moving s = finish_moving s1"
    using Cons.prems(1) s1(1) by (subst finish_moving.simps) simp
  with s' s1 show ?case
    by (auto simp: replicate_append_same intro: keeps_setup_trans keeps_cache_trans)
qed

lemma finish_moving_script:
  assumes "incoming (port s) = rxs @- rest"
    and "if moving s then polls_to_idle (device_address s) (verbose s) rxs else rxs = []"
  shows "\<exists>s'. finish_moving s = Some (Returns () s') \<and> \<not> moving s' \<and>
           written (port s') =
             written (port s) @ replicate (length rxs) (command_bytes (device_address s) []) \<and>
           incoming (port s') = rest \<and>
           keeps_setup s s' \<and> keeps_cache s s' \<and>
           moving_x s' = moving_x s \<and> moving_y s' = moving_y s"
proof (cases "moving s")
  case False
  with assms show ?thesis
    by (simp add: finish_moving_idle keeps_setup_def keeps_cache_def)
next
  case True
  with assms have p: "polls_to_idle (device_address s) (verbose s) rxs" by simp
  then have ne: "rxs \<noteq> []" by (simp add: polls_to_idle_def)
  then have split: "rxs = butlast rxs @ [last rxs]" by simp
  have "incoming (port s) = butlast rxs @- (last rxs ## rest)"
    using assms(1) by (subst (asm) split) (simp add: shift_append)
  moreover from p have "\<forall>rx \<in> set (butlast rxs). reports (device_address s) (verbose s) rx = Some True"
    by (simp add: polls_to_idle_def list_all_iff)
  moreover from p have "reports (device_address s) (verbose s) (last rxs) = Some False"
    by (simp add: polls_to_idle_def)
  moreover have len: "Suc (length (butlast rxs)) = length rxs" using ne by simp
  ultimately show ?thesis
    using finish_moving_polls [OF True, of "butlast rxs" "last rxs" rest] unfolding len by blast
qed

lemma finish_moving_x_idle:
  "\<not> moving_x s \<Longrightarrow>
     finish_moving_x s =
       Some (Returns ()
         (if very_verbose s then py_print s ''%s:  -> finished moving x'' [PStr (name s)] else s))"
  by (subst finish_moving_x.simps) simp

lemma finish_moving_x_polls:
  assumes "moving_x s"
    and "incoming (port s) = busy @- (idle ## rest)"
    and "\<forall>rx \<in> set busy. reports (device_address s) (verbose s) rx = Some True"
    and "reports (device_address s) (verbose s) idle = Some False"
  shows "\<exists>s'. finish_moving_x s = Some (Returns () s') \<and> \<not> moving_x s' \<and>
           written (port s') =
             written (port s) @
               replicate (Suc (length busy)) (command_bytes (device_address s) ''1'') \<and>
           in_waiting (port s') = 0 \<and> incoming (port s') = rest \<and>
           keeps_setup s s' \<and> keeps_cache s s' \<and>
           moving s' = moving s \<and> moving_y s' = moving_y s"
  using assms
proof (induction busy arbitrary: s)
  case Nil
  then have "reports (device_address s) (verbose s) (shd (incoming (port s))) = Some False"
    by simp
  from get_status_x_reports [OF this] obtain s1 where
    s1: "get_status_x s = Returns (payload (fst (shd (incoming (port s))))) s1" "\<not> moving_x s1"
      "port s1 = exchange (port s) (command_bytes (device_address s) ''1'')"
      "keeps_setup s s1" "keeps_cache s s1" "moving s1 = moving s" "moving_y s1 = moving_y s"
    by auto
  from Nil.prems(4) have "snd idle = 0"
    by (simp add: reports_def accepts_def Let_def split: if_splits)
  with s1 Nil.prems show ?case
    by (subst finish_moving_x.simps)
       (simp add: finish_moving_x_idle keeps_setup_def keeps_cache_def)
next
  case (Cons rx busy)
  then have "reports (device_address s) (verbose s) (shd (incoming (port s))) = Some True"
    by simp
  from get_status_x_reports [OF this] obtain s1 where
    s1: "get_status_x s = Returns (payload (fst (shd (incoming (port s))))) s1" "moving_x s1"
      "port s1 = exchange (port s) (command_bytes (device_address s) ''1'')"
      "keeps_setup s s1" "keeps_cache s s1" "moving s1 = moving s" "moving_y s1 = moving_y s"
    by auto
  from s1 Cons.prems have p: "incoming (port s1) = busy @- (idle ## rest)"
    "device_address s1 = device_address s" "verbose s1 = verbose s"
    by (simp_all add: keeps_setup_def)
  from Cons.IH [of s1] s1(2) p Cons.prems obtain s' where
    s': "finish_moving_x s1 = Some (Returns () s')" "\<not> moving_x s'"
      "written (port s') =
         written (port s1) @ replicate (Suc (length busy)) (command_bytes (device_address s) ''1'')"
      "in_waiting (port s') = 0" "incoming (port s') = rest"
      "keeps_setup s1 s'" "keeps_cache s1 s'"
      "moving s' = moving s1" "moving_y s' = moving_y s1"
    by auto
  have "finish_moving_x s = finish_moving_x s1"
    using Cons.prems(1) s1(1) by (subst finish_moving_x.simps) simp
  with s' s1 show ?case
    by (auto simp: replicate_append_same intro: keeps_setup_trans keeps_cache_trans)
qed

lemma finish_moving_x_script:
  assumes "incoming (port s) = rxs @- rest"
    and "if moving_x s then polls_to_idle (device_address s) (verbose s) rxs else rxs = []"
  shows "\<exists>s'. finish_moving_x s = Some (Returns () s') \<and> \<not> moving_x s' \<and>
           written (port s') =
             written (port s) @ replicate (length rxs) (command_bytes (device_address s) ''1'') \<and>
           incoming (port s') = rest \<and>
           keeps_setup s s' \<and> keeps_cache s s' \<and>
           moving s' = moving s \<and> moving_y s' = moving_y s"
proof (cases "moving_x s")
  case False
  with assms show ?thesis
    by (simp add: finish_moving_x_idle keeps_setup_def keeps_cache_def)
next
  case True
  with assms have p: "polls_to_idle (device_address s) (verbose s) rxs" by simp
  then have ne: "rxs \<noteq> []" by (simp add: polls_to_idle_def)
  then have split: "rxs = butlast rxs @ [last rxs]" by simp
  have "incoming (port s) = butlast rxs @- (last rxs ## rest)"
    using assms(1) by (subst (asm) split) (simp add: shift_append)
  moreover from p have "\<forall>rx \<in> set (butlast rxs). reports (device_address s) (verbose s) rx = Some True"
    by (simp add: polls_to_idle_def list_all_iff)
  moreover from p have "reports (device_address s) (verbose s) (last rxs) = Some False"
    by (simp add: polls_to_idle_def)
  moreover have len: "Suc (length (butlast rxs)) = length rxs" using ne by simp
  ultimately show ?thesis
    using finish_moving_x_polls [OF True, of "butlast rxs" "last rxs" rest] unfolding len by blast
qed

lemma finish_moving_y_idle:
  "\<not> moving_y s \<Longrightarrow>
     finish_moving_y s =
       Some (Returns ()
         (if very_verbose s then py_print s ''%s:  -> finished moving y'' [PStr (name s)] else s))"
  by (subst finish_moving_y.simps) simp

lemma finish_moving_y_polls:
  assumes "moving_y s"
    and "incoming (port s) = busy @- (idle ## rest)"
    and "\<forall>rx \<in> set busy. reports (device_address s) (verbose s) rx = Some True"
    and "reports (device_address s) (verbose s) idle = Some False"
  shows "\<exists>s'. finish_moving_y s = Some (Returns () s') \<and> \<not> moving_y s' \<and>
           written (port s') =
             written (port s) @
               replicate (Suc (length busy)) (command_bytes (device_address s) ''2'') \<and>
           in_waiting (port s') = 0 \<and> incoming (port s') = rest \<and>
           keeps_setup s s' \<and> keeps_cache s s' \<and>
           moving s' = moving s \<and> moving_x s' = moving_x s"
  using assms
proof (induction busy arbitrary: s)
  case Nil
  then have "reports (device_address s) (verbose s) (shd (incoming (port s))) = Some False"
    by simp
  from get_status_y_reports [OF this] obtain s1 where
    s1: "get_status_y s = Returns (payload (fst (shd (incoming (port s))))) s1" "\<not> moving_y s1"
      "port s1 = exchange (port s) (command_bytes (device_address s) ''2'')"
      "keeps_setup s s1" "keeps_cache s s1" "moving s1 = moving s" "moving_x s1 = moving_x s"
    by auto
  from Nil.prems(4) have "snd idle = 0"
    by (simp add: reports_def accepts_def Let_def split: if_splits)
  with s1 Nil.prems show ?case
    by (subst finish_moving_y.simps)
       (simp add: finish_moving_y_idle keeps_setup_def keeps_cache_def)
next
  case (Cons rx busy)
  then have "reports (device_address s) (verbose s) (shd (incoming (port s))) = Some True"
    by simp
  from get_status_y_reports [OF this] obtain s1 where
    s1: "get_status_y s = Returns (payload (fst (shd (incoming (port s))))) s1" "moving_y s1"
      "port s1 = exchange (port s) (command_bytes (device_address s) ''2'')"
      "keeps_setup s s1" "keeps_cache s s1" "moving s1 = moving s" "moving_x s1 = moving_x s"
    by auto
  from s1 Cons.prems have p: "incoming (port s1) = busy @- (idle ## rest)"
    "device_address s1 = device_address s" "verbose s1 = verbose s"
    by (simp_all add: keeps_setup_def)
  from Cons.IH [of s1] s1(2) p Cons.prems obtain s' where
    s': "finish_moving_y s1 = Some (Returns () s')" "\<not> moving_y s'"
      "written (port s') =
         written (port s1) @ replicate (Suc (length busy)) (command_bytes (device_address s) ''2'')"
      "in_waiting (port s') = 0" "incoming (port s') = rest"
      "keeps_setup s1 s'" "keeps_cache s1 s'"
      "moving s' = moving s1" "moving_x s' = moving_x s1"
    by auto
  have "finish_moving_y s = finish_moving_y s1"
    using Cons.prems(1) s1(1) by (subst finish_moving_y.simps) simp
  with s' s1 show ?case
    by (auto simp: replicate_append_same intro: keeps_setup_trans keeps_cache_trans)
qed

lemma finish_moving_y_script:
  assumes "incoming (port s) = rxs @- rest"
    and "if moving_y s then polls_to_idle (device_address s) (verbose s) rxs else rxs = []"
  shows "\<exists>s'. finish_moving_y s = Some (Returns () s') \<and> \<not> moving_y s' \<and>
           written (port s') =
             written (port s) @ replicate (length rxs) (command_bytes (device_address s) ''2'') \<and>
           incoming (port s') = rest \<and>
           keeps_setup s s' \<and> keeps_cache s s' \<and>
           moving s' = moving s \<and> moving_x s' = moving_x s"
proof (cases "moving_y s")
  case False
  with assms show ?thesis
    by (simp add: finish_moving_y_idle keeps_setup_def keeps_cache_def)
next
  case True
  with assms have p: "polls_to_idle (device_address s) (verbose s) rxs" by simp
  then have ne: "rxs \<noteq> []" by (simp add: polls_to_idle_def)
  then have split: "rxs = butlast rxs @ [last rxs]" by simp
  have "incoming (port s) = butlast rxs @- (last rxs ## rest)"
    using assms(1) by (subst (asm) split) (simp add: shift_append)
  moreover from p have "\<forall>rx \<in> set (butlast rxs). reports (device_address s) (verbose s) rx = Some True"
    by (simp add: polls_to_idle_def list_all_iff)
  moreover from p have "reports (device_address s) (verbose s) (last rxs) = Some False"
    by (simp add: polls_to_idle_def)
  moreover have len: "Suc (length (butlast rxs)) = length rxs" using ne by simp
  ultimately show ?thesis
    using finish_moving_y_polls [OF True, of "butlast rxs" "last rxs" rest] unfolding len by blast
qed

lemma move_x_pending:
  assumes "(if moving_x s then finish_moving_x s else Some (Returns () s)) = Some (Returns u s1)"
    and "\<not> moving_x s1"
  shows "move_x fl s x relative block = move_x fl s1 x relative block"
  using assms by (simp add: move_x_def)

lemma move_x_idle_out:
  assumes "\<not> moving_x s"
    and "\<not> in_limits fl (x_min_mm s) (x_max_mm s) (target fl (x_mm s) x relative)"
  shows "move_x fl s x relative block =
     Some (Returns ()
       (let s = (if very_verbose s
                 then py_print s ''%s: moving to x_mm = %10.06f (relative=%s)''
                        [PStr (name s), PNum x, PBool relative]
                 else s)
        in if verbose s
           then py_print s ''%s: ***WARNING*** -> x_mm out of limits'' [PStr (name s)]
           else s))"
  using assms by (cases relative) (auto simp: move_x_def in_limits_def target_def Let_def)

lemma move_x_idle_in:
  assumes "\<not> moving_x s"
    and "in_limits fl (x_min_mm s) (x_max_mm s) (target fl (x_mm s) x relative)"
    and "accepts (device_address s) (verbose s) reply (shd (incoming (port s)))"
  shows "move_x fl s x relative block =
     (let s = (if very_verbose s
               then py_print s ''%s: moving to x_mm = %10.06f (relative=%s)''
                      [PStr (name s), PNum x, PBool relative]
               else s);
          s = (answered s (move_abs fl ''1'' (target fl (x_mm s) x relative)))
                \<lparr>moving_x := True, x_mm := target fl (x_mm s) x relative\<rparr>
      in if block then finish_moving_x s else Some (Returns () s))"
proof -
  let ?s0 = "if very_verbose s
               then py_print s ''%s: moving to x_mm = %10.06f (relative=%s)''
                      [PStr (name s), PNum x, PBool relative]
               else s"
  have acc: "accepts (device_address ?s0) (verbose ?s0) reply (shd (incoming (port ?s0)))"
    using assms(3) by simp
  have w: "py_le fl (x_min_mm ?s0) (if relative then py_add fl (x_mm ?s0) x else x) \<and>
           py_le fl (if relative then py_add fl (x_mm ?s0) x else x) (x_max_mm ?s0)"
    using assms(2) by (cases relative) (simp_all add: in_limits_def target_def)
  have x: "x_mm ?s0 = x_mm s" by simp
  show ?thesis
    unfolding move_x_def Let_def
    using assms(1) w
    by (simp add: send_accepted [OF acc] move_abs_def target_def x del: split_paired_All)
qed

lemma pending_x:
  assumes "incoming (port s) = pre @- rest"
    and "if moving_x s then polls_to_idle (device_address s) (verbose s) pre else pre = []"
  shows "\<exists>s1. (if moving_x s then finish_moving_x s else Some (Returns () s)) =
                Some (Returns () s1) \<and> \<not> moving_x s1 \<and>
           written (port s1) =
             written (port s) @ replicate (length pre) (command_bytes (device_address s) ''1'') \<and>
           incoming (port s1) = rest \<and>
           keeps_setup s s1 \<and> keeps_cache s s1 \<and>
           moving s1 = moving s \<and> moving_y s1 = moving_y s"
proof (cases "moving_x s")
  case True
  with finish_moving_x_script [OF assms] show ?thesis by simp
next
  case False
  with assms show ?thesis by simp
qed

lemma move_x_script:
  assumes st: "incoming (port s) = pre @- (acks @- (post @- rest))"
    and pre: "if moving_x s then polls_to_idle (device_address s) (verbose s) pre else pre = []"
    and t: "t = target fl (x_mm s) x relative"
    and script:
      "if in_limits fl (x_min_mm s) (x_max_mm s) t
       then (\<exists>ack. acks = [ack] \<and> accepts (device_address s) (verbose s) reply ack) \<and>
            (if block then polls_to_idle (device_address s) (verbose s) post else post = [])
       else acks = [] \<and> post = []"
  shows "\<exists>s'. move_x fl s x relative block = Some (Returns () s') \<and>
           written (port s') =
             written (port s) @
             replicate (length pre) (command_bytes (device_address s) ''1'') @
             (if in_limits fl (x_min_mm s) (x_max_mm s) t
              then command_bytes (device_address s) (move_abs fl ''1'' t) #
                   replicate (length post) (command_bytes (device_address s) ''1'')
              else []) \<and>
           incoming (port s') = rest \<and>
           x_mm s' = (if in_limits fl (x_min_mm s) (x_max_mm s) t then t else x_mm s) \<and>
           moving_x s' = (in_limits fl (x_min_mm s) (x_max_mm s) t \<and> \<not> block) \<and>
           keeps_setup s s' \<and> y_mm s' = y_mm s \<and> x_mmps s' = x_mmps s \<and>
           y_mmps s' = y_mmps s \<and> moving s' = moving s \<and> moving_y s' = moving_y s \<and>
           (\<not> in_limits fl (x_min_mm s) (x_max_mm s) t \<and> verbose s \<longrightarrow>
              stdout s' \<noteq> [] \<and>
              last (stdout s') =
                (''%s: ***WARNING*** -> x_mm out of limits'', [PStr (name s)]))"
proof -
  from pending_x [OF st pre] obtain s1 where
    s1: "(if moving_x s then finish_moving_x s else Some (Returns () s)) = Some (Returns () s1)"
      "\<not> moving_x s1"
      "written (port s1) =
         written (port s) @ replicate (length pre) (command_bytes (device_address s) ''1'')"
      "incoming (port s1) = acks @- (post @- rest)"
      "keeps_setup s s1" "keeps_cache s s1" "moving s1 = moving s" "moving_y s1 = moving_y s"
    by blast
  have eq: "move_x fl s x relative block = move_x fl s1 x relative block"
    using s1(1,2) by (rule move_x_pending)
  from s1(5,6) have same:
    "x_min_mm s1 = x_min_mm s" "x_max_mm s1 = x_max_mm s" "x_mm s1 = x_mm s"
    "device_address s1 = device_address s" "verbose s1 = verbose s" "name s1 = name s"
    "y_mm s1 = y_mm s" "x_mmps s1 = x_mmps s" "y_mmps s1 = y_mmps s"
    by (simp_all add: keeps_setup_def keeps_cache_def)
  let ?s0 = "if very_verbose s1
             then py_print s1 ''%s: moving to x_mm = %10.06f (relative=%s)''
                    [PStr (name s1), PNum x, PBool relative]
             else s1"
  show ?thesis
  proof (cases "in_limits fl (x_min_mm s) (x_max_mm s) t")
    case False
    then have out: "\<not> in_limits fl (x_min_mm s1) (x_max_mm s1) (target fl (x_mm s1) x relative)"
      by (simp add: same t)
    from False script have e: "acks = []" "post = []" by simp_all
    show ?thesis
      unfolding eq move_x_idle_out [OF s1(2) out]
      using False s1 e by (simp add: Let_def same keeps_setup_def)
  next
    case True
    then have inl: "in_limits fl (x_min_mm s1) (x_max_mm s1) (target fl (x_mm s1) x relative)"
      by (simp add: same t)
    from True script obtain ack where
      ack: "acks = [ack]" "accepts (device_address s) (verbose s) reply ack"
      and post: "if block then polls_to_idle (device_address s) (verbose s) post else post = []"
      by auto
    have acc: "accepts (device_address s1) (verbose s1) reply (shd (incoming (port s1)))"
      using ack s1(4) by (simp add: same)
    define s3 where
      "s3 = (answered ?s0 (move_abs fl ''1'' (target fl (x_mm ?s0) x relative)))
              \<lparr>moving_x := True, x_mm := target fl (x_mm ?s0) x relative\<rparr>"
    have mv: "move_x fl s1 x relative block =
                (if block then finish_moving_x s3 else Some (Returns () s3))"
      unfolding move_x_idle_in [OF s1(2) inl acc] s3_def Let_def ..
    have s3: "moving_x s3" "x_mm s3 = t"
      "written (port s3) =
         written (port s1) @ [command_bytes (device_address s) (move_abs fl ''1'' t)]"
      "incoming (port s3) = post @- rest"
      "keeps_setup s1 s3" "y_mm s3 = y_mm s" "x_mmps s3 = x_mmps s" "y_mmps s3 = y_mmps s"
      "moving s3 = moving s" "moving_y s3 = moving_y s"
      "device_address s3 = device_address s" "verbose s3 = verbose s"
      using s1 ack by (simp_all add: s3_def same t keeps_setup_def)
    show ?thesis
    proof (cases block)
      case False
      with post have "post = []" by simp
      with s3 s1 True False show ?thesis
        unfolding eq mv by (simp add: keeps_setup_def)
    next
      case b: True
      with post s3 have
        "if moving_x s3 then polls_to_idle (device_address s3) (verbose s3) post else post = []"
        by simp
      from finish_moving_x_script [OF s3(4) this] obtain s' where
        s': "finish_moving_x s3 = Some (Returns () s')" "\<not> moving_x s'"
          "written (port s') =
             written (port s3) @ replicate (length post) (command_bytes (device_address s3) ''1'')"
          "incoming (port s') = rest" "keeps_setup s3 s'" "keeps_cache s3 s'"
          "moving s' = moving s3" "moving_y s' = moving_y s3"
        by blast
      from s' s3 s1 True b show ?thesis
        unfolding eq mv by (simp add: keeps_setup_def keeps_cache_def)
    qed
  qed
qed

lemma move_y_pending:
  assumes "(if moving_y s then finish_moving_y s else Some (Returns () s)) = Some (Returns u s1)"
    and "\<not> moving_y s1"
  shows "move_y fl s y relative block = move_y fl s1 y relative block"
  using assms by (simp add: move_y_def)

lemma move_y_idle_out:
  assumes "\<not> moving_y s"
    and "\<not> in_limits fl (y_min_mm s) (y_max_mm s) (target fl (y_mm s) y relative)"
  shows "move_y fl s y relative block =
     Some (Returns ()
       (let s = (if very_verbose s
                 then py_print s ''%s: moving to y_mm = %10.06f (relative=%s)''
                        [PStr (name s), PNum y, PBool relative]
                 else s)
        in if verbose s
           then py_print s ''%s: ***WARNING*** -> y_mm out of limits'' [PStr (name s)]
           else s))"
  using assms by (cases relative) (auto simp: move_y_def in_limits_def target_def Let_def)

lemma move_y_idle_in:
  assumes "\<not> moving_y s"
    and "in_limits fl (y_min_mm s) (y_max_mm s) (target fl (y_mm s) y relative)"
    and "accepts (device_address s) (verbose s) reply (shd (incoming (port s)))"
  shows "move_y fl s y relative block =
     (let s = (if very_verbose s
               then py_print s ''%s: moving to y_mm = %10.06f (relative=%s)''
                      [PStr (name s), PNum y, PBool relative]
               else s);
          s = (answered s (move_abs fl ''2'' (target fl (y_mm s) y relative)))
                \<lparr>moving_y := True, y_mm := target fl (y_mm s) y relative\<rparr>
      in if block then finish_moving_y s else Some (Returns () s))"
proof -
  let ?s0 = "if very_verbose s
               then py_print s ''%s: moving to y_mm = %10.06f (relative=%s)''
                      [PStr (name s), PNum y, PBool relative]
               else s"
  have acc: "accepts (device_address ?s0) (verbose ?s0) reply (shd (incoming (port ?s0)))"
    using assms(3) by simp
  have w: "py_le fl (y_min_mm ?s0) (if relative then py_add fl (y_mm ?s0) y else y) \<and>
           py_le fl (if relative then py_add fl (y_mm ?s0) y else y) (y_max_mm ?s0)"
    using assms(2) by (cases relative) (simp_all add: in_limits_def target_def)
  have y: "y_mm ?s0 = y_mm s" by simp
  show ?thesis
    unfolding move_y_def Let_def
    using assms(1) w
    by (simp add: send_accepted [OF acc] move_abs_def target_def y del: split_paired_All)
qed

lemma pending_y:
  assumes "incoming (port s) = pre @- rest"
    and "if moving_y s then polls_to_idle (device_address s) (verbose s) pre else pre = []"
  shows "\<exists>s1. (if moving_y s then finish_moving_y s else Some (Returns () s)) =
                Some (Returns () s1) \<and> \<not> moving_y s1 \<and>
           written (port s1) =
             written (port s) @ replicate (length pre) (command_bytes (device_address s) ''2'') \<and>
           incoming (port s1) = rest \<and>
           keeps_setup s s1 \<and> keeps_cache s s1 \<and>
           moving s1 = moving s \<and> moving_x s1 = moving_x s"
proof (cases "moving_y s")
  case True
  with finish_moving_y_script [OF assms] show ?thesis by simp
next
  case False
  with assms show ?thesis by simp
qed

lemma move_y_script:
  assumes st: "incoming (port s) = pre @- (acks @- (post @- rest))"
    and pre: "if moving_y s then polls_to_idle (device_address s) (verbose s) pre else pre = []"
    and t: "t = target fl (y_mm s) y relative"
    and script:
      "if in_limits fl (y_min_mm s) (y_max_mm s) t
       then (\<exists>ack. acks = [ack] \<and> accepts (device_address s) (verbose s) reply ack) \<and>
            (if block then polls_to_idle (device_address s) (verbose s) post else post = [])
       else acks = [] \<and> post = []"
  shows "\<exists>s'. move_y fl s y relative block = Some (Returns () s') \<and>
           written (port s') =
             written (port s) @
             replicate (length pre) (command_bytes (device_address s) ''2'') @
             (if in_limits fl (y_min_mm s) (y_max_mm s) t
              then command_bytes (device_address s) (move_abs fl ''2'' t) #
                   replicate (length post) (command_bytes (device_address s) ''2'')
              else []) \<and>
           incoming (port s') = rest \<and>
           y_mm s' = (if in_limits fl (y_min_mm s) (y_max_mm s) t then t else y_mm s) \<and>
           moving_y s' = (in_limits fl (y_min_mm s) (y_max_mm s) t \<and> \<not> block) \<and>
           keeps_setup s s' \<and> x_mm s' = x_mm s \<and> x_mmps s' = x_mmps s \<and>
           y_mmps s' = y_mmps s \<and> moving s' = moving s \<and> moving_x s' = moving_x s \<and>
           (\<not> in_limits fl (y_min_mm s) (y_max_mm s) t \<and> verbose s \<longrightarrow>
              stdout s' \<noteq> [] \<and>
              last (stdout s') =
                (''%s: ***WARNING*** -> y_mm out of limits'', [PStr (name s)]))"
proof -
  from pending_y [OF st pre] obtain s1 where
    s1: "(if moving_y s then finish_moving_y s else Some (Returns () s)) = Some (Returns () s1)"
      "\<not> moving_y s1"
      "written (port s1) =
         written (port s) @ replicate (length pre) (command_bytes (device_address s) ''2'')"
      "incoming (port s1) = acks @- (post @- rest)"
      "keeps_setup s s1" "keeps_cache s s1" "moving s1 = moving s" "moving_x s1 = moving_x s"
    by blast
  have eq: "move_y fl s y relative block = move_y fl s1 y relative block"
    using s1(1,2) by (rule move_y_pending)
  from s1(5,6) have same:
    "y_min_mm s1 = y_min_mm s" "y_max_mm s1 = y_max_mm s" "y_mm s1 = y_mm s"
    "device_address s1 = device_address s" "verbose s1 = verbose s" "name s1 = name s"
    "x_mm s1 = x_mm s" "x_mmps s1 = x_mmps s" "y_mmps s1 = y_mmps s"
    by (simp_all add: keeps_setup_def keeps_cache_def)
  let ?s0 = "if very_verbose s1
             then py_print s1 ''%s: moving to y_mm = %10.06f (relative=%s)''
                    [PStr (name s1), PNum y, PBool relative]
             else s1"
  show ?thesis
  proof (cases "in_limits fl (y_min_mm s) (y_max_mm s) t")
    case False
    then have out: "\<not> in_limits fl (y_min_mm s1) (y_max_mm s1) (target fl (y_mm s1) y relative)"
      by (simp add: same t)
    from False script have e: "acks = []" "post = []" by simp_all
    show ?thesis
      unfolding eq move_y_idle_out [OF s1(2) out]
      using False s1 e by (simp add: Let_def same keeps_setup_def)
  next
    case True
    then have inl: "in_limits fl (y_min_mm s1) (y_max_mm s1) (target fl (y_mm s1) y relative)"
      by (simp add: same t)
    from True script obtain ack where
      ack: "acks = [ack]" "accepts (device_address s) (verbose s) reply ack"
      and post: "if block then polls_to_idle (device_address s) (verbose s) post else post = []"
      by auto
    have acc: "accepts (device_address s1) (verbose s1) reply (shd (incoming (port s1)))"
      using ack s1(4) by (simp add: same)
    define s3 where
      "s3 = (answered ?s0 (move_abs fl ''2'' (target fl (y_mm ?s0) y relative)))
              \<lparr>moving_y := True, y_mm := target fl (y_mm ?s0) y relative\<rparr>"
    have mv: "move_y fl s1 y relative block =
                (if block then finish_moving_y s3 else Some (Returns () s3))"
      unfolding move_y_idle_in [OF s1(2) inl acc] s3_def Let_def ..
    have s3: "moving_y s3" "y_mm s3 = t"
      "written (port s3) =
         written (port s1) @ [command_bytes (device_address s) (move_abs fl ''2'' t)]"
      "incoming (port s3) = post @- rest"
      "keeps_setup s1 s3" "x_mm s3 = x_mm s" "x_mmps s3 = x_mmps s" "y_mmps s3 = y_mmps s"
      "moving s3 = moving s" "moving_x s3 = moving_x s"
      "device_address s3 = device_address s" "verbose s3 = verbose s"
      using s1 ack by (simp_all add: s3_def same t keeps_setup_def)
    show ?thesis
    proof (cases block)
      case False
      with post have "post = []" by simp
      with s3 s1 True False show ?thesis
        unfolding eq mv by (simp add: keeps_setup_def)
    next
      case b: True
      with post s3 have
        "if moving_y s3 then polls_to_idle (device_address s3) (verbose s3) post else post = []"
        by simp
      from finish_moving_y_script [OF s3(4) this] obtain s' where
        s': "finish_moving_y s3 = Some (Returns () s')" "\<not> moving_y s'"
          "written (port s') =
             written (port s3) @ replicate (length post) (command_bytes (device_address s3) ''2'')"
          "incoming (port s') = rest" "keeps_setup s3 s'" "keeps_cache s3 s'"
          "moving s' = moving s3" "moving_x s' = moving_x s3"
        by blast
      from s' s3 s1 True b show ?thesis
        unfolding eq mv by (simp add: keeps_setup_def keeps_cache_def)
    qed
  qed
qed

lemmas string_defs =
  CRLF_def LF_def endswith_def is_ascii_def strip_def isspace_def split_def slice_def item_def

text \<open>
  C9. A device that reports busy on the first \<open>N\<close> status polls (\<open>busy\<close>, of any length
  \<open>N \<ge> 0\<close>) and idle on the next one: each of the three wait loops, entered with its
  flag set, returns after exactly \<open>N + 1\<close> polls (it has written \<open>N + 1\<close> status commands
  and read \<open>N + 1\<close> lines, leaving \<open>rest\<close> unread in the device's script), with the flag
  cleared.
\<close>

theorem finish_moving_stops_at_first_idle:
  assumes "incoming (port s) = busy @- (idle ## rest)"
    and "\<forall>rx \<in> set busy. reports (device_address s) (verbose s) rx = Some True"
    and "reports (device_address s) (verbose s) idle = Some False"
  shows "(moving s \<longrightarrow>
           (\<exists>s'. finish_moving s = Some (Returns () s') \<and> \<not> moving s' \<and>
              written (port s') =
                written (port s) @
                replicate (Suc (length busy)) (command_bytes (device_address s) []) \<and>
              incoming (port s') = rest)) \<and>
         (moving_x s \<longrightarrow>
           (\<exists>s'. finish_moving_x s = Some (Returns () s') \<and> \<not> moving_x s' \<and>
              written (port s') =
                written (port s) @
                replicate (Suc (length busy)) (command_bytes (device_address s) ''1'') \<and>
              incoming (port s') = rest)) \<and>
         (moving_y s \<longrightarrow>
           (\<exists>s'. finish_moving_y s = Some (Returns () s') \<and> \<not> moving_y s' \<and>
              written (port s') =
                written (port s) @
                replicate (Suc (length busy)) (command_bytes (device_address s) ''2'') \<and>
              incoming (port s') = rest))"
proof (intro conjI impI)
  assume "moving s"
  from finish_moving_polls [OF this assms] show
    "\<exists>s'. finish_moving s = Some (Returns () s') \<and> \<not> moving s' \<and>
       written (port s') =
         written (port s) @ replicate (Suc (length busy)) (command_bytes (device_address s) []) \<and>
       incoming (port s') = rest"
    by blast
next
  assume "moving_x s"
  from finish_moving_x_polls [OF this assms] show
    "\<exists>s'. finish_moving_x s = Some (Returns () s') \<and> \<not> moving_x s' \<and>
       written (port s') =
         written (port s) @
         replicate (Suc (length busy)) (command_bytes (device_address s) ''1'') \<and>
       incoming (port s') = rest"
    by blast
next
  assume "moving_y s"
  from finish_moving_y_polls [OF this assms] show
    "\<exists>s'. finish_moving_y s = Some (Returns () s') \<and> \<not> moving_y s' \<and>
       written (port s') =
         written (port s) @
         replicate (Suc (length busy)) (command_bytes (device_address s) ''2'') \<and>
       incoming (port s') = rest"
    by blast
qed

theorem finish_moving_stops_at_first_idle_witness:
  "(\<exists>s'. finish_moving busy_twice = Some (Returns () s') \<and> \<not> moving s' \<and>
      written (port s') = replicate 3 (command_bytes ''01'' []) \<and>
      incoming (port s') = sconst ([], 0)) \<and>
   (\<exists>s'. finish_moving_x busy_twice = Some (Returns () s') \<and> \<not> moving_x s' \<and>
      written (port s') = replicate 3 (command_bytes ''01'' ''1'') \<and>
      incoming (port s') = sconst ([], 0)) \<and>
   (\<exists>s'. finish_moving_y busy_twice = Some (Returns () s') \<and> \<not> moving_y s' \<and>
      written (port s') = replicate 3 (command_bytes ''01'' ''2'') \<and>
      incoming (port s') = sconst ([], 0))"
proof -
  have a: "incoming (port busy_twice) =
      [(''@01 0 OK BUSY -- 0'' @ CRLF, 0), (''@01 0 OK BUSY -- 0'' @ CRLF, 0)] @-
      ((''@01 0 OK IDLE -- 0'' @ CRLF, 0) ## sconst ([], 0))"
    by (simp add: busy_twice_def stage_def script_def)
  have b: "\<forall>rx \<in> set [(''@01 0 OK BUSY -- 0'' @ CRLF, 0), (''@01 0 OK BUSY -- 0'' @ CRLF, 0)].
             reports (device_address busy_twice) (verbose busy_twice) rx = Some True"
    by (simp add: busy_twice_def stage_def reports_def accepts_def payload_def string_defs)
  have c: "reports (device_address busy_twice) (verbose busy_twice)
             (''@01 0 OK IDLE -- 0'' @ CRLF, 0) = Some False"
    by (simp add: busy_twice_def stage_def reports_def accepts_def payload_def string_defs)
  have d: "moving busy_twice" "moving_x busy_twice" "moving_y busy_twice"
    "written (port busy_twice) = []" "device_address busy_twice = ''01''"
    by (simp_all add: busy_twice_def stage_def)
  show ?thesis
    using finish_moving_stops_at_first_idle [OF a b c] d
    by (simp add: numeral_3_eq_3)
qed

text \<open>
  C3. \<^verbatim>\<open>_send\<close> fails on a line without the \<^verbatim>\<open>\r\n\<close> terminator, whatever its marker and
  address are (the terminator assertion, FramingError in the spec's words); on a
  terminated line whose first character is not the marker of the expected response type,
  whatever its address is (the response-character assertion, UnexpectedKind); and on a
  terminated line with the right marker whose characters 1..2 differ from the stored
  device address (the device-address assertion, AddressMismatch). The markers are \<open>@\<close>
  for a reply, \<open>#\<close> for an info and \<open>!\<close> for an alert.
\<close>

theorem send_decoding_failures:
  fixes s :: "'f controller"
  defines "line \<equiv> fst (shd (incoming (port s)))"
  shows "(\<not> endswith line CRLF \<longrightarrow>
            send s cmd rtype =
              Raises (AssertionError ''%s: unexpected response terminator'') (exchanged s cmd)) \<and>
         (endswith line CRLF \<and> is_ascii line \<and> strip CRLF line \<noteq> [] \<and>
          hd (strip CRLF line) \<noteq> response_type_to_char rtype \<longrightarrow>
            send s cmd rtype =
              Raises (AssertionError ''%s: unexpected response character (%s)'')
                (exchanged s cmd)) \<and>
         (endswith line CRLF \<and> is_ascii line \<and> strip CRLF line \<noteq> [] \<and>
          hd (strip CRLF line) = response_type_to_char rtype \<and>
          slice 1 3 (strip CRLF line) \<noteq> device_address s \<longrightarrow>
            send s cmd rtype =
              Raises (AssertionError ''%s: unexpected device address (%s)'')
                (exchanged s cmd)) \<and>
         response_type_to_char reply = CHR ''@'' \<and> response_type_to_char info = CHR ''#'' \<and>
         response_type_to_char alert = CHR ''!''"
proof (intro conjI impI)
  assume "\<not> endswith line CRLF"
  then show "send s cmd rtype =
      Raises (AssertionError ''%s: unexpected response terminator'') (exchanged s cmd)"
    by (simp add: send_unfold Let_def line_def)
next
  assume a: "endswith line CRLF \<and> is_ascii line \<and> strip CRLF line \<noteq> [] \<and>
          hd (strip CRLF line) \<noteq> response_type_to_char rtype"
  then obtain c r where "strip CRLF line = c # r" by (cases "strip CRLF line") auto
  with a show "send s cmd rtype =
      Raises (AssertionError ''%s: unexpected response character (%s)'') (exchanged s cmd)"
    by (simp add: send_unfold Let_def line_def)
next
  assume a: "endswith line CRLF \<and> is_ascii line \<and> strip CRLF line \<noteq> [] \<and>
          hd (strip CRLF line) = response_type_to_char rtype \<and>
          slice 1 3 (strip CRLF line) \<noteq> device_address s"
  then obtain c r where "strip CRLF line = c # r" by (cases "strip CRLF line") auto
  with a show "send s cmd rtype =
      Raises (AssertionError ''%s: unexpected device address (%s)'') (exchanged s cmd)"
    by (auto simp: send_unfold Let_def line_def)
qed simp_all

theorem send_decoding_failures_witness:
  "send no_terminator [] reply =
     Raises (AssertionError ''%s: unexpected response terminator'') (exchanged no_terminator []) \<and>
   send wrong_marker [] reply =
     Raises (AssertionError ''%s: unexpected response character (%s)'')
       (exchanged wrong_marker []) \<and>
   send wrong_address [] reply =
     Raises (AssertionError ''%s: unexpected device address (%s)'') (exchanged wrong_address [])"
proof -
  have a: "\<not> endswith (fst (shd (incoming (port no_terminator)))) CRLF"
    by (simp add: no_terminator_def stage_def string_defs)
  have b: "endswith (fst (shd (incoming (port wrong_marker)))) CRLF \<and>
           is_ascii (fst (shd (incoming (port wrong_marker)))) \<and>
           strip CRLF (fst (shd (incoming (port wrong_marker)))) \<noteq> [] \<and>
           hd (strip CRLF (fst (shd (incoming (port wrong_marker))))) \<noteq>
             response_type_to_char reply"
    by (simp add: wrong_marker_def stage_def script_def string_defs)
  have c: "endswith (fst (shd (incoming (port wrong_address)))) CRLF \<and>
           is_ascii (fst (shd (incoming (port wrong_address)))) \<and>
           strip CRLF (fst (shd (incoming (port wrong_address)))) \<noteq> [] \<and>
           hd (strip CRLF (fst (shd (incoming (port wrong_address))))) =
             response_type_to_char reply \<and>
           slice 1 3 (strip CRLF (fst (shd (incoming (port wrong_address))))) \<noteq>
             device_address wrong_address"
    by (simp add: wrong_address_def stage_def script_def string_defs)
  from a b c show ?thesis
    using send_decoding_failures [of no_terminator "[]" reply]
      send_decoding_failures [of wrong_marker "[]" reply]
      send_decoding_failures [of wrong_address "[]" reply]
    by blast
qed

text \<open>
  C4. In \<^verbatim>\<open>_send\<close> the unread-byte count is read after the line has passed the decoding
  checks: a line that passes them with bytes left unread raises the assertion on
  \<^verbatim>\<open>in_waiting\<close> (a fatal AssertionError, with no message), and whenever \<^verbatim>\<open>_send\<close>
  returns, the port's unread count is zero.
\<close>

theorem send_leaves_buffer_empty:
  "(send s cmd rtype = Returns r s' \<longrightarrow> in_waiting (port s') = 0) \<and>
   (accepts (device_address s) (verbose s) rtype (fst (shd (incoming (port s))), 0) \<and>
    snd (shd (incoming (port s))) \<noteq> 0 \<longrightarrow>
      send s cmd rtype = Raises (AssertionError []) (answered s cmd) \<and>
      in_waiting (port (answered s cmd)) = snd (shd (incoming (port s))))"
proof -
  have first: "send s cmd rtype = Returns r s' \<longrightarrow> in_waiting (port s') = 0"
  proof
    assume r: "send s cmd rtype = Returns r s'"
    then have "accepts (device_address s) (verbose s) rtype (shd (incoming (port s)))"
      using send_returns_iff [of s cmd rtype] by blast
    then have "snd (shd (incoming (port s))) = 0" "s' = answered s cmd"
      using r by (simp_all add: accepts_def Let_def send_accepted)
    then show "in_waiting (port s') = 0" by simp
  qed
  have second:
    "accepts (device_address s) (verbose s) rtype (fst (shd (incoming (port s))), 0) \<and>
     snd (shd (incoming (port s))) \<noteq> 0 \<longrightarrow>
       send s cmd rtype = Raises (AssertionError []) (answered s cmd) \<and>
       in_waiting (port (answered s cmd)) = snd (shd (incoming (port s)))"
  proof
    assume a: "accepts (device_address s) (verbose s) rtype (fst (shd (incoming (port s))), 0) \<and>
      snd (shd (incoming (port s))) \<noteq> 0"
    obtain line n where rx: "shd (incoming (port s)) = (line, n)"
      by (cases "shd (incoming (port s))")
    from a rx obtain c t where
      f: "endswith line CRLF" "is_ascii line" "strip CRLF line = c # t"
        "c = response_type_to_char rtype" "slice 1 3 (c # t) = device_address s"
        "verbose s \<longrightarrow> item (split (c # t)) 2 \<noteq> None" "n \<noteq> 0"
      by (cases "strip CRLF line") (auto simp: accepts_def Let_def)
    show "send s cmd rtype = Raises (AssertionError []) (answered s cmd) \<and>
        in_waiting (port (answered s cmd)) = snd (shd (incoming (port s)))"
    proof (cases "verbose s")
      case True
      with f obtain st where "item (split (c # t)) 2 = Some st" by auto
      with f True rx show ?thesis
        by (simp add: send_unfold Let_def answered_def)
    next
      case False
      with f rx show ?thesis
        by (simp add: send_unfold Let_def answered_def)
    qed
  qed
  from first second show ?thesis by (rule conjI)
qed

theorem send_leaves_buffer_empty_witness:
  "send clean [] reply = Returns ''0 OK IDLE -- 0'' (answered clean []) \<and>
   in_waiting (port (answered clean [])) = 0 \<and>
   send leftover [] reply = Raises (AssertionError []) (answered leftover []) \<and>
   in_waiting (port (answered leftover [])) = 5"
proof -
  have a: "accepts (device_address clean) (verbose clean) reply (shd (incoming (port clean)))"
    by (simp add: clean_def stage_def script_def accepts_def string_defs)
  have p: "payload (fst (shd (incoming (port clean)))) = ''0 OK IDLE -- 0''"
    by (simp add: clean_def stage_def script_def payload_def string_defs)
  have r: "send clean [] reply = Returns ''0 OK IDLE -- 0'' (answered clean [])"
    using send_accepted [OF a, of "[]"] p by simp
  have b: "accepts (device_address leftover) (verbose leftover) reply
             (fst (shd (incoming (port leftover))), 0) \<and>
           snd (shd (incoming (port leftover))) \<noteq> 0"
    by (simp add: leftover_def stage_def accepts_def string_defs)
  have n: "snd (shd (incoming (port leftover))) = 5"
    by (simp add: leftover_def stage_def)
  show ?thesis
    using send_leaves_buffer_empty [of clean "[]" reply "''0 OK IDLE -- 0''" "answered clean []"]
      send_leaves_buffer_empty [of leftover "[]" reply] r b n
    by simp
qed

text \<open>
  C7, as amended. A line that passes the terminator, marker, address and unread-count
  checks and whose status token (the third token of the line) is not \<open>OK\<close>: \<^verbatim>\<open>_send\<close>
  returns the text after the address, raising nothing; it prints the notice
  \<^verbatim>\<open>command rejected\<close> when \<open>verbose\<close> is set and prints nothing about it otherwise.
\<close>

theorem send_rejected_returns:
  assumes "accepts (device_address s) (verbose s) rtype (shd (incoming (port s)))"
    and "item (split (strip CRLF (fst (shd (incoming (port s)))))) 2 = Some status"
    and "status \<noteq> ''OK''"
  shows "send s cmd rtype =
           Returns (payload (fst (shd (incoming (port s)))))
             (if verbose s
              then py_print (exchanged s cmd) ''%s: command rejected'' [PStr (name s)]
              else exchanged s cmd)"
  using assms by (simp add: send_accepted answered_def)

theorem send_rejected_returns_witness:
  "send rejected_loud ''renumber'' reply =
     Returns ''0 RJ IDLE -- BADCOMMAND''
       (py_print (exchanged rejected_loud ''renumber'') ''%s: command rejected''
          [PStr ''X-ADR130''])"
proof -
  have a: "accepts (device_address rejected_loud) (verbose rejected_loud) reply
             (shd (incoming (port rejected_loud)))"
    by (simp add: rejected_loud_def stage_def script_def accepts_def string_defs)
  have b: "item (split (strip CRLF (fst (shd (incoming (port rejected_loud)))))) 2 = Some ''RJ''"
    by (simp add: rejected_loud_def stage_def script_def string_defs)
  have c: "''RJ'' \<noteq> ''OK''" by simp
  have p: "payload (fst (shd (incoming (port rejected_loud)))) = ''0 RJ IDLE -- BADCOMMAND''"
    by (simp add: rejected_loud_def stage_def script_def payload_def string_defs)
  have v: "verbose rejected_loud" "name rejected_loud = ''X-ADR130''"
    by (simp_all add: rejected_loud_def stage_def)
  show ?thesis
    using send_rejected_returns [OF a b c, of "''renumber''"] p v by simp
qed

text \<open>
  The claim as stated fails with \<open>verbose\<close> off: the device rejects the command (status
  \<open>RJ\<close>), \<^verbatim>\<open>_send\<close> returns, and nothing has been printed.
\<close>

theorem send_rejected_unnoticed:
  "item (split (strip CRLF (fst (shd (incoming (port rejected_quiet)))))) 2 = Some ''RJ'' \<and>
   send rejected_quiet ''renumber'' reply =
     Returns ''0 RJ IDLE -- BADCOMMAND'' (exchanged rejected_quiet ''renumber'') \<and>
   stdout (exchanged rejected_quiet ''renumber'') = stdout rejected_quiet"
proof -
  have a: "accepts (device_address rejected_quiet) (verbose rejected_quiet) reply
             (shd (incoming (port rejected_quiet)))"
    by (simp add: rejected_quiet_def stage_def script_def accepts_def string_defs)
  have b: "item (split (strip CRLF (fst (shd (incoming (port rejected_quiet)))))) 2 = Some ''RJ''"
    by (simp add: rejected_quiet_def stage_def script_def string_defs)
  have p: "payload (fst (shd (incoming (port rejected_quiet)))) = ''0 RJ IDLE -- BADCOMMAND''"
    by (simp add: rejected_quiet_def stage_def script_def payload_def string_defs)
  have v: "\<not> verbose rejected_quiet" "\<not> very_verbose rejected_quiet"
    by (simp_all add: rejected_quiet_def stage_def)
  have "send rejected_quiet ''renumber'' reply =
     Returns ''0 RJ IDLE -- BADCOMMAND'' (exchanged rejected_quiet ''renumber'')"
    using send_accepted [OF a, of "''renumber''"] p v by (simp add: answered_def)
  moreover have "stdout (exchanged rejected_quiet ''renumber'') = stdout rejected_quiet"
    using v by (simp add: exchanged_def)
  ultimately show ?thesis using b by simp
qed

text \<open>
  C8. Once the exchange of the stop command has succeeded, \<^verbatim>\<open>_stop_x\<close> returns exactly
  when the acknowledgement is \<^verbatim>\<open>1 OK BUSY -- 0\<close> or \<^verbatim>\<open>1 OK BUSY NI 0\<close>, and raises the
  (fatal) AssertionError on every other acknowledgement; \<^verbatim>\<open>_stop_y\<close> likewise with
  \<^verbatim>\<open>2 OK BUSY -- 0\<close> and \<^verbatim>\<open>2 OK BUSY NI 0\<close>.
\<close>

theorem stop_needs_busy_acknowledgement:
  fixes s :: "'f controller"
  defines "ack \<equiv> payload (fst (shd (incoming (port s))))"
  assumes "accepts (device_address s) (verbose s) reply (shd (incoming (port s)))"
  shows "((\<exists>s'. stop_x s = Returns () s') \<longleftrightarrow>
            ack \<in> set [''1 OK BUSY -- 0'', ''1 OK BUSY NI 0'']) \<and>
         ((\<exists>s'. stop_x s = Raises (AssertionError []) s') \<longleftrightarrow>
            ack \<notin> set [''1 OK BUSY -- 0'', ''1 OK BUSY NI 0'']) \<and>
         written (port (after (stop_x s))) =
           written (port s) @ [command_bytes (device_address s) ''1 stop''] \<and>
         ((\<exists>s'. stop_y s = Returns () s') \<longleftrightarrow>
            ack \<in> set [''2 OK BUSY -- 0'', ''2 OK BUSY NI 0'']) \<and>
         ((\<exists>s'. stop_y s = Raises (AssertionError []) s') \<longleftrightarrow>
            ack \<notin> set [''2 OK BUSY -- 0'', ''2 OK BUSY NI 0'']) \<and>
         written (port (after (stop_y s))) =
           written (port s) @ [command_bytes (device_address s) ''2 stop'']"
proof -
  let ?x = "if very_verbose s then py_print s ''%s: stopping x axis'' [PStr (name s)] else s"
  let ?y = "if very_verbose s then py_print s ''%s: stopping y axis'' [PStr (name s)] else s"
  have ax: "accepts (device_address ?x) (verbose ?x) reply (shd (incoming (port ?x)))"
    using assms(2) by simp
  have ay: "accepts (device_address ?y) (verbose ?y) reply (shd (incoming (port ?y)))"
    using assms(2) by simp
  have px: "payload (fst (shd (incoming (port ?x)))) = ack" by (simp add: ack_def)
  have py: "payload (fst (shd (incoming (port ?y)))) = ack" by (simp add: ack_def)
  have x: "stop_x s =
      (if ack \<notin> set [''1 OK BUSY -- 0'', ''1 OK BUSY NI 0'']
       then Raises (AssertionError []) (answered ?x ''1 stop'')
       else Returns ()
              (if very_verbose s
               then py_print (answered ?x ''1 stop'') ''%s: done stopping'' [PStr (name s)]
               else answered ?x ''1 stop''))"
    unfolding stop_x_def Let_def send_accepted [OF ax] px by simp
  have y: "stop_y s =
      (if ack \<notin> set [''2 OK BUSY -- 0'', ''2 OK BUSY NI 0'']
       then Raises (AssertionError []) (answered ?y ''2 stop'')
       else Returns ()
              (if very_verbose s
               then py_print (answered ?y ''2 stop'') ''%s: done stopping'' [PStr (name s)]
               else answered ?y ''2 stop''))"
    unfolding stop_y_def Let_def send_accepted [OF ay] py by simp
  show ?thesis
    unfolding x y by (simp del: set_simps)
qed

theorem stop_needs_busy_acknowledgement_witness:
  "(\<exists>s'. stop_x stopping_x = Returns () s') \<and>
   (\<exists>s'. stop_y stopping_x = Raises (AssertionError []) s') \<and>
   written (port (after (stop_x stopping_x))) = [command_bytes ''01'' ''1 stop'']"
proof -
  have a: "accepts (device_address stopping_x) (verbose stopping_x) reply
             (shd (incoming (port stopping_x)))"
    by (simp add: stopping_x_def stage_def script_def accepts_def string_defs)
  have p: "payload (fst (shd (incoming (port stopping_x)))) = ''1 OK BUSY -- 0''"
    by (simp add: stopping_x_def stage_def script_def payload_def string_defs)
  have d: "written (port stopping_x) = []" "device_address stopping_x = ''01''"
    by (simp_all add: stopping_x_def stage_def)
  show ?thesis
    using stop_needs_busy_acknowledgement [OF a] p d by simp
qed

lemma move_mm_script:
  assumes st: "incoming (port s) =
                 pre_x @- (acks_x @- (pre_y @- (acks_y @- (post @- rest))))"
    and prex: "if moving_x s then polls_to_idle (device_address s) (verbose s) pre_x
               else pre_x = []"
    and tx: "tx = target fl (x_mm s) x relative"
    and ackx: "if in_limits fl (x_min_mm s) (x_max_mm s) tx
               then \<exists>ack. acks_x = [ack] \<and> accepts (device_address s) (verbose s) reply ack
               else acks_x = []"
    and prey: "if moving_y s then polls_to_idle (device_address s) (verbose s) pre_y
               else pre_y = []"
    and ty: "ty = target fl (y_mm s) y relative"
    and acky: "if in_limits fl (y_min_mm s) (y_max_mm s) ty
               then \<exists>ack. acks_y = [ack] \<and> accepts (device_address s) (verbose s) reply ack
               else acks_y = []"
    and post: "if block then polls_to_idle (device_address s) (verbose s) post else post = []"
  shows "\<exists>s'. move_mm fl s x y relative block = Some (Returns () s') \<and>
           written (port s') =
             written (port s) @
             replicate (length pre_x) (command_bytes (device_address s) ''1'') @
             (if in_limits fl (x_min_mm s) (x_max_mm s) tx
              then [command_bytes (device_address s) (move_abs fl ''1'' tx)] else []) @
             replicate (length pre_y) (command_bytes (device_address s) ''2'') @
             (if in_limits fl (y_min_mm s) (y_max_mm s) ty
              then [command_bytes (device_address s) (move_abs fl ''2'' ty)] else []) @
             replicate (length post) (command_bytes (device_address s) []) \<and>
           incoming (port s') = rest \<and>
           x_mm s' = (if in_limits fl (x_min_mm s) (x_max_mm s) tx then tx else x_mm s) \<and>
           y_mm s' = (if in_limits fl (y_min_mm s) (y_max_mm s) ty then ty else y_mm s) \<and>
           moving s' = (\<not> block) \<and>
           moving_x s' = (in_limits fl (x_min_mm s) (x_max_mm s) tx \<and> \<not> block) \<and>
           moving_y s' = (in_limits fl (y_min_mm s) (y_max_mm s) ty \<and> \<not> block) \<and>
           keeps_setup s s' \<and> x_mmps s' = x_mmps s \<and> y_mmps s' = y_mmps s"
proof -
  let ?s0 = "if verbose s
             then py_print (py_print s ''%s: moving to x_mm, y_mm'' [PStr (name s)])
                    ''%s:  = %10.06f, %10.06f (relative=%s)''
                    [PStr (name s), PNum x, PNum y, PBool relative]
             else s"
  have mm: "move_mm fl s x y relative block =
      (case move_x fl ?s0 x relative False of
         None \<Rightarrow> None
       | Some (Raises e s) \<Rightarrow> Some (Raises e s)
       | Some (Returns _ s) \<Rightarrow>
           (case move_y fl s y relative False of
              None \<Rightarrow> None
            | Some (Raises e s) \<Rightarrow> Some (Raises e s)
            | Some (Returns _ s) \<Rightarrow>
                (if block
                 then (case finish_moving (s\<lparr>moving := True\<rparr>) of
                         None \<Rightarrow> None
                       | Some (Raises e s) \<Rightarrow> Some (Raises e s)
                       | Some (Returns _ s) \<Rightarrow>
                           Some (Returns () (s\<lparr>moving_x := False, moving_y := False\<rparr>)))
                 else Some (Returns () (s\<lparr>moving := True\<rparr>)))))"
    unfolding move_mm_def Let_def by simp
  have p0: "incoming (port ?s0) = incoming (port s)" "moving_x ?s0 = moving_x s"
    "device_address ?s0 = device_address s" "verbose ?s0 = verbose s" "x_mm ?s0 = x_mm s"
    "x_min_mm ?s0 = x_min_mm s" "x_max_mm ?s0 = x_max_mm s"
    by simp_all
  have s0: "incoming (port ?s0) = pre_x @- (acks_x @- ([] @- (pre_y @- (acks_y @- (post @- rest)))))"
    "if moving_x ?s0 then polls_to_idle (device_address ?s0) (verbose ?s0) pre_x else pre_x = []"
    "tx = target fl (x_mm ?s0) x relative"
    "if in_limits fl (x_min_mm ?s0) (x_max_mm ?s0) tx
     then (\<exists>ack. acks_x = [ack] \<and> accepts (device_address ?s0) (verbose ?s0) reply ack) \<and>
          (if False then polls_to_idle (device_address ?s0) (verbose ?s0) [] else [] = [])
     else acks_x = [] \<and> [] = []"
    using st prex tx ackx unfolding p0 by (auto split: if_splits)
  have q0: "written (port ?s0) = written (port s)" "keeps_setup s ?s0"
    "y_mm ?s0 = y_mm s" "x_mmps ?s0 = x_mmps s" "y_mmps ?s0 = y_mmps s"
    "moving ?s0 = moving s" "moving_y ?s0 = moving_y s"
    by (simp_all add: keeps_setup_def)
  from move_x_script [OF s0, unfolded p0 q0] obtain s1 where
    s1: "move_x fl ?s0 x relative False = Some (Returns () s1)"
      "written (port s1) =
         written (port s) @
         replicate (length pre_x) (command_bytes (device_address s) ''1'') @
         (if in_limits fl (x_min_mm s) (x_max_mm s) tx
          then [command_bytes (device_address s) (move_abs fl ''1'' tx)] else [])"
      "incoming (port s1) = pre_y @- (acks_y @- (post @- rest))"
      "x_mm s1 = (if in_limits fl (x_min_mm s) (x_max_mm s) tx then tx else x_mm s)"
      "moving_x s1 = in_limits fl (x_min_mm s) (x_max_mm s) tx"
      "keeps_setup s s1" "y_mm s1 = y_mm s" "x_mmps s1 = x_mmps s" "y_mmps s1 = y_mmps s"
      "moving s1 = moving s" "moving_y s1 = moving_y s"
    using keeps_setup_trans [OF q0(2)] by auto
  from s1(6) have k1: "device_address s1 = device_address s" "verbose s1 = verbose s"
    "y_min_mm s1 = y_min_mm s" "y_max_mm s1 = y_max_mm s"
    by (simp_all add: keeps_setup_def)
  have s1': "incoming (port s1) = pre_y @- (acks_y @- ([] @- (post @- rest)))"
    "if moving_y s1 then polls_to_idle (device_address s1) (verbose s1) pre_y else pre_y = []"
    "ty = target fl (y_mm s1) y relative"
    "if in_limits fl (y_min_mm s1) (y_max_mm s1) ty
     then (\<exists>ack. acks_y = [ack] \<and> accepts (device_address s1) (verbose s1) reply ack) \<and>
          (if False then polls_to_idle (device_address s1) (verbose s1) [] else [] = [])
     else acks_y = [] \<and> [] = []"
    using s1 k1 prey ty acky by (auto split: if_splits)
  from move_y_script [OF s1'] obtain s2 where
    s2: "move_y fl s1 y relative False = Some (Returns () s2)"
      "written (port s2) =
         written (port s1) @
         replicate (length pre_y) (command_bytes (device_address s) ''2'') @
         (if in_limits fl (y_min_mm s) (y_max_mm s) ty
          then [command_bytes (device_address s) (move_abs fl ''2'' ty)] else [])"
      "incoming (port s2) = post @- rest"
      "y_mm s2 = (if in_limits fl (y_min_mm s) (y_max_mm s) ty then ty else y_mm s)"
      "moving_y s2 = in_limits fl (y_min_mm s) (y_max_mm s) ty"
      "keeps_setup s1 s2" "x_mm s2 = x_mm s1" "x_mmps s2 = x_mmps s1" "y_mmps s2 = y_mmps s1"
      "moving s2 = moving s1" "moving_x s2 = moving_x s1"
    using k1 s1(7) by auto
  have k2: "keeps_setup s s2" using s1(6) s2(6) by (rule keeps_setup_trans)
  then have k2': "device_address s2 = device_address s" "verbose s2 = verbose s"
    by (simp_all add: keeps_setup_def)
  show ?thesis
  proof (cases block)
    case False
    with post have "post = []" by simp
    with False s1 s2 k2 show ?thesis
      unfolding mm by (simp add: keeps_setup_def)
  next
    case True
    let ?s3 = "s2\<lparr>moving := True\<rparr>"
    have s3: "incoming (port ?s3) = post @- rest"
      "if moving ?s3 then polls_to_idle (device_address ?s3) (verbose ?s3) post else post = []"
      using s2(3) post True k2' by simp_all
    from finish_moving_script [OF s3] obtain s4 where
      s4: "finish_moving ?s3 = Some (Returns () s4)" "\<not> moving s4"
        "written (port s4) =
           written (port s2) @ replicate (length post) (command_bytes (device_address s) [])"
        "incoming (port s4) = rest" "keeps_setup ?s3 s4" "keeps_cache ?s3 s4"
      using k2' by auto
    from s4 s2 s1 k2 True show ?thesis
      unfolding mm by (simp add: keeps_setup_def keeps_cache_def)
  qed
qed

lemmas exact_defs =
  exact_def exact_str_def exact_float_def exact_round3_def nat_str.simps frac_str.simps
  digit_char_def

text \<open>
  C2. A move on an axis whose target is within the limits. The device's script is: the
  polls \<open>pre\<close> that resolve a pending busy state (none if the axis is not flagged moving),
  the reply \<open>ack\<close> to the move command, and the polls \<open>post\<close> of the blocking wait (none
  if \<open>block\<close> is false). Then \<^verbatim>\<open>_move_x\<close> returns, having written first the status polls
  of the pending wait, then one absolute-move command whose argument is \<^verbatim>\<open>str(1e6 * t)\<close>
  for the target \<open>t\<close> (the argument itself, or the cached position plus the argument when
  \<open>relative\<close>), then the status polls of the blocking wait; the cached position is \<open>t\<close>;
  without \<open>block\<close> the moving flag is left set, with \<open>block\<close> the axis has reported idle and
  the flag is clear. \<^verbatim>\<open>_move_y\<close> likewise.
\<close>

theorem move_within_limits:
  assumes "incoming (port s) = pre @- (ack ## (post @- rest))"
    and "accepts (device_address s) (verbose s) reply ack"
    and "if block then polls_to_idle (device_address s) (verbose s) post else post = []"
  shows "((if moving_x s then polls_to_idle (device_address s) (verbose s) pre else pre = []) \<and>
          in_limits fl (x_min_mm s) (x_max_mm s) (target fl (x_mm s) x relative) \<longrightarrow>
            (\<exists>s'. move_x fl s x relative block = Some (Returns () s') \<and>
               written (port s') =
                 written (port s) @
                 replicate (length pre) (command_bytes (device_address s) ''1'') @
                 [command_bytes (device_address s)
                    (''1 move abs '' @
                     py_str fl (py_mul fl (py_lit fl 1000000) (target fl (x_mm s) x relative)))] @
                 replicate (length post) (command_bytes (device_address s) ''1'') \<and>
               incoming (port s') = rest \<and>
               x_mm s' = target fl (x_mm s) x relative \<and> moving_x s' = (\<not> block) \<and>
               y_mm s' = y_mm s \<and> moving_y s' = moving_y s \<and> moving s' = moving s)) \<and>
         ((if moving_y s then polls_to_idle (device_address s) (verbose s) pre else pre = []) \<and>
          in_limits fl (y_min_mm s) (y_max_mm s) (target fl (y_mm s) y relative) \<longrightarrow>
            (\<exists>s'. move_y fl s y relative block = Some (Returns () s') \<and>
               written (port s') =
                 written (port s) @
                 replicate (length pre) (command_bytes (device_address s) ''2'') @
                 [command_bytes (device_address s)
                    (''2 move abs '' @
                     py_str fl (py_mul fl (py_lit fl 1000000) (target fl (y_mm s) y relative)))] @
                 replicate (length post) (command_bytes (device_address s) ''2'') \<and>
               incoming (port s') = rest \<and>
               y_mm s' = target fl (y_mm s) y relative \<and> moving_y s' = (\<not> block) \<and>
               x_mm s' = x_mm s \<and> moving_x s' = moving_x s \<and> moving s' = moving s))"
proof (rule conjI; rule impI)
  assume h: "(if moving_x s then polls_to_idle (device_address s) (verbose s) pre else pre = []) \<and>
          in_limits fl (x_min_mm s) (x_max_mm s) (target fl (x_mm s) x relative)"
  have st: "incoming (port s) = pre @- ([ack] @- (post @- rest))" using assms(1) by simp
  have sc: "if in_limits fl (x_min_mm s) (x_max_mm s) (target fl (x_mm s) x relative)
       then (\<exists>a. [ack] = [a] \<and> accepts (device_address s) (verbose s) reply a) \<and>
            (if block then polls_to_idle (device_address s) (verbose s) post else post = [])
       else [ack] = [] \<and> post = []"
    using h assms(2,3) by simp
  from move_x_script [OF st conjunct1 [OF h] refl sc] h
  show "\<exists>s'. move_x fl s x relative block = Some (Returns () s') \<and>
               written (port s') =
                 written (port s) @
                 replicate (length pre) (command_bytes (device_address s) ''1'') @
                 [command_bytes (device_address s)
                    (''1 move abs '' @
                     py_str fl (py_mul fl (py_lit fl 1000000) (target fl (x_mm s) x relative)))] @
                 replicate (length post) (command_bytes (device_address s) ''1'') \<and>
               incoming (port s') = rest \<and>
               x_mm s' = target fl (x_mm s) x relative \<and> moving_x s' = (\<not> block) \<and>
               y_mm s' = y_mm s \<and> moving_y s' = moving_y s \<and> moving s' = moving s"
    by (auto simp: move_abs_def)
next
  assume h: "(if moving_y s then polls_to_idle (device_address s) (verbose s) pre else pre = []) \<and>
          in_limits fl (y_min_mm s) (y_max_mm s) (target fl (y_mm s) y relative)"
  have st: "incoming (port s) = pre @- ([ack] @- (post @- rest))" using assms(1) by simp
  have sc: "if in_limits fl (y_min_mm s) (y_max_mm s) (target fl (y_mm s) y relative)
       then (\<exists>a. [ack] = [a] \<and> accepts (device_address s) (verbose s) reply a) \<and>
            (if block then polls_to_idle (device_address s) (verbose s) post else post = [])
       else [ack] = [] \<and> post = []"
    using h assms(2,3) by simp
  from move_y_script [OF st conjunct1 [OF h] refl sc] h
  show "\<exists>s'. move_y fl s y relative block = Some (Returns () s') \<and>
               written (port s') =
                 written (port s) @
                 replicate (length pre) (command_bytes (device_address s) ''2'') @
                 [command_bytes (device_address s)
                    (''2 move abs '' @
                     py_str fl (py_mul fl (py_lit fl 1000000) (target fl (y_mm s) y relative)))] @
                 replicate (length post) (command_bytes (device_address s) ''2'') \<and>
               incoming (port s') = rest \<and>
               y_mm s' = target fl (y_mm s) y relative \<and> moving_y s' = (\<not> block) \<and>
               x_mm s' = x_mm s \<and> moving_x s' = moving_x s \<and> moving s' = moving s"
    by (auto simp: move_abs_def)
qed

theorem move_within_limits_witness:
  "(\<exists>s'. move_x exact centred 1 True True = Some (Returns () s') \<and>
      written (port s') =
        [command_bytes ''01'' ''1 move abs 66000000.0'', command_bytes ''01'' ''1'',
         command_bytes ''01'' ''1''] \<and>
      incoming (port s') = sconst ([], 0) \<and> x_mm s' = 66 \<and> \<not> moving_x s') \<and>
   (\<exists>s'. move_y exact centred 1 True True = Some (Returns () s') \<and>
      written (port s') =
        [command_bytes ''01'' ''2 move abs 51000000.0'', command_bytes ''01'' ''2'',
         command_bytes ''01'' ''2''] \<and>
      incoming (port s') = sconst ([], 0) \<and> y_mm s' = 51 \<and> \<not> moving_y s')"
proof -
  have a: "incoming (port centred) =
      [] @- ((''@01 0 OK BUSY -- 0'' @ CRLF, 0) ##
        ([(''@01 1 OK BUSY -- 0'' @ CRLF, 0), (''@01 1 OK IDLE -- 0'' @ CRLF, 0)] @-
           sconst ([], 0)))"
    by (simp add: centred_def stage_def script_def)
  have b: "accepts (device_address centred) (verbose centred) reply
             (''@01 0 OK BUSY -- 0'' @ CRLF, 0)"
    by (simp add: centred_def stage_def accepts_def string_defs)
  have c: "if True
           then polls_to_idle (device_address centred) (verbose centred)
                  [(''@01 1 OK BUSY -- 0'' @ CRLF, 0), (''@01 1 OK IDLE -- 0'' @ CRLF, 0)]
           else [(''@01 1 OK BUSY -- 0'' @ CRLF, 0), (''@01 1 OK IDLE -- 0'' @ CRLF, 0)] = []"
    by (simp add: centred_def stage_def polls_to_idle_def reports_def accepts_def payload_def
        string_defs)
  have d: "\<not> moving_x centred" "\<not> moving_y centred" "written (port centred) = []"
    "device_address centred = ''01''"
    "target exact (x_mm centred) 1 True = 66" "target exact (y_mm centred) 1 True = 51"
    "in_limits exact (x_min_mm centred) (x_max_mm centred) 66"
    "in_limits exact (y_min_mm centred) (y_max_mm centred) 51"
    by (simp_all add: centred_def stage_def target_def in_limits_def exact_def)
  have e: "py_str exact (py_mul exact (py_lit exact 1000000) 66) = ''66000000.0''"
    "py_str exact (py_mul exact (py_lit exact 1000000) 51) = ''51000000.0''"
    by (simp_all add: exact_defs)
  show ?thesis
    using move_within_limits [OF a b c, of exact 1 True 1] d e
    by simp blast
qed

lemma move_x_beyond:
  assumes st: "incoming (port s) = pre @- rest"
    and pre: "if moving_x s then polls_to_idle (device_address s) (verbose s) pre else pre = []"
    and out: "\<not> in_limits fl (x_min_mm s) (x_max_mm s) (target fl (x_mm s) x relative)"
  shows "\<exists>s'. move_x fl s x relative block = Some (Returns () s') \<and>
         written (port s') =
           written (port s) @ replicate (length pre) (command_bytes (device_address s) ''1'') \<and>
         incoming (port s') = rest \<and> x_mm s' = x_mm s \<and> \<not> moving_x s' \<and>
         y_mm s' = y_mm s \<and> moving_y s' = moving_y s \<and> moving s' = moving s \<and>
         (verbose s \<longrightarrow>
            stdout s' \<noteq> [] \<and>
            last (stdout s') =
              (''%s: ***WARNING*** -> x_mm out of limits'', [PStr (name s)]))"
proof -
  have st': "incoming (port s) = pre @- ([] @- ([] @- rest))" using st by simp
  have sc: "if in_limits fl (x_min_mm s) (x_max_mm s) (target fl (x_mm s) x relative)
       then (\<exists>a. [] = [a] \<and> accepts (device_address s) (verbose s) reply a) \<and>
            (if block then polls_to_idle (device_address s) (verbose s) [] else [] = [])
       else [] = [] \<and> [] = []"
    using out by simp
  from move_x_script [OF st' pre refl sc] out show ?thesis
    by (simp; blast)
qed

lemma move_y_beyond:
  assumes st: "incoming (port s) = pre @- rest"
    and pre: "if moving_y s then polls_to_idle (device_address s) (verbose s) pre else pre = []"
    and out: "\<not> in_limits fl (y_min_mm s) (y_max_mm s) (target fl (y_mm s) y relative)"
  shows "\<exists>s'. move_y fl s y relative block = Some (Returns () s') \<and>
         written (port s') =
           written (port s) @ replicate (length pre) (command_bytes (device_address s) ''2'') \<and>
         incoming (port s') = rest \<and> y_mm s' = y_mm s \<and> \<not> moving_y s' \<and>
         x_mm s' = x_mm s \<and> moving_x s' = moving_x s \<and> moving s' = moving s \<and>
         (verbose s \<longrightarrow>
            stdout s' \<noteq> [] \<and>
            last (stdout s') =
              (''%s: ***WARNING*** -> y_mm out of limits'', [PStr (name s)]))"
proof -
  have st': "incoming (port s) = pre @- ([] @- ([] @- rest))" using st by simp
  have sc: "if in_limits fl (y_min_mm s) (y_max_mm s) (target fl (y_mm s) y relative)
       then (\<exists>a. [] = [a] \<and> accepts (device_address s) (verbose s) reply a) \<and>
            (if block then polls_to_idle (device_address s) (verbose s) [] else [] = [])
       else [] = [] \<and> [] = []"
    using out by simp
  from move_y_script [OF st' pre refl sc] out show ?thesis
    by (simp; blast)
qed

text \<open>
  C1, as amended. A move on an axis whose target is outside the limits first resolves a
  pending busy state like every move (the status polls \<open>pre\<close>, none if the axis is not
  flagged moving); then it writes nothing more, leaves the cached position as it was,
  prints the warning when \<open>verbose\<close> is set and returns normally, with the axis's moving
  flag clear: unchanged if the axis was idle at entry, cleared by the resolved wait if it
  was flagged moving. In \<^verbatim>\<open>move_mm\<close> each axis is checked on its own: the log holds a move
  command for exactly the axes whose target is within the limits, and only their cached
  positions change.
\<close>

theorem move_beyond_limits:
  "(incoming (port s) = pre @- rest \<and>
    (if moving_x s then polls_to_idle (device_address s) (verbose s) pre else pre = []) \<and>
    \<not> in_limits fl (x_min_mm s) (x_max_mm s) (target fl (x_mm s) x relative) \<longrightarrow>
      (\<exists>s'. move_x fl s x relative block = Some (Returns () s') \<and>
         written (port s') =
           written (port s) @ replicate (length pre) (command_bytes (device_address s) ''1'') \<and>
         incoming (port s') = rest \<and> x_mm s' = x_mm s \<and> \<not> moving_x s' \<and>
         y_mm s' = y_mm s \<and> moving_y s' = moving_y s \<and> moving s' = moving s \<and>
         (verbose s \<longrightarrow>
            stdout s' \<noteq> [] \<and>
            last (stdout s') =
              (''%s: ***WARNING*** -> x_mm out of limits'', [PStr (name s)])))) \<and>
   (incoming (port s) = pre @- rest \<and>
    (if moving_y s then polls_to_idle (device_address s) (verbose s) pre else pre = []) \<and>
    \<not> in_limits fl (y_min_mm s) (y_max_mm s) (target fl (y_mm s) y relative) \<longrightarrow>
      (\<exists>s'. move_y fl s y relative block = Some (Returns () s') \<and>
         written (port s') =
           written (port s) @ replicate (length pre) (command_bytes (device_address s) ''2'') \<and>
         incoming (port s') = rest \<and> y_mm s' = y_mm s \<and> \<not> moving_y s' \<and>
         x_mm s' = x_mm s \<and> moving_x s' = moving_x s \<and> moving s' = moving s \<and>
         (verbose s \<longrightarrow>
            stdout s' \<noteq> [] \<and>
            last (stdout s') =
              (''%s: ***WARNING*** -> y_mm out of limits'', [PStr (name s)])))) \<and>
   (incoming (port s) = pre_x @- (acks_x @- (pre_y @- (acks_y @- (post @- tail)))) \<and>
    (if moving_x s then polls_to_idle (device_address s) (verbose s) pre_x else pre_x = []) \<and>
    (if in_limits fl (x_min_mm s) (x_max_mm s) (target fl (x_mm s) x relative)
     then \<exists>ack. acks_x = [ack] \<and> accepts (device_address s) (verbose s) reply ack
     else acks_x = []) \<and>
    (if moving_y s then polls_to_idle (device_address s) (verbose s) pre_y else pre_y = []) \<and>
    (if in_limits fl (y_min_mm s) (y_max_mm s) (target fl (y_mm s) y relative)
     then \<exists>ack. acks_y = [ack] \<and> accepts (device_address s) (verbose s) reply ack
     else acks_y = []) \<and>
    (if block then polls_to_idle (device_address s) (verbose s) post else post = []) \<longrightarrow>
      (\<exists>s'. move_mm fl s x y relative block = Some (Returns () s') \<and>
                 written (port s') =
                   written (port s) @
                   replicate (length pre_x) (command_bytes (device_address s) ''1'') @
                   (if in_limits fl (x_min_mm s) (x_max_mm s) (target fl (x_mm s) x relative)
                    then [command_bytes (device_address s) (move_abs fl ''1'' (target fl (x_mm s) x relative))] else []) @
                   replicate (length pre_y) (command_bytes (device_address s) ''2'') @
                   (if in_limits fl (y_min_mm s) (y_max_mm s) (target fl (y_mm s) y relative)
                    then [command_bytes (device_address s) (move_abs fl ''2'' (target fl (y_mm s) y relative))] else []) @
                   replicate (length post) (command_bytes (device_address s) []) \<and>
                 incoming (port s') = tail \<and>
                 x_mm s' = (if in_limits fl (x_min_mm s) (x_max_mm s) (target fl (x_mm s) x relative) then (target fl (x_mm s) x relative) else x_mm s) \<and>
                 y_mm s' = (if in_limits fl (y_min_mm s) (y_max_mm s) (target fl (y_mm s) y relative) then (target fl (y_mm s) y relative) else y_mm s) \<and>
                 moving s' = (\<not> block) \<and>
                 moving_x s' = (in_limits fl (x_min_mm s) (x_max_mm s) (target fl (x_mm s) x relative) \<and> \<not> block) \<and>
                 moving_y s' = (in_limits fl (y_min_mm s) (y_max_mm s) (target fl (y_mm s) y relative) \<and> \<not> block) \<and>
                 keeps_setup s s' \<and> x_mmps s' = x_mmps s \<and> y_mmps s' = y_mmps s))"
  apply (intro conjI impI)
    apply (elim conjE, rule move_x_beyond; assumption)
   apply (elim conjE, rule move_y_beyond; assumption)
  apply (elim conjE, rule move_mm_script; (assumption | rule refl))
  done

theorem move_beyond_limits_witness:
  "(\<exists>s'. move_x exact one_reply 131 False True = Some (Returns () s') \<and>
      written (port s') = [] \<and> x_mm s' = 65 \<and> \<not> moving_x s' \<and>
      last (stdout s') = (''%s: ***WARNING*** -> x_mm out of limits'', [PStr ''X-ADR130''])) \<and>
   (\<exists>s'. move_y exact one_reply 101 False True = Some (Returns () s') \<and>
      written (port s') = [] \<and> y_mm s' = 50 \<and> \<not> moving_y s' \<and>
      last (stdout s') = (''%s: ***WARNING*** -> y_mm out of limits'', [PStr ''X-ADR130''])) \<and>
   (\<exists>s'. move_mm exact one_reply 131 51 False False = Some (Returns () s') \<and>
      written (port s') = [command_bytes ''01'' (move_abs exact ''2'' 51)] \<and>
      x_mm s' = 65 \<and> y_mm s' = 51 \<and> \<not> moving_x s' \<and> moving_y s')"
proof -
  have a: "incoming (port one_reply) = [] @- incoming (port one_reply)"
    "if moving_x one_reply
     then polls_to_idle (device_address one_reply) (verbose one_reply) [] else [] = []"
    "if moving_y one_reply
     then polls_to_idle (device_address one_reply) (verbose one_reply) [] else [] = []"
    by (simp_all add: one_reply_def stage_def)
  have b: "\<not> in_limits exact (x_min_mm one_reply) (x_max_mm one_reply)
               (target exact (x_mm one_reply) 131 False)"
    "\<not> in_limits exact (y_min_mm one_reply) (y_max_mm one_reply)
               (target exact (y_mm one_reply) 101 False)"
    "in_limits exact (y_min_mm one_reply) (y_max_mm one_reply)
               (target exact (y_mm one_reply) 51 False)"
    "target exact (y_mm one_reply) 51 False = 51"
    by (simp_all add: one_reply_def stage_def in_limits_def target_def exact_def)
  have c: "incoming (port one_reply) =
      [] @- ([] @- ([] @- ([(''@01 0 OK BUSY -- 0'' @ CRLF, 0)] @- ([] @- sconst ([], 0)))))"
    by (simp add: one_reply_def stage_def script_def)
  have d: "\<exists>ack. [(''@01 0 OK BUSY -- 0'' @ CRLF, 0)] = [ack] \<and>
             accepts (device_address one_reply) (verbose one_reply) reply ack"
    by (simp add: one_reply_def stage_def accepts_def string_defs)
  have e: "written (port one_reply) = []" "x_mm one_reply = 65" "y_mm one_reply = 50"
    "verbose one_reply" "name one_reply = ''X-ADR130''" "device_address one_reply = ''01''"
    by (simp_all add: one_reply_def stage_def)
  have x: "\<exists>s'. move_x exact one_reply 131 False True = Some (Returns () s') \<and>
      written (port s') = [] \<and> x_mm s' = 65 \<and> \<not> moving_x s' \<and>
      last (stdout s') = (''%s: ***WARNING*** -> x_mm out of limits'', [PStr ''X-ADR130''])"
    using move_beyond_limits [where s = one_reply and fl = exact and pre = "[]"
        and rest = "incoming (port one_reply)" and x = 131 and relative = False and block = True,
        THEN conjunct1] a b e
    by (simp; blast)
  have y: "\<exists>s'. move_y exact one_reply 101 False True = Some (Returns () s') \<and>
      written (port s') = [] \<and> y_mm s' = 50 \<and> \<not> moving_y s' \<and>
      last (stdout s') = (''%s: ***WARNING*** -> y_mm out of limits'', [PStr ''X-ADR130''])"
    using move_beyond_limits [where s = one_reply and fl = exact and pre = "[]"
        and rest = "incoming (port one_reply)" and y = 101 and relative = False and block = True,
        THEN conjunct2, THEN conjunct1] a b e
    by (simp; blast)
  have mm: "\<exists>s'. move_mm exact one_reply 131 51 False False = Some (Returns () s') \<and>
      written (port s') = [command_bytes ''01'' (move_abs exact ''2'' 51)] \<and>
      x_mm s' = 65 \<and> y_mm s' = 51 \<and> \<not> moving_x s' \<and> moving_y s'"
    using move_beyond_limits [where s = one_reply and fl = exact and x = 131 and y = 51
        and relative = False and block = False and pre_x = "[]" and acks_x = "[]"
        and pre_y = "[]" and acks_y = "[(''@01 0 OK BUSY -- 0'' @ CRLF, 0)]" and post = "[]"
        and tail = "sconst ([], 0)", THEN conjunct2, THEN conjunct2] a b c d e
    by (simp; blast)
  from x y mm show ?thesis by (intro conjI)
qed

text \<open>
  The claim as stated fails on an axis flagged moving at entry (after a non-blocking
  move): the move to 131 mm is outside the limits and sends no motion command, but the
  pending wait polls the axis once and clears the flag, so the moving flag has changed.
\<close>

theorem move_beyond_limits_clears_flag:
  "moving_x still_moving_x \<and>
   \<not> in_limits exact (x_min_mm still_moving_x) (x_max_mm still_moving_x)
        (target exact (x_mm still_moving_x) 131 False) \<and>
   move_x exact still_moving_x 131 False True \<noteq> None \<and>
   \<not> moving_x (after (the (move_x exact still_moving_x 131 False True))) \<and>
   written (port (after (the (move_x exact still_moving_x 131 False True)))) =
     [command_bytes ''01'' ''1'']"
proof -
  have a: "incoming (port still_moving_x) = [(''@01 1 OK IDLE -- 0'' @ CRLF, 0)] @- sconst ([], 0)"
    by (simp add: still_moving_x_def stage_def script_def)
  have b: "if moving_x still_moving_x
           then polls_to_idle (device_address still_moving_x) (verbose still_moving_x)
                  [(''@01 1 OK IDLE -- 0'' @ CRLF, 0)]
           else [(''@01 1 OK IDLE -- 0'' @ CRLF, 0)] = []"
    by (simp add: still_moving_x_def stage_def polls_to_idle_def reports_def accepts_def
        payload_def string_defs)
  have c: "\<not> in_limits exact (x_min_mm still_moving_x) (x_max_mm still_moving_x)
               (target exact (x_mm still_moving_x) 131 False)"
    by (simp add: still_moving_x_def stage_def in_limits_def target_def exact_def)
  have d: "moving_x still_moving_x" "written (port still_moving_x) = []"
    "device_address still_moving_x = ''01''"
    by (simp_all add: still_moving_x_def stage_def)
  from move_x_beyond [OF a b c, of True] obtain s' where
    "move_x exact still_moving_x 131 False True = Some (Returns () s')"
    "written (port s') =
       written (port still_moving_x) @
       replicate (length [(''@01 1 OK IDLE -- 0'' @ CRLF, 0::nat)])
         (command_bytes (device_address still_moving_x) ''1'')"
    "\<not> moving_x s'"
    by (elim exE conjE)
  with c d show ?thesis by simp
qed

lemma get_maxspeed_accepted:
  assumes acc: "accepts (device_address s) (verbose s) reply (shd (incoming (port s)))"
    and toks: "map (py_float fl) (slice 4 6 (split (payload (fst (shd (incoming (port s))))))) =
                 [Some sx, Some sy]"
  shows "\<exists>s'. get_maxspeed fl s =
                  Returns (from_wire_speed fl sx, from_wire_speed fl sy) s' \<and>
           x_mmps s' = from_wire_speed fl sx \<and> y_mmps s' = from_wire_speed fl sy \<and>
           port s' = exchange (port s) (command_bytes (device_address s) ''get maxspeed'') \<and>
           keeps_setup s s' \<and> x_mm s' = x_mm s \<and> y_mm s' = y_mm s \<and>
           moving s' = moving s \<and> moving_x s' = moving_x s \<and> moving_y s' = moving_y s"
proof -
  let ?s0 = "if verbose s then py_print s ''%s: getting maxspeed'' [PStr (name s)] else s"
  have p0: "device_address ?s0 = device_address s" "verbose ?s0 = verbose s"
    "incoming (port ?s0) = incoming (port s)"
    by simp_all
  have acc0: "accepts (device_address ?s0) (verbose ?s0) reply (shd (incoming (port ?s0)))"
    unfolding p0 by (rule acc)
  have g: "get_maxspeed fl s =
      (let s = (answered ?s0 ''get maxspeed'')
                 \<lparr>x_mmps := from_wire_speed fl sx, y_mmps := from_wire_speed fl sy\<rparr>;
           s = (if verbose s
                then py_print s ''%s:  = %6.03f, %6.03f (mm/s)''
                       [PStr (name s), PNum (x_mmps s), PNum (y_mmps s)]
                else s)
       in Returns (x_mmps s, y_mmps s) s)"
    unfolding get_maxspeed_def Let_def send_accepted [OF acc0] p0
    using toks by simp
  show ?thesis
    unfolding g Let_def by (simp add: keeps_setup_def)
qed

lemma set_maxspeed_rejected:
  assumes "\<not> (legal_speed fl (requested x_arg (x_mmps s)) \<and>
              legal_speed fl (requested y_arg (y_mmps s)))"
  shows "\<exists>s'. set_maxspeed fl s x_arg y_arg = Raises (AssertionError []) s' \<and>
           port s' = port s \<and> keeps_setup s s' \<and> keeps_cache s s'"
  using assms
  by (cases x_arg; cases y_arg)
     (auto simp: set_maxspeed_def requested_def legal_speed_def Let_def keeps_setup_def
        keeps_cache_def)

lemma set_maxspeed_script:
  assumes st: "incoming (port s) = r1 ## r2 ## r3 ## rest"
    and x: "x = requested x_arg (x_mmps s)" and y: "y = requested y_arg (y_mmps s)"
    and legal: "legal_speed fl x" "legal_speed fl y"
    and a1: "accepts (device_address s) (verbose s) reply r1"
    and a2: "accepts (device_address s) (verbose s) reply r2"
    and a3: "accepts (device_address s) (verbose s) reply r3"
    and toks: "map (py_float fl) (slice 4 6 (split (payload (fst r3)))) = [Some sx, Some sy]"
  shows "\<exists>s'. set_maxspeed fl s x_arg y_arg =
                  (if py_eq fl (from_wire_speed fl sx) x \<and> py_eq fl (from_wire_speed fl sy) y
                   then Returns () s' else Raises (AssertionError []) s') \<and>
           written (port s') =
             written (port s) @
             [command_bytes (device_address s) (set_speed_command fl ''1'' x),
              command_bytes (device_address s) (set_speed_command fl ''2'' y),
              command_bytes (device_address s) ''get maxspeed''] \<and>
           incoming (port s') = rest \<and>
           x_mmps s' = from_wire_speed fl sx \<and> y_mmps s' = from_wire_speed fl sy \<and>
           keeps_setup s s' \<and> x_mm s' = x_mm s \<and> y_mm s' = y_mm s \<and>
           moving s' = moving s \<and> moving_x s' = moving_x s \<and> moving_y s' = moving_y s"
proof -
  define s0 where
    "s0 = (if verbose s
           then py_print (py_print s ''%s: setting maxspeed (x, y)'' [PStr (name s)])
                  ''%s:  = %10.06f, %10.06f (mm/s)'' [PStr (name s), PNum x, PNum y]
           else s)"
  define c1 where "c1 = set_speed_command fl ''1'' x"
  define c2 where "c2 = set_speed_command fl ''2'' y"
  define s1 where "s1 = answered s0 c1"
  define s2 where "s2 = answered s1 c2"
  have p0: "device_address s0 = device_address s" "verbose s0 = verbose s"
    "incoming (port s0) = incoming (port s)" "written (port s0) = written (port s)"
    "keeps_setup s s0" "keeps_cache s s0"
    "moving s0 = moving s" "moving_x s0 = moving_x s" "moving_y s0 = moving_y s"
    by (simp_all add: s0_def keeps_setup_def keeps_cache_def)
  have acc0: "accepts (device_address s0) (verbose s0) reply (shd (incoming (port s0)))"
    unfolding p0 using a1 st by simp
  have p1: "device_address s1 = device_address s" "verbose s1 = verbose s"
    "incoming (port s1) = r2 ## r3 ## rest"
    "written (port s1) = written (port s) @ [command_bytes (device_address s) c1]"
    "keeps_setup s0 s1" "keeps_cache s0 s1"
    "moving s1 = moving s" "moving_x s1 = moving_x s" "moving_y s1 = moving_y s"
    using st by (simp_all add: s1_def p0 keeps_setup_def keeps_cache_def)
  have acc1: "accepts (device_address s1) (verbose s1) reply (shd (incoming (port s1)))"
    unfolding p1 using a2 by simp
  have p2: "device_address s2 = device_address s" "verbose s2 = verbose s"
    "incoming (port s2) = r3 ## rest"
    "written (port s2) =
       written (port s) @
       [command_bytes (device_address s) c1, command_bytes (device_address s) c2]"
    "keeps_setup s1 s2" "keeps_cache s1 s2"
    "moving s2 = moving s" "moving_x s2 = moving_x s" "moving_y s2 = moving_y s"
    by (simp_all add: s2_def p1 keeps_setup_def keeps_cache_def)
  have acc2: "accepts (device_address s2) (verbose s2) reply (shd (incoming (port s2)))"
    unfolding p2 using a3 by simp
  have toks2: "map (py_float fl) (slice 4 6 (split (payload (fst (shd (incoming (port s2))))))) =
                 [Some sx, Some sy]"
    unfolding p2 using toks by simp
  from get_maxspeed_accepted [OF acc2 toks2] obtain s3 where
    s3: "get_maxspeed fl s2 = Returns (from_wire_speed fl sx, from_wire_speed fl sy) s3"
      "x_mmps s3 = from_wire_speed fl sx" "y_mmps s3 = from_wire_speed fl sy"
      "port s3 = exchange (port s2) (command_bytes (device_address s2) ''get maxspeed'')"
      "keeps_setup s2 s3" "x_mm s3 = x_mm s2" "y_mm s3 = y_mm s2"
      "moving s3 = moving s2" "moving_x s3 = moving_x s2" "moving_y s3 = moving_y s2"
    by (elim exE conjE)
  have k: "keeps_setup s s3"
    by (rule keeps_setup_trans [OF keeps_setup_trans
          [OF keeps_setup_trans [OF p0(5) p1(5)] p2(5)] s3(5)])
  have c: "keeps_cache s s2"
    by (rule keeps_cache_trans [OF keeps_cache_trans [OF p0(6) p1(6)] p2(6)])
  have sm0: "set_maxspeed fl s x_arg y_arg =
      (if \<not> (legal_speed fl x \<and> legal_speed fl y) then Raises (AssertionError []) s0
       else (case send s0 c1 reply of
               Raises e s \<Rightarrow> Raises e s
             | Returns _ s \<Rightarrow>
                 (case send s c2 reply of
                    Raises e s \<Rightarrow> Raises e s
                  | Returns _ s \<Rightarrow>
                      (case get_maxspeed fl s of
                         Raises e s \<Rightarrow> Raises e s
                       | Returns (rx, ry) s \<Rightarrow>
                           if \<not> (py_eq fl rx x \<and> py_eq fl ry y)
                           then Raises (AssertionError []) s
                           else Returns ()
                                  (if verbose s
                                   then py_print s ''%s: -> done setting maxspeed''
                                          [PStr (name s)]
                                   else s)))))"
    unfolding set_maxspeed_def Let_def s0_def c1_def c2_def x y requested_def legal_speed_def
      set_speed_command_def to_wire_speed_def
    by (simp only: conj_assoc append_Cons append_Nil)
  have sm: "set_maxspeed fl s x_arg y_arg =
      (if \<not> (py_eq fl (from_wire_speed fl sx) x \<and> py_eq fl (from_wire_speed fl sy) y)
       then Raises (AssertionError []) s3
       else Returns ()
              (if verbose s3
               then py_print s3 ''%s: -> done setting maxspeed'' [PStr (name s3)] else s3))"
    unfolding sm0
    using legal
    by (simp add: send_accepted [OF acc0, of c1, folded s1_def]
          send_accepted [OF acc1, of c2, folded s2_def] s3(1))
  have w: "written (port s3) =
      written (port s) @
      [command_bytes (device_address s) c1, command_bytes (device_address s) c2,
       command_bytes (device_address s) ''get maxspeed'']"
    "incoming (port s3) = rest"
    unfolding s3(4) by (simp_all add: p2)
  from c have c': "x_mm s2 = x_mm s" "y_mm s2 = y_mm s" by (simp_all add: keeps_cache_def)
  show ?thesis
  proof (cases "py_eq fl (from_wire_speed fl sx) x \<and> py_eq fl (from_wire_speed fl sy) y")
    case True
    let ?s4 = "if verbose s3
               then py_print s3 ''%s: -> done setting maxspeed'' [PStr (name s3)] else s3"
    from True s3 k w c' p2 show ?thesis
      unfolding sm c1_def c2_def by (intro exI [of _ ?s4]) (simp add: keeps_setup_def)
  next
    case False
    from False s3 k w c' p2 show ?thesis
      unfolding sm c1_def c2_def by (intro exI [of _ s3]) (simp add: keeps_setup_def)
  qed
qed

text \<open>
  C5, as amended. \<open>requested arg cached\<close> is the speed \<^verbatim>\<open>set_maxspeed\<close> works with (the
  argument, or the cached speed when it is left out). If a requested speed is outside
  [0.01, 750], \<^verbatim>\<open>set_maxspeed\<close> raises the AssertionError with the port untouched
  (nothing written, nothing read). Otherwise, with the three exchanges accepted and the
  fifth and sixth token of the last reply readable as numbers \<open>sx\<close> and \<open>sy\<close>: it has
  written the two set commands, whose argument is \<^verbatim>\<open>str(1e6 * 1.6384 * speed)\<close>, and the
  query; it has cached the read-back
  \<^verbatim>\<open>round(1e-6 * sx / 1.6384, 3)\<close>, \<^verbatim>\<open>round(1e-6 * sy / 1.6384, 3)\<close>; and it returns if
  the read-back equals (\<^verbatim>\<open>==\<close>) the requested speeds as they were passed, and raises the
  AssertionError otherwise. The requested speeds are not quantized before the comparison.
\<close>

theorem set_maxspeed_compares_request:
  "(\<not> (legal_speed fl (requested x_arg (x_mmps s)) \<and>
        legal_speed fl (requested y_arg (y_mmps s))) \<longrightarrow>
      (\<exists>s'. set_maxspeed fl s x_arg y_arg = Raises (AssertionError []) s' \<and>
                 port s' = port s \<and> keeps_setup s s' \<and> keeps_cache s s')) \<and>
   (incoming (port s) = r1 ## r2 ## r3 ## rest \<and>
    legal_speed fl (requested x_arg (x_mmps s)) \<and>
    legal_speed fl (requested y_arg (y_mmps s)) \<and>
    accepts (device_address s) (verbose s) reply r1 \<and>
    accepts (device_address s) (verbose s) reply r2 \<and>
    accepts (device_address s) (verbose s) reply r3 \<and>
    map (py_float fl) (slice 4 6 (split (payload (fst r3)))) = [Some sx, Some sy] \<longrightarrow>
      (\<exists>s'. set_maxspeed fl s x_arg y_arg =
                        (if py_eq fl (from_wire_speed fl sx) (requested x_arg (x_mmps s)) \<and> py_eq fl (from_wire_speed fl sy) (requested y_arg (y_mmps s))
                         then Returns () s' else Raises (AssertionError []) s') \<and>
                 written (port s') =
                   written (port s) @
                   [command_bytes (device_address s) (set_speed_command fl ''1'' (requested x_arg (x_mmps s))),
                    command_bytes (device_address s) (set_speed_command fl ''2'' (requested y_arg (y_mmps s))),
                    command_bytes (device_address s) ''get maxspeed''] \<and>
                 incoming (port s') = rest \<and>
                 x_mmps s' = from_wire_speed fl sx \<and> y_mmps s' = from_wire_speed fl sy \<and>
                 keeps_setup s s' \<and> x_mm s' = x_mm s \<and> y_mm s' = y_mm s \<and>
                 moving s' = moving s \<and> moving_x s' = moving_x s \<and> moving_y s' = moving_y s)) \<and>
   legal_speed fl v = (py_le fl (py_lit fl (1 / 100)) v \<and> py_le fl v (py_lit fl 750)) \<and>
   set_speed_command fl axis v =
     axis @ '' set maxspeed '' @
     py_str fl (py_mul fl (py_mul fl (py_lit fl 1000000) (py_lit fl (16384 / 10000))) v) \<and>
   from_wire_speed fl v =
     py_round3 fl
       (py_div fl (py_mul fl (py_lit fl (1 / 1000000)) v) (py_lit fl (16384 / 10000)))"
  apply (intro conjI impI)
      apply (rule set_maxspeed_rejected; assumption)
     apply (elim conjE, rule set_maxspeed_script; (assumption | rule refl))
    apply (rule legal_speed_def)
   apply (rule set_speed_command_def)
  apply (rule from_wire_speed_def)
  done

theorem set_maxspeed_compares_request_witness:
  "(\<exists>s'. set_maxspeed exact too_fast (Some 1000) (Some 100) = Raises (AssertionError []) s' \<and>
      port s' = port too_fast) \<and>
   (\<exists>s'. set_maxspeed exact speed_echoed (Some 100) None = Returns () s' \<and>
      written (port s') =
        [command_bytes ''01'' ''1 set maxspeed 163840000.0'',
         command_bytes ''01'' ''2 set maxspeed 163840000.0'',
         command_bytes ''01'' ''get maxspeed''] \<and>
      x_mmps s' = 100 \<and> y_mmps s' = 100)"
proof -
  have a: "\<not> (legal_speed exact (requested (Some 1000) (x_mmps too_fast)) \<and>
              legal_speed exact (requested (Some 100) (y_mmps too_fast)))"
    by (simp add: legal_speed_def requested_def exact_def)
  have b: "incoming (port speed_echoed) =
      (''@01 1 OK IDLE -- 0'' @ CRLF, 0) ## (''@01 2 OK IDLE -- 0'' @ CRLF, 0) ##
      (''@01 0 OK IDLE -- 163840000 163840000'' @ CRLF, 0) ## sconst ([], 0)"
    by (simp add: speed_echoed_def stage_def script_def)
  have c: "requested (Some 100) (x_mmps speed_echoed) = 100"
    "requested None (y_mmps speed_echoed) = 100"
    "legal_speed exact 100"
    by (simp_all add: legal_speed_def requested_def exact_def speed_echoed_def stage_def)
  have d: "accepts (device_address speed_echoed) (verbose speed_echoed) reply
             (''@01 1 OK IDLE -- 0'' @ CRLF, 0)"
    "accepts (device_address speed_echoed) (verbose speed_echoed) reply
             (''@01 2 OK IDLE -- 0'' @ CRLF, 0)"
    "accepts (device_address speed_echoed) (verbose speed_echoed) reply
             (''@01 0 OK IDLE -- 163840000 163840000'' @ CRLF, 0)"
    by (simp_all add: speed_echoed_def stage_def accepts_def string_defs)
  have e: "map (py_float exact)
             (slice 4 6 (split (payload (fst (''@01 0 OK IDLE -- 163840000 163840000'' @ CRLF,
                0::nat))))) = [Some 163840000, Some 163840000]"
    by (simp add: payload_def string_defs exact_defs)
  have f: "from_wire_speed exact 163840000 = 100" "py_eq exact 100 100"
    by (simp_all add: from_wire_speed_def exact_defs)
  have g: "set_speed_command exact ''1'' 100 = ''1 set maxspeed 163840000.0''"
    "set_speed_command exact ''2'' 100 = ''2 set maxspeed 163840000.0''"
    by (simp_all add: set_speed_command_def exact_defs)
  have h: "written (port speed_echoed) = []" "device_address speed_echoed = ''01''"
    by (simp_all add: speed_echoed_def stage_def)
  have one: "\<exists>s'. set_maxspeed exact too_fast (Some 1000) (Some 100) =
                 Raises (AssertionError []) s' \<and> port s' = port too_fast"
    using set_maxspeed_compares_request [where fl = exact and s = too_fast
        and x_arg = "Some 1000" and y_arg = "Some 100", THEN conjunct1] a
    by blast
  have two: "\<exists>s'. set_maxspeed exact speed_echoed (Some 100) None = Returns () s' \<and>
      written (port s') =
        [command_bytes ''01'' ''1 set maxspeed 163840000.0'',
         command_bytes ''01'' ''2 set maxspeed 163840000.0'',
         command_bytes ''01'' ''get maxspeed''] \<and>
      x_mmps s' = 100 \<and> y_mmps s' = 100"
    using set_maxspeed_compares_request [where fl = exact and s = speed_echoed
        and x_arg = "Some 100" and y_arg = None
        and ?r1.0 = "(''@01 1 OK IDLE -- 0'' @ CRLF, 0)"
        and ?r2.0 = "(''@01 2 OK IDLE -- 0'' @ CRLF, 0)"
        and ?r3.0 = "(''@01 0 OK IDLE -- 163840000 163840000'' @ CRLF, 0)"
        and rest = "sconst ([], 0)" and sx = 163840000 and sy = 163840000,
        THEN conjunct2, THEN conjunct1] b c d e f g h
    by (simp; blast)
  from one two show ?thesis by (rule conjI)
qed

text \<open>
  The claim as stated fails: the caller asks for 100.0004 mm/s on both axes, the device
  stores whole native units and reports 163840655, the read-back is 100.0, which is the
  value the request itself round-trips to (\<open>from_wire_speed (to_wire_speed 100.0004)\<close>),
  and \<^verbatim>\<open>set_maxspeed\<close> raises: it compares with 100.0004, the request as passed.
\<close>

theorem set_maxspeed_fails_on_quantized_match:
  "from_wire_speed exact (to_wire_speed exact (1000004 / 10000)) = 100 \<and>
   x_mmps (after (set_maxspeed exact speed_quantized
                    (Some (1000004 / 10000)) (Some (1000004 / 10000)))) = 100 \<and>
   y_mmps (after (set_maxspeed exact speed_quantized
                    (Some (1000004 / 10000)) (Some (1000004 / 10000)))) = 100 \<and>
   set_maxspeed exact speed_quantized (Some (1000004 / 10000)) (Some (1000004 / 10000)) =
     Raises (AssertionError [])
       (after (set_maxspeed exact speed_quantized
                 (Some (1000004 / 10000)) (Some (1000004 / 10000))))"
proof -
  have b: "incoming (port speed_quantized) =
      (''@01 1 OK IDLE -- 0'' @ CRLF, 0) ## (''@01 2 OK IDLE -- 0'' @ CRLF, 0) ##
      (''@01 0 OK IDLE -- 163840655 163840655'' @ CRLF, 0) ## sconst ([], 0)"
    by (simp add: speed_quantized_def stage_def script_def)
  have c: "1000004 / 10000 = requested (Some (1000004 / 10000)) (x_mmps speed_quantized)"
    "1000004 / 10000 = requested (Some (1000004 / 10000)) (y_mmps speed_quantized)"
    "legal_speed exact (1000004 / 10000)"
    by (simp_all add: legal_speed_def requested_def exact_def)
  have d: "accepts (device_address speed_quantized) (verbose speed_quantized) reply
             (''@01 1 OK IDLE -- 0'' @ CRLF, 0)"
    "accepts (device_address speed_quantized) (verbose speed_quantized) reply
             (''@01 2 OK IDLE -- 0'' @ CRLF, 0)"
    "accepts (device_address speed_quantized) (verbose speed_quantized) reply
             (''@01 0 OK IDLE -- 163840655 163840655'' @ CRLF, 0)"
    by (simp_all add: speed_quantized_def stage_def accepts_def string_defs)
  have e: "map (py_float exact)
             (slice 4 6 (split (payload (fst (''@01 0 OK IDLE -- 163840655 163840655'' @ CRLF,
                0::nat))))) = [Some 163840655, Some 163840655]"
    by (simp add: payload_def string_defs exact_defs)
  have f: "from_wire_speed exact 163840655 = 100"
    "\<not> py_eq exact 100 (1000004 / 10000)"
    "from_wire_speed exact (to_wire_speed exact (1000004 / 10000)) = 100"
    by (simp_all add: from_wire_speed_def to_wire_speed_def exact_defs round_def floor_eq_iff)
  from set_maxspeed_script [OF b c(1) c(2) c(3) c(3) d e] obtain s' where
    "set_maxspeed exact speed_quantized (Some (1000004 / 10000)) (Some (1000004 / 10000)) =
       (if py_eq exact (from_wire_speed exact 163840655) (1000004 / 10000) \<and>
           py_eq exact (from_wire_speed exact 163840655) (1000004 / 10000)
        then Returns () s' else Raises (AssertionError []) s')"
    "x_mmps s' = from_wire_speed exact 163840655"
    "y_mmps s' = from_wire_speed exact 163840655"
    by (elim exE conjE)
  with f show ?thesis by simp
qed

lemma speeds_simps [simp]:
  "speeds (py_print s f a) = speeds s"
  "speeds (exchanged s c) = speeds s"
  "speeds (answered s c) = speeds s"
  "speeds (s\<lparr>moving := b\<rparr>) = speeds s"
  "speeds (s\<lparr>moving_x := b\<rparr>) = speeds s"
  "speeds (s\<lparr>moving_y := b\<rparr>) = speeds s"
  "speeds (s\<lparr>x_mm := v\<rparr>) = speeds s"
  "speeds (s\<lparr>y_mm := v\<rparr>) = speeds s"
  by (simp_all add: speeds_def)

lemma send_speeds: "speeds (after (send s cmd rtype)) = speeds s"
  by (simp add: send_unfold Let_def split: list.splits option.splits sum.splits)

lemma get_status_speeds: "speeds (after (get_status s)) = speeds s"
  using send_speeds [of "if very_verbose s then py_print s ''%s: getting status'' [PStr (name s)] else s" "[]" reply]
  by (cases "send (if very_verbose s then py_print s ''%s: getting status'' [PStr (name s)] else s) [] reply")
     (auto simp: get_status_def Let_def split: option.splits)

lemma finish_moving_speeds:
  "finish_moving s = Some r \<Longrightarrow> speeds (after r) = speeds s"
proof (induction rule: finish_moving.raw_induct [rotated 1, consumes 1, case_names step])
  case (step f s r)
  note 1 = step
  show ?case
  proof (cases "moving s")
    case False
    with 1(2) show ?thesis by auto
  next
    case True
    show ?thesis
    proof (cases "get_status s")
      case (Raises e s1)
      with True 1(2) get_status_speeds [of s] show ?thesis by auto
    next
      case (Returns v s1)
      with True 1(2) have "f s1 = Some r" by simp
      from 1(1) [OF this] get_status_speeds [of s] Returns show ?thesis by simp
    qed
  qed
qed

lemma get_status_x_speeds: "speeds (after (get_status_x s)) = speeds s"
  using send_speeds [of "if very_verbose s then py_print s ''%s: getting status on x'' [PStr (name s)] else s" "''1''" reply]
  by (cases "send (if very_verbose s then py_print s ''%s: getting status on x'' [PStr (name s)] else s) ''1'' reply")
     (auto simp: get_status_x_def Let_def split: option.splits)

lemma finish_moving_x_speeds:
  "finish_moving_x s = Some r \<Longrightarrow> speeds (after r) = speeds s"
proof (induction rule: finish_moving_x.raw_induct [rotated 1, consumes 1, case_names step])
  case (step f s r)
  note 1 = step
  show ?case
  proof (cases "moving_x s")
    case False
    with 1(2) show ?thesis by auto
  next
    case True
    show ?thesis
    proof (cases "get_status_x s")
      case (Raises e s1)
      with True 1(2) get_status_x_speeds [of s] show ?thesis by auto
    next
      case (Returns v s1)
      with True 1(2) have "f s1 = Some r" by simp
      from 1(1) [OF this] get_status_x_speeds [of s] Returns show ?thesis by simp
    qed
  qed
qed

lemma get_status_y_speeds: "speeds (after (get_status_y s)) = speeds s"
  using send_speeds [of "if very_verbose s then py_print s ''%s: getting status on y'' [PStr (name s)] else s" "''2''" reply]
  by (cases "send (if very_verbose s then py_print s ''%s: getting status on y'' [PStr (name s)] else s) ''2'' reply")
     (auto simp: get_status_y_def Let_def split: option.splits)

lemma finish_moving_y_speeds:
  "finish_moving_y s = Some r \<Longrightarrow> speeds (after r) = speeds s"
proof (induction rule: finish_moving_y.raw_induct [rotated 1, consumes 1, case_names step])
  case (step f s r)
  note 1 = step
  show ?case
  proof (cases "moving_y s")
    case False
    with 1(2) show ?thesis by auto
  next
    case True
    show ?thesis
    proof (cases "get_status_y s")
      case (Raises e s1)
      with True 1(2) get_status_y_speeds [of s] show ?thesis by auto
    next
      case (Returns v s1)
      with True 1(2) have "f s1 = Some r" by simp
      from 1(1) [OF this] get_status_y_speeds [of s] Returns show ?thesis by simp
    qed
  qed
qed

lemma get_warnings_speeds: "speeds (after (get_warnings s)) = speeds s"
  using send_speeds [of "if very_verbose s then py_print s ''%s: getting warnings'' [PStr (name s)] else s" "''warnings''" reply]
  by (cases "send (if very_verbose s then py_print s ''%s: getting warnings'' [PStr (name s)] else s) ''warnings'' reply")
     (auto simp: get_warnings_def Let_def)

lemma stop_x_speeds: "speeds (after (stop_x s)) = speeds s"
  using send_speeds [of "if very_verbose s then py_print s ''%s: stopping x axis'' [PStr (name s)] else s" "''1 stop''" reply]
  by (cases "send (if very_verbose s then py_print s ''%s: stopping x axis'' [PStr (name s)] else s) ''1 stop'' reply")
     (auto simp: stop_x_def Let_def simp del: set_simps)

lemma stop_y_speeds: "speeds (after (stop_y s)) = speeds s"
  using send_speeds [of "if very_verbose s then py_print s ''%s: stopping y axis'' [PStr (name s)] else s" "''2 stop''" reply]
  by (cases "send (if very_verbose s then py_print s ''%s: stopping y axis'' [PStr (name s)] else s) ''2 stop'' reply")
     (auto simp: stop_y_def Let_def simp del: set_simps)

lemma get_position_mm_speeds: "speeds (after (get_position_mm fl s)) = speeds s"
  using send_speeds [of "if verbose s then py_print s ''%s: getting position'' [PStr (name s)] else s" "''get pos''" reply]
  by (cases "send (if verbose s then py_print s ''%s: getting position'' [PStr (name s)] else s) ''get pos'' reply")
     (auto simp: get_position_mm_def Let_def speeds_def split: list.splits option.splits)

lemma home_speeds: "home s = Some r \<Longrightarrow> speeds (after r) = speeds s"
  using send_speeds [of "if verbose s then py_print s ''%s: homing'' [PStr (name s)] else s" "''home''" reply]
  by (cases "send (if verbose s then py_print s ''%s: homing'' [PStr (name s)] else s) ''home'' reply")
     (auto simp: home_def Let_def split: option.splits outcome.splits if_splits
        dest!: finish_moving_speeds)

lemma move_x_speeds: "move_x fl s x relative block = Some r \<Longrightarrow> speeds (after r) = speeds s"
proof -
  assume m: "move_x fl s x relative block = Some r"
  show ?thesis
  proof (cases "if moving_x s then finish_moving_x s else Some (Returns () s)")
    case None
    with m show ?thesis by (simp add: move_x_def)
  next
    case (Some p)
    then have p: "speeds (after p) = speeds s"
      by (auto split: if_splits dest: finish_moving_x_speeds)
    show ?thesis
    proof (cases p)
      case (Raises e s1)
      with m Some p show ?thesis by (simp add: move_x_def)
    next
      case (Returns u s1)
      let ?s0 = "if very_verbose s1
                 then py_print s1 ''%s: moving to x_mm = %10.06f (relative=%s)''
                        [PStr (name s1), PNum x, PBool relative]
                 else s1"
      let ?t = "if relative then py_add fl (x_mm ?s0) x else x"
      let ?c = "''1 move abs '' @ py_str fl (py_mul fl (py_lit fl 1000000) ?t)"
      from p Returns have s1: "speeds s1 = speeds s" by simp
      show ?thesis
      proof (cases "py_le fl (x_min_mm ?s0) ?t \<and> py_le fl ?t (x_max_mm ?s0)")
        case False
        with m Some Returns s1 show ?thesis
          by (auto simp: move_x_def Let_def)
      next
        case True
        show ?thesis
        proof (cases "send ?s0 ?c reply")
          case (Raises e s2)
          with m Some Returns True s1 send_speeds [of ?s0 ?c reply] show ?thesis
            by (auto simp: move_x_def Let_def)
        next
          case r: (Returns v s2)
          with send_speeds [of ?s0 ?c reply] s1 have s2: "speeds s2 = speeds s" by simp
          from m Some Returns True r have
            "(if block then finish_moving_x (s2\<lparr>moving_x := True, x_mm := ?t\<rparr>)
              else Some (Returns () (s2\<lparr>moving_x := True, x_mm := ?t\<rparr>))) = Some r"
            by (simp add: move_x_def Let_def)
          with s2 show ?thesis
            by (auto split: if_splits dest!: finish_moving_x_speeds)
        qed
      qed
    qed
  qed
qed

lemma move_y_speeds: "move_y fl s y relative block = Some r \<Longrightarrow> speeds (after r) = speeds s"
proof -
  assume m: "move_y fl s y relative block = Some r"
  show ?thesis
  proof (cases "if moving_y s then finish_moving_y s else Some (Returns () s)")
    case None
    with m show ?thesis by (simp add: move_y_def)
  next
    case (Some p)
    then have p: "speeds (after p) = speeds s"
      by (auto split: if_splits dest: finish_moving_y_speeds)
    show ?thesis
    proof (cases p)
      case (Raises e s1)
      with m Some p show ?thesis by (simp add: move_y_def)
    next
      case (Returns u s1)
      let ?s0 = "if very_verbose s1
                 then py_print s1 ''%s: moving to y_mm = %10.06f (relative=%s)''
                        [PStr (name s1), PNum y, PBool relative]
                 else s1"
      let ?t = "if relative then py_add fl (y_mm ?s0) y else y"
      let ?c = "''2 move abs '' @ py_str fl (py_mul fl (py_lit fl 1000000) ?t)"
      from p Returns have s1: "speeds s1 = speeds s" by simp
      show ?thesis
      proof (cases "py_le fl (y_min_mm ?s0) ?t \<and> py_le fl ?t (y_max_mm ?s0)")
        case False
        with m Some Returns s1 show ?thesis
          by (auto simp: move_y_def Let_def)
      next
        case True
        show ?thesis
        proof (cases "send ?s0 ?c reply")
          case (Raises e s2)
          with m Some Returns True s1 send_speeds [of ?s0 ?c reply] show ?thesis
            by (auto simp: move_y_def Let_def)
        next
          case r: (Returns v s2)
          with send_speeds [of ?s0 ?c reply] s1 have s2: "speeds s2 = speeds s" by simp
          from m Some Returns True r have
            "(if block then finish_moving_y (s2\<lparr>moving_y := True, y_mm := ?t\<rparr>)
              else Some (Returns () (s2\<lparr>moving_y := True, y_mm := ?t\<rparr>))) = Some r"
            by (simp add: move_y_def Let_def)
          with s2 show ?thesis
            by (auto split: if_splits dest!: finish_moving_y_speeds)
        qed
      qed
    qed
  qed
qed

lemma move_mm_speeds:
  "move_mm fl s x y relative block = Some r \<Longrightarrow> speeds (after r) = speeds s"
  by (auto simp: move_mm_def Let_def split: option.splits outcome.splits if_splits
      dest!: move_x_speeds move_y_speeds finish_moving_speeds)

lemma get_maxspeed_stores:
  "get_maxspeed fl s = Returns (rx, ry) s' \<Longrightarrow> x_mmps s' = rx \<and> y_mmps s' = ry"
  by (auto simp: get_maxspeed_def Let_def split: outcome.splits list.splits option.splits)

lemma set_maxspeed_default:
  "set_maxspeed fl s None y_arg = set_maxspeed fl s (Some (x_mmps s)) y_arg"
  "set_maxspeed fl s x_arg None = set_maxspeed fl s x_arg (Some (y_mmps s))"
  by (simp_all add: set_maxspeed_def)

lemma get_warnings_accepted:
  assumes acc: "accepts (device_address s) (verbose s) reply (shd (incoming (port s)))"
  shows "\<exists>s'. get_warnings s = Returns (payload (fst (shd (incoming (port s))))) s' \<and>
           port s' = exchange (port s) (command_bytes (device_address s) ''warnings'') \<and>
           keeps_setup s s' \<and> keeps_cache s s' \<and>
           moving s' = moving s \<and> moving_x s' = moving_x s \<and> moving_y s' = moving_y s"
proof -
  define s0 where
    "s0 = (if very_verbose s then py_print s ''%s: getting warnings'' [PStr (name s)] else s)"
  have p0: "device_address s0 = device_address s" "verbose s0 = verbose s"
    "incoming (port s0) = incoming (port s)" "port s0 = port s"
    "keeps_setup s s0" "keeps_cache s s0"
    "moving s0 = moving s" "moving_x s0 = moving_x s" "moving_y s0 = moving_y s"
    by (simp_all add: s0_def keeps_setup_def keeps_cache_def)
  have acc0: "accepts (device_address s0) (verbose s0) reply (shd (incoming (port s0)))"
    unfolding p0 by (rule acc)
  have g: "get_warnings s =
      Returns (payload (fst (shd (incoming (port s)))))
        (if very_verbose (answered s0 ''warnings'')
         then py_print (answered s0 ''warnings'') ''%s:  = %s''
                [PStr (name (answered s0 ''warnings'')),
                 PStr (payload (fst (shd (incoming (port s)))))]
         else answered s0 ''warnings'')"
    unfolding get_warnings_def Let_def s0_def [symmetric]
    by (simp add: send_accepted [OF acc0] p0)
  from p0 show ?thesis
    unfolding g by (simp add: keeps_setup_def keeps_cache_def)
qed

lemma home_script:
  assumes st: "incoming (port s) = ack ## (post @- rest)"
    and acc: "accepts (device_address s) (verbose s) reply ack"
    and busy: "payload (fst ack) = ''0 OK BUSY WR 0''"
    and post: "polls_to_idle (device_address s) (verbose s) post"
  shows "\<exists>s'. home s = Some (Returns () s') \<and>
           written (port s') =
             written (port s) @
             command_bytes (device_address s) ''home'' #
             replicate (length post) (command_bytes (device_address s) []) \<and>
           incoming (port s') = rest \<and> keeps_setup s s' \<and> keeps_cache s s' \<and>
           moving_x s' = moving_x s \<and> moving_y s' = moving_y s"
proof -
  define s0 where "s0 = (if verbose s then py_print s ''%s: homing'' [PStr (name s)] else s)"
  define s1 where "s1 = (answered s0 ''home'')\<lparr>moving := True\<rparr>"
  have p0: "device_address s0 = device_address s" "verbose s0 = verbose s"
    "incoming (port s0) = incoming (port s)" "port s0 = port s"
    "keeps_setup s s0" "keeps_cache s s0" "moving_x s0 = moving_x s" "moving_y s0 = moving_y s"
    by (simp_all add: s0_def keeps_setup_def keeps_cache_def)
  have acc0: "accepts (device_address s0) (verbose s0) reply (shd (incoming (port s0)))"
    unfolding p0 using acc st by simp
  have pl: "payload (fst (shd (incoming (port s0)))) = ''0 OK BUSY WR 0''"
    unfolding p0 using busy st by simp
  have h: "home s =
      (case finish_moving s1 of
         None \<Rightarrow> None
       | Some (Raises e s) \<Rightarrow> Some (Raises e s)
       | Some (Returns _ s) \<Rightarrow>
           Some (Returns ()
             (if verbose s then py_print s ''%s: done homing'' [PStr (name s)] else s)))"
    unfolding home_def Let_def s0_def [symmetric] s1_def
    by (simp add: send_accepted [OF acc0] pl)
  have p1: "incoming (port s1) = post @- rest"
    "if moving s1 then polls_to_idle (device_address s1) (verbose s1) post else post = []"
    "written (port s1) = written (port s) @ [command_bytes (device_address s) ''home'']"
    "device_address s1 = device_address s"
    "keeps_setup s s1" "keeps_cache s s1" "moving_x s1 = moving_x s" "moving_y s1 = moving_y s"
    using st post p0 [unfolded keeps_setup_def keeps_cache_def]
    by (simp_all add: s1_def keeps_setup_def keeps_cache_def)
  from finish_moving_script [OF p1(1,2)] obtain s2 where
    s2: "finish_moving s1 = Some (Returns () s2)"
      "written (port s2) =
         written (port s1) @ replicate (length post) (command_bytes (device_address s1) [])"
      "incoming (port s2) = rest" "keeps_setup s1 s2" "keeps_cache s1 s2"
      "moving_x s2 = moving_x s1" "moving_y s2 = moving_y s1"
    by (elim exE conjE)
  from s2 p1 keeps_setup_trans [OF p1(5) s2(4)] keeps_cache_trans [OF p1(6) s2(5)]
  show ?thesis
    unfolding h by (simp add: keeps_setup_def keeps_cache_def)
qed

lemma check_warnings_script:
  assumes st: "incoming (port s) = status ## w1 ## (homing @- (w2 ## rest))"
    and status: "reports (device_address s) (verbose s) status = Some b"
    and w1: "accepts (device_address s) (verbose s) reply w1"
    and homing:
      "if payload (fst w1) = ''0 OK IDLE WR 01 WR''
       then homing \<noteq> [] \<and> accepts (device_address s) (verbose s) reply (hd homing) \<and>
            payload (fst (hd homing)) = ''0 OK BUSY WR 0'' \<and>
            polls_to_idle (device_address s) (verbose s) (tl homing)
       else homing = []"
    and w2: "accepts (device_address s) (verbose s) reply w2"
  shows "\<exists>s'. check_warnings s =
                  Some (if payload (fst w2) \<in> set [''0 OK IDLE -- 00'', ''0 OK IDLE NI 01 NI'']
                        then Returns () s'
                        else Raises (Exception ''warnings (%s) not recognised'') s') \<and>
           written (port s') =
             written (port s) @
             [command_bytes (device_address s) [],
              command_bytes (device_address s) ''warnings''] @
             (if payload (fst w1) = ''0 OK IDLE WR 01 WR''
              then command_bytes (device_address s) ''home'' #
                   replicate (length homing - 1) (command_bytes (device_address s) [])
              else []) @
             [command_bytes (device_address s) ''warnings''] \<and>
           incoming (port s') = rest \<and> keeps_setup s s' \<and> keeps_cache s s'"
proof -
  have "reports (device_address s) (verbose s) (shd (incoming (port s))) = Some b"
    using status st by simp
  from get_status_reports [OF this] obtain s1 where
    s1: "get_status s = Returns (payload (fst (shd (incoming (port s))))) s1"
      "port s1 = exchange (port s) (command_bytes (device_address s) [])"
      "keeps_setup s s1" "keeps_cache s s1"
    by (elim exE conjE)
  from s1(3) have k1: "device_address s1 = device_address s" "verbose s1 = verbose s"
    by (simp_all add: keeps_setup_def)
  have i1: "incoming (port s1) = w1 ## (homing @- (w2 ## rest))"
    "written (port s1) = written (port s) @ [command_bytes (device_address s) []]"
    unfolding s1(2) using st by simp_all
  have "accepts (device_address s1) (verbose s1) reply (shd (incoming (port s1)))"
    unfolding k1 i1 using w1 by simp
  from get_warnings_accepted [OF this] obtain s2 where
    s2: "get_warnings s1 = Returns (payload (fst (shd (incoming (port s1))))) s2"
      "port s2 = exchange (port s1) (command_bytes (device_address s1) ''warnings'')"
      "keeps_setup s1 s2" "keeps_cache s1 s2"
    by (elim exE conjE)
  have g2: "get_warnings s1 = Returns (payload (fst w1)) s2"
    using s2(1) unfolding i1 by simp
  have ks2: "keeps_setup s s2" by (rule keeps_setup_trans [OF s1(3) s2(3)])
  have kc2: "keeps_cache s s2" by (rule keeps_cache_trans [OF s1(4) s2(4)])
  from ks2 have k2: "device_address s2 = device_address s" "verbose s2 = verbose s"
    by (simp_all add: keeps_setup_def)
  have i2: "incoming (port s2) = homing @- (w2 ## rest)"
    "written (port s2) =
       written (port s) @
       [command_bytes (device_address s) [], command_bytes (device_address s) ''warnings'']"
    unfolding s2(2) k1 by (simp_all add: i1)
  have "\<exists>s3. (if payload (fst w1) = ''0 OK IDLE WR 01 WR'' then home s2
              else Some (Returns () s2)) = Some (Returns () s3) \<and>
          written (port s3) =
            written (port s2) @
            (if payload (fst w1) = ''0 OK IDLE WR 01 WR''
             then command_bytes (device_address s) ''home'' #
                  replicate (length homing - 1) (command_bytes (device_address s) [])
             else []) \<and>
          incoming (port s3) = w2 ## rest \<and> keeps_setup s2 s3 \<and> keeps_cache s2 s3"
  proof (cases "payload (fst w1) = ''0 OK IDLE WR 01 WR''")
    case False
    with homing i2 show ?thesis by simp
  next
    case True
    with homing have h: "homing = hd homing # tl homing"
      "accepts (device_address s2) (verbose s2) reply (hd homing)"
      "payload (fst (hd homing)) = ''0 OK BUSY WR 0''"
      "polls_to_idle (device_address s2) (verbose s2) (tl homing)"
      by (simp_all add: k2)
    have "incoming (port s2) = hd homing ## (tl homing @- (w2 ## rest))"
      unfolding i2 by (subst h(1)) simp
    from home_script [OF this h(2,3,4)] True show ?thesis
      by (simp add: k2; blast)
  qed
  then obtain s3 where
    s3: "(if payload (fst w1) = ''0 OK IDLE WR 01 WR'' then home s2
          else Some (Returns () s2)) = Some (Returns () s3)"
      "written (port s3) =
         written (port s2) @
         (if payload (fst w1) = ''0 OK IDLE WR 01 WR''
          then command_bytes (device_address s) ''home'' #
               replicate (length homing - 1) (command_bytes (device_address s) [])
          else [])"
      "incoming (port s3) = w2 ## rest" "keeps_setup s2 s3" "keeps_cache s2 s3"
    by (elim exE conjE)
  have ks3: "keeps_setup s s3" by (rule keeps_setup_trans [OF ks2 s3(4)])
  have kc3: "keeps_cache s s3" by (rule keeps_cache_trans [OF kc2 s3(5)])
  from ks3 have k3: "device_address s3 = device_address s" "verbose s3 = verbose s"
    by (simp_all add: keeps_setup_def)
  have "accepts (device_address s3) (verbose s3) reply (shd (incoming (port s3)))"
    unfolding k3 s3(3) using w2 by simp
  from get_warnings_accepted [OF this] obtain s4 where
    s4: "get_warnings s3 = Returns (payload (fst (shd (incoming (port s3))))) s4"
      "port s4 = exchange (port s3) (command_bytes (device_address s3) ''warnings'')"
      "keeps_setup s3 s4" "keeps_cache s3 s4"
    by (elim exE conjE)
  have g4: "get_warnings s3 = Returns (payload (fst w2)) s4"
    using s4(1) unfolding s3(3) by simp
  have i4: "incoming (port s4) = rest"
    "written (port s4) = written (port s3) @ [command_bytes (device_address s) ''warnings'']"
    unfolding s4(2) k3 by (simp_all add: s3(3))
  have cw: "check_warnings s =
      (if payload (fst w2) \<notin> set [''0 OK IDLE -- 00'', ''0 OK IDLE NI 01 NI'']
       then Some (Raises (Exception ''warnings (%s) not recognised'') s4)
       else Some (Returns () s4))"
    unfolding check_warnings_def by (simp only: s1(1) g2 s3(1) g4 outcome.case option.case)
  have "written (port s4) =
      written (port s) @
      [command_bytes (device_address s) [], command_bytes (device_address s) ''warnings''] @
      (if payload (fst w1) = ''0 OK IDLE WR 01 WR''
       then command_bytes (device_address s) ''home'' #
            replicate (length homing - 1) (command_bytes (device_address s) [])
       else []) @
      [command_bytes (device_address s) ''warnings'']"
    unfolding i4 s3(2) i2 by simp
  with i4(1) keeps_setup_trans [OF ks3 s4(3)] keeps_cache_trans [OF kc3 s4(4)]
  show ?thesis
    unfolding cw by (intro exI [of _ s4]) (simp del: set_simps)
qed

lemma check_device_id_identified:
  assumes "identifies (fst (shd (incoming (port s))))"
  shows "\<exists>s'. check_device_id s = Returns () s' \<and>
           device_address s' = slice 1 3 (fst (shd (incoming (port s)))) \<and>
           port s' = exchange (port s) (''/get device.id'' @ LF) \<and>
           verbose s' = verbose s \<and> very_verbose s' = very_verbose s \<and> name s' = name s"
proof -
  define line where "line = fst (shd (incoming (port s)))"
  define s0 where
    "s0 = (if verbose s then py_print s ''%s: getting device id'' [PStr (name s)] else s)"
  define s1 where
    "s1 = (if very_verbose s0
           then py_print s0 ''%s: sending cmd = '' [PStr (name s0), PBytes (''/get device.id'' @ LF)]
           else s0)"
  define s2 where "s2 = s1\<lparr>port := exchange (port s1) (''/get device.id'' @ LF)\<rparr>"
  define s3 where
    "s3 = (if very_verbose s2
           then py_print s2 ''%s: response    = '' [PStr (name s2), PBytes line] else s2)"
  have p: "port s1 = port s" "verbose s1 = verbose s" "very_verbose s1 = very_verbose s"
    "name s1 = name s"
    by (simp_all add: s1_def s0_def)
  have p3: "port s3 = exchange (port s) (''/get device.id'' @ LF)" "verbose s3 = verbose s"
    "very_verbose s3 = very_verbose s" "name s3 = name s"
    by (simp_all add: s3_def s2_def p)
  obtain t ts where toks: "split line = t # ts"
    using assms by (cases "split line") (simp_all add: identifies_def line_def)
  have pre: "(let cmd = ''/get device.id'' @ LF;
          s = (if verbose s then py_print s ''%s: getting device id'' [PStr (name s)] else s);
          s = (if very_verbose s
               then py_print s ''%s: sending cmd = '' [PStr (name s), PBytes cmd] else s);
          s = s\<lparr>port := port_write (port s) cmd\<rparr>;
          (response, p) = port_readline (port s);
          s = s\<lparr>port := p\<rparr>;
          s = (if very_verbose s
               then py_print s ''%s: response    = '' [PStr (name s), PBytes response] else s)
      in f response s) = f line s3" for f :: "string \<Rightarrow> 'a controller \<Rightarrow> 'b"
    unfolding Let_def s3_def s2_def s1_def s0_def line_def
    by (simp add: port_readline_def port_write_def exchange_def p)
  show ?thesis
    unfolding check_device_id_def
    apply (subst pre)
    using assms toks p3
    apply (simp add: identifies_def line_def [symmetric] Let_def)
    done
qed

lemma home_in_log:
  "(command_bytes a ''home'' \<in>
      set ([command_bytes a [], command_bytes a ''warnings''] @
           (if c then command_bytes a ''home'' # replicate n (command_bytes a []) else []) @
           [command_bytes a ''warnings''])) = c"
  by (auto simp: command_bytes_def LF_def)

lemma check_warnings_homes_iff:
  assumes st: "incoming (port s) = status ## w1 ## (homing @- (w2 ## rest))"
    and status: "reports (device_address s) (verbose s) status = Some b"
    and w1: "accepts (device_address s) (verbose s) reply w1"
    and homing:
      "if payload (fst w1) = ''0 OK IDLE WR 01 WR''
       then homing \<noteq> [] \<and> accepts (device_address s) (verbose s) reply (hd homing) \<and>
            payload (fst (hd homing)) = ''0 OK BUSY WR 0'' \<and>
            polls_to_idle (device_address s) (verbose s) (tl homing)
       else homing = []"
    and w2: "accepts (device_address s) (verbose s) reply w2"
  shows "\<exists>s'. check_warnings s =
                  Some (if payload (fst w2) \<in> set [''0 OK IDLE -- 00'', ''0 OK IDLE NI 01 NI'']
                        then Returns () s'
                        else Raises (Exception ''warnings (%s) not recognised'') s') \<and>
           written (port s') =
             written (port s) @
             [command_bytes (device_address s) [],
              command_bytes (device_address s) ''warnings''] @
             (if payload (fst w1) = ''0 OK IDLE WR 01 WR''
              then command_bytes (device_address s) ''home'' #
                   replicate (length homing - 1) (command_bytes (device_address s) [])
              else []) @
             [command_bytes (device_address s) ''warnings''] \<and>
           (command_bytes (device_address s) ''home'' \<in>
              set (drop (length (written (port s))) (written (port s')))) =
             (payload (fst w1) = ''0 OK IDLE WR 01 WR'') \<and>
           incoming (port s') = rest"
proof -
  from check_warnings_script [OF assms] obtain s' where
    s': "check_warnings s =
           Some (if payload (fst w2) \<in> set [''0 OK IDLE -- 00'', ''0 OK IDLE NI 01 NI'']
                 then Returns () s'
                 else Raises (Exception ''warnings (%s) not recognised'') s')"
      "written (port s') =
         written (port s) @
         [command_bytes (device_address s) [],
          command_bytes (device_address s) ''warnings''] @
         (if payload (fst w1) = ''0 OK IDLE WR 01 WR''
          then command_bytes (device_address s) ''home'' #
               replicate (length homing - 1) (command_bytes (device_address s) [])
          else []) @
         [command_bytes (device_address s) ''warnings'']"
      "incoming (port s') = rest"
    by (elim exE conjE)
  have "(command_bytes (device_address s) ''home'' \<in>
           set (drop (length (written (port s))) (written (port s')))) =
        (payload (fst w1) = ''0 OK IDLE WR 01 WR'')"
  proof -
    have dl: "drop (length xs) (xs @ ys) = ys" for xs ys :: "string list" by simp
    show ?thesis unfolding s'(2) dl by (rule home_in_log)
  qed
  with s' show ?thesis by (intro exI [of _ s'] conjI)
qed

lemma init_script:
  assumes legal: "legal_limits fl x_limits_mm y_limits_mm"
    and st: "incoming p = idr ## status ## w1 ## (homing @- (w2 ## rest))"
    and idr: "identifies (fst idr)"
    and status: "reports (slice 1 3 (fst idr)) v status = Some b"
    and w1: "accepts (slice 1 3 (fst idr)) v reply w1"
    and homing:
      "if payload (fst w1) = ''0 OK IDLE WR 01 WR''
       then homing \<noteq> [] \<and> accepts (slice 1 3 (fst idr)) v reply (hd homing) \<and>
            payload (fst (hd homing)) = ''0 OK BUSY WR 0'' \<and>
            polls_to_idle (slice 1 3 (fst idr)) v (tl homing)
       else homing = []"
    and w2: "accepts (slice 1 3 (fst idr)) v reply w2"
  shows "\<exists>s'. init fl p nm v vv x_limits_mm y_limits_mm maxspeed_mmps =
                  Some (if payload (fst w2) \<in> set [''0 OK IDLE -- 00'', ''0 OK IDLE NI 01 NI'']
                        then get_ready fl s' maxspeed_mmps
                        else Raises (Exception ''warnings (%s) not recognised'') s') \<and>
           written (port s') =
             written p @
             (''/get device.id'' @ LF) #
             [command_bytes (slice 1 3 (fst idr)) [],
              command_bytes (slice 1 3 (fst idr)) ''warnings''] @
             (if payload (fst w1) = ''0 OK IDLE WR 01 WR''
              then command_bytes (slice 1 3 (fst idr)) ''home'' #
                   replicate (length homing - 1) (command_bytes (slice 1 3 (fst idr)) [])
              else []) @
             [command_bytes (slice 1 3 (fst idr)) ''warnings''] \<and>
           incoming (port s') = rest"
proof -
  define s0 where
    "s0 = (let s = (blank fl p nm v vv)
                     \<lparr>x_min_mm := fst x_limits_mm, x_max_mm := snd x_limits_mm,
                       y_min_mm := fst y_limits_mm, y_max_mm := snd y_limits_mm\<rparr>;
               s = (if verbose s then py_print s ''%s: opening...'' [PStr (name s)] else s);
               s = (if verbose s then py_print s '' done.'' [] else s)
           in s)"
  have i0: "init fl p nm v vv x_limits_mm y_limits_mm maxspeed_mmps =
      (case check_device_id s0 of
         Raises e s \<Rightarrow> Some (Raises e s)
       | Returns _ s \<Rightarrow>
           (case check_warnings s of
              None \<Rightarrow> None
            | Some (Raises e s) \<Rightarrow> Some (Raises e s)
            | Some (Returns _ s) \<Rightarrow> Some (get_ready fl s maxspeed_mmps)))"
    unfolding init_def s0_def Let_def using legal by (simp add: legal_limits_def)
  have p0: "port s0 = p" "verbose s0 = v"
    by (simp_all add: s0_def Let_def blank_def)
  have "identifies (fst (shd (incoming (port s0))))"
    unfolding p0 st using idr by simp
  from check_device_id_identified [OF this] obtain s1 where
    s1: "check_device_id s0 = Returns () s1"
      "device_address s1 = slice 1 3 (fst (shd (incoming (port s0))))"
      "port s1 = exchange (port s0) (''/get device.id'' @ LF)"
      "verbose s1 = verbose s0"
    by (elim exE conjE)
  have a1: "device_address s1 = slice 1 3 (fst idr)" "verbose s1 = v"
    "incoming (port s1) = status ## w1 ## (homing @- (w2 ## rest))"
    "written (port s1) = written p @ [''/get device.id'' @ LF]"
    using s1 st by (simp_all add: p0)
  have h1: "reports (device_address s1) (verbose s1) status = Some b"
    unfolding a1 by (rule status)
  have h2: "accepts (device_address s1) (verbose s1) reply w1"
    unfolding a1 by (rule w1)
  have h3: "if payload (fst w1) = ''0 OK IDLE WR 01 WR''
       then homing \<noteq> [] \<and> accepts (device_address s1) (verbose s1) reply (hd homing) \<and>
            payload (fst (hd homing)) = ''0 OK BUSY WR 0'' \<and>
            polls_to_idle (device_address s1) (verbose s1) (tl homing)
       else homing = []"
    unfolding a1 by (rule homing)
  have h4: "accepts (device_address s1) (verbose s1) reply w2"
    unfolding a1 by (rule w2)
  from check_warnings_script [OF a1(3) h1 h2 h3 h4]
  obtain s2 where
    s2: "check_warnings s1 =
           Some (if payload (fst w2) \<in> set [''0 OK IDLE -- 00'', ''0 OK IDLE NI 01 NI'']
                 then Returns () s2
                 else Raises (Exception ''warnings (%s) not recognised'') s2)"
      "written (port s2) =
         written (port s1) @
         [command_bytes (device_address s1) [],
          command_bytes (device_address s1) ''warnings''] @
         (if payload (fst w1) = ''0 OK IDLE WR 01 WR''
          then command_bytes (device_address s1) ''home'' #
               replicate (length homing - 1) (command_bytes (device_address s1) [])
          else []) @
         [command_bytes (device_address s1) ''warnings'']"
      "incoming (port s2) = rest"
    by (elim exE conjE)
  show ?thesis
    unfolding i0 s1(1)
    using s2 a1 by (intro exI [of _ s2]) (simp del: set_simps)
qed

text \<open>
  C6. The warnings part of \<^verbatim>\<open>__init__\<close> (lines 60-66, \<open>check_warnings\<close>), with the device
  answering the status query (\<open>status\<close>), the first warnings query (\<open>w1\<close>), the home
  sequence if there is one (\<open>homing\<close>: the reply to the home command and the status polls
  up to the first idle one) and the second warnings query (\<open>w2\<close>): the home command is
  among the commands written exactly when the first warnings reply is
  \<^verbatim>\<open>0 OK IDLE WR 01 WR\<close>, and the part raises the exception
  \<^verbatim>\<open>warnings (%s) not recognised\<close> exactly when the second reply is neither
  \<^verbatim>\<open>0 OK IDLE -- 00\<close> nor \<^verbatim>\<open>0 OK IDLE NI 01 NI\<close>, and returns otherwise. For \<^verbatim>\<open>__init__\<close> as a
  whole, with legal limits and a device that identifies itself as 50998: construction
  ends with that exception when the second reply is not one of the two strings, and goes
  on to the last part (\<open>get_ready\<close>) when it is.
\<close>

theorem warnings_decide_homing_and_failure:
  "((incoming (port s) = status ## w1 ## (homing @- (w2 ## rest))) \<and>
    (reports (device_address s) (verbose s) status = Some b) \<and>
    (accepts (device_address s) (verbose s) reply w1) \<and>
    (if payload (fst w1) = ''0 OK IDLE WR 01 WR''
       then homing \<noteq> [] \<and> accepts (device_address s) (verbose s) reply (hd homing) \<and>
            payload (fst (hd homing)) = ''0 OK BUSY WR 0'' \<and>
            polls_to_idle (device_address s) (verbose s) (tl homing)
       else homing = []) \<and>
    (accepts (device_address s) (verbose s) reply w2) \<longrightarrow>
      (\<exists>s'. check_warnings s =
                  Some (if payload (fst w2) \<in> set [''0 OK IDLE -- 00'', ''0 OK IDLE NI 01 NI'']
                        then Returns () s'
                        else Raises (Exception ''warnings (%s) not recognised'') s') \<and>
           written (port s') =
             written (port s) @
             [command_bytes (device_address s) [],
              command_bytes (device_address s) ''warnings''] @
             (if payload (fst w1) = ''0 OK IDLE WR 01 WR''
              then command_bytes (device_address s) ''home'' #
                   replicate (length homing - 1) (command_bytes (device_address s) [])
              else []) @
             [command_bytes (device_address s) ''warnings''] \<and>
           (command_bytes (device_address s) ''home'' \<in>
              set (drop (length (written (port s))) (written (port s')))) =
             (payload (fst w1) = ''0 OK IDLE WR 01 WR'') \<and>
           incoming (port s') = rest)) \<and>
   ((legal_limits fl x_limits_mm y_limits_mm) \<and>
    (incoming p = idr ## status ## w1 ## (homing @- (w2 ## rest))) \<and>
    (identifies (fst idr)) \<and>
    (reports (slice 1 3 (fst idr)) v status = Some b) \<and>
    (accepts (slice 1 3 (fst idr)) v reply w1) \<and>
    (if payload (fst w1) = ''0 OK IDLE WR 01 WR''
       then homing \<noteq> [] \<and> accepts (slice 1 3 (fst idr)) v reply (hd homing) \<and>
            payload (fst (hd homing)) = ''0 OK BUSY WR 0'' \<and>
            polls_to_idle (slice 1 3 (fst idr)) v (tl homing)
       else homing = []) \<and>
    (accepts (slice 1 3 (fst idr)) v reply w2) \<longrightarrow>
      (\<exists>s'. init fl p nm v vv x_limits_mm y_limits_mm maxspeed_mmps =
                  Some (if payload (fst w2) \<in> set [''0 OK IDLE -- 00'', ''0 OK IDLE NI 01 NI'']
                        then get_ready fl s' maxspeed_mmps
                        else Raises (Exception ''warnings (%s) not recognised'') s') \<and>
           written (port s') =
             written p @
             (''/get device.id'' @ LF) #
             [command_bytes (slice 1 3 (fst idr)) [],
              command_bytes (slice 1 3 (fst idr)) ''warnings''] @
             (if payload (fst w1) = ''0 OK IDLE WR 01 WR''
              then command_bytes (slice 1 3 (fst idr)) ''home'' #
                   replicate (length homing - 1) (command_bytes (slice 1 3 (fst idr)) [])
              else []) @
             [command_bytes (slice 1 3 (fst idr)) ''warnings''] \<and>
           incoming (port s') = rest))"
  apply (intro conjI impI)
   apply (elim conjE, rule check_warnings_homes_iff; assumption)
  apply (elim conjE, rule init_script; assumption)
  done

theorem warnings_decide_homing_and_failure_witness:
  "(\<exists>s'. check_warnings needs_homing = Some (Returns () s') \<and>
      written (port s') =
        [command_bytes ''01'' [], command_bytes ''01'' ''warnings'',
         command_bytes ''01'' ''home'', command_bytes ''01'' [], command_bytes ''01'' [],
         command_bytes ''01'' ''warnings''] \<and>
      incoming (port s') = sconst ([], 0)) \<and>
   (\<exists>s'. init exact stalled_port ''X-ADR130'' True False (0, 130) (0, 100) (100, 100) =
        Some (Raises (Exception ''warnings (%s) not recognised'') s') \<and>
      written (port s') =
        [''/get device.id'' @ LF, command_bytes ''01'' [], command_bytes ''01'' ''warnings'',
         command_bytes ''01'' ''warnings''] \<and>
      incoming (port s') = sconst ([], 0))"
proof -
  have a: "incoming (port needs_homing) =
      (''@01 0 OK IDLE WR 0'' @ CRLF, 0) ## (''@01 0 OK IDLE WR 01 WR'' @ CRLF, 0) ##
      ([(''@01 0 OK BUSY WR 0'' @ CRLF, 0), (''@01 0 OK BUSY WR 0'' @ CRLF, 0),
        (''@01 0 OK IDLE -- 0'' @ CRLF, 0)] @-
       ((''@01 0 OK IDLE -- 00'' @ CRLF, 0) ## sconst ([], 0)))"
    by (simp add: needs_homing_def stage_def script_def)
  have b: "reports (device_address needs_homing) (verbose needs_homing)
             (''@01 0 OK IDLE WR 0'' @ CRLF, 0) = Some False"
    "accepts (device_address needs_homing) (verbose needs_homing) reply
             (''@01 0 OK IDLE WR 01 WR'' @ CRLF, 0)"
    "accepts (device_address needs_homing) (verbose needs_homing) reply
             (''@01 0 OK IDLE -- 00'' @ CRLF, 0)"
    by (simp_all add: needs_homing_def stage_def reports_def accepts_def payload_def
        string_defs)
  have c: "payload (fst (''@01 0 OK IDLE WR 01 WR'' @ CRLF, 0::nat)) = ''0 OK IDLE WR 01 WR''"
    "payload (fst (''@01 0 OK IDLE -- 00'' @ CRLF, 0::nat)) = ''0 OK IDLE -- 00''"
    "payload (fst (''@01 0 OK BUSY WR 0'' @ CRLF, 0::nat)) = ''0 OK BUSY WR 0''"
    by (simp_all add: payload_def string_defs)
  have d: "accepts (device_address needs_homing) (verbose needs_homing) reply
             (''@01 0 OK BUSY WR 0'' @ CRLF, 0)"
    "polls_to_idle (device_address needs_homing) (verbose needs_homing)
       [(''@01 0 OK BUSY WR 0'' @ CRLF, 0), (''@01 0 OK IDLE -- 0'' @ CRLF, 0)]"
    by (simp_all add: needs_homing_def stage_def polls_to_idle_def reports_def accepts_def
        payload_def string_defs)
  have e: "written (port needs_homing) = []" "device_address needs_homing = ''01''"
    by (simp_all add: needs_homing_def stage_def)
  have first: "\<exists>s'. check_warnings needs_homing = Some (Returns () s') \<and>
      written (port s') =
        [command_bytes ''01'' [], command_bytes ''01'' ''warnings'',
         command_bytes ''01'' ''home'', command_bytes ''01'' [], command_bytes ''01'' [],
         command_bytes ''01'' ''warnings''] \<and>
      incoming (port s') = sconst ([], 0)"
    using warnings_decide_homing_and_failure
      [where s = needs_homing and status = "(''@01 0 OK IDLE WR 0'' @ CRLF, 0)"
         and ?w1.0 = "(''@01 0 OK IDLE WR 01 WR'' @ CRLF, 0)"
         and homing = "[(''@01 0 OK BUSY WR 0'' @ CRLF, 0), (''@01 0 OK BUSY WR 0'' @ CRLF, 0),
                        (''@01 0 OK IDLE -- 0'' @ CRLF, 0)]"
         and ?w2.0 = "(''@01 0 OK IDLE -- 00'' @ CRLF, 0)" and rest = "sconst ([], 0)"
         and b = False, THEN conjunct1] a b c d e
    by simp blast
  have f: "incoming stalled_port =
      (''@01 0 OK IDLE FS 50998'' @ CRLF, 0) ## (''@01 0 OK IDLE FS 0'' @ CRLF, 0) ##
      (''@01 0 OK IDLE FS 01 FS'' @ CRLF, 0) ##
      ([] @- ((''@01 0 OK IDLE FS 01 FS'' @ CRLF, 0) ## sconst ([], 0)))"
    by (simp add: stalled_port_def script_def)
  have g: "legal_limits exact (0, 130) (0, 100)"
    by (simp add: legal_limits_def exact_def)
  have h: "identifies (fst (''@01 0 OK IDLE FS 50998'' @ CRLF, 0::nat))"
    "slice 1 3 (fst (''@01 0 OK IDLE FS 50998'' @ CRLF, 0::nat)) = ''01''"
    by (simp_all add: identifies_def string_defs)
  have i: "reports ''01'' True (''@01 0 OK IDLE FS 0'' @ CRLF, 0) = Some False"
    "accepts ''01'' True reply (''@01 0 OK IDLE FS 01 FS'' @ CRLF, 0)"
    "payload (fst (''@01 0 OK IDLE FS 01 FS'' @ CRLF, 0::nat)) = ''0 OK IDLE FS 01 FS''"
    by (simp_all add: reports_def accepts_def payload_def string_defs)
  have j: "written stalled_port = []"
    by (simp add: stalled_port_def)
  have second: "\<exists>s'.
      init exact stalled_port ''X-ADR130'' True False (0, 130) (0, 100) (100, 100) =
        Some (Raises (Exception ''warnings (%s) not recognised'') s') \<and>
      written (port s') =
        [''/get device.id'' @ LF, command_bytes ''01'' [], command_bytes ''01'' ''warnings'',
         command_bytes ''01'' ''warnings''] \<and>
      incoming (port s') = sconst ([], 0)"
    using warnings_decide_homing_and_failure
      [where fl = exact and p = stalled_port and x_limits_mm = "(0, 130)"
         and y_limits_mm = "(0, 100)" and idr = "(''@01 0 OK IDLE FS 50998'' @ CRLF, 0)"
         and status = "(''@01 0 OK IDLE FS 0'' @ CRLF, 0)"
         and ?w1.0 = "(''@01 0 OK IDLE FS 01 FS'' @ CRLF, 0)" and homing = "[]"
         and ?w2.0 = "(''@01 0 OK IDLE FS 01 FS'' @ CRLF, 0)" and rest = "sconst ([], 0)"
         and b = False and v = True and nm = "''X-ADR130''" and vv = False
         and maxspeed_mmps = "(100, 100)", THEN conjunct2] f g h i j
    by simp
  from first second show ?thesis
    by (rule conjI)
qed

lemma set_maxspeed_no_arguments:
  assumes st: "incoming (port s) = r1 ## r2 ## r3 ## rest"
    and legal: "legal_speed fl (x_mmps s)" "legal_speed fl (y_mmps s)"
    and a1: "accepts (device_address s) (verbose s) reply r1"
    and a2: "accepts (device_address s) (verbose s) reply r2"
    and a3: "accepts (device_address s) (verbose s) reply r3"
    and toks: "map (py_float fl) (slice 4 6 (split (payload (fst r3)))) = [Some sx, Some sy]"
  shows "\<exists>s'. set_maxspeed fl s None None =
                  (if py_eq fl (from_wire_speed fl sx) (x_mmps s) \<and>
                      py_eq fl (from_wire_speed fl sy) (y_mmps s)
                   then Returns () s' else Raises (AssertionError []) s') \<and>
           written (port s') =
             written (port s) @
             [command_bytes (device_address s) (set_speed_command fl ''1'' (x_mmps s)),
              command_bytes (device_address s) (set_speed_command fl ''2'' (y_mmps s)),
              command_bytes (device_address s) ''get maxspeed''] \<and>
           incoming (port s') = rest \<and>
           x_mmps s' = from_wire_speed fl sx \<and> y_mmps s' = from_wire_speed fl sy"
proof -
  have x: "x_mmps s = requested None (x_mmps s)" and y: "y_mmps s = requested None (y_mmps s)"
    by (simp_all add: requested_def)
  from set_maxspeed_script [OF st x y legal a1 a2 a3 toks] obtain s' where
    "set_maxspeed fl s None None =
       (if py_eq fl (from_wire_speed fl sx) (x_mmps s) \<and>
           py_eq fl (from_wire_speed fl sy) (y_mmps s)
        then Returns () s' else Raises (AssertionError []) s')"
    "written (port s') =
       written (port s) @
       [command_bytes (device_address s) (set_speed_command fl ''1'' (x_mmps s)),
        command_bytes (device_address s) (set_speed_command fl ''2'' (y_mmps s)),
        command_bytes (device_address s) ''get maxspeed'']"
    "incoming (port s') = rest"
    "x_mmps s' = from_wire_speed fl sx" "y_mmps s' = from_wire_speed fl sy"
    by (elim exE conjE)
  then show ?thesis
    by (intro exI [of _ s'] conjI)
qed

lemma set_maxspeed_no_x:
  assumes st: "incoming (port s) = r1 ## r2 ## r3 ## rest"
    and legal: "legal_speed fl (x_mmps s)" "legal_speed fl y"
    and a1: "accepts (device_address s) (verbose s) reply r1"
    and a2: "accepts (device_address s) (verbose s) reply r2"
    and a3: "accepts (device_address s) (verbose s) reply r3"
    and toks: "map (py_float fl) (slice 4 6 (split (payload (fst r3)))) = [Some sx, Some sy]"
  shows "\<exists>s'. set_maxspeed fl s None (Some y) =
                  (if py_eq fl (from_wire_speed fl sx) (x_mmps s) \<and>
                      py_eq fl (from_wire_speed fl sy) y
                   then Returns () s' else Raises (AssertionError []) s') \<and>
           written (port s') =
             written (port s) @
             [command_bytes (device_address s) (set_speed_command fl ''1'' (x_mmps s)),
              command_bytes (device_address s) (set_speed_command fl ''2'' y),
              command_bytes (device_address s) ''get maxspeed'']"
proof -
  have x: "x_mmps s = requested None (x_mmps s)" and y: "y = requested (Some y) (y_mmps s)"
    by (simp_all add: requested_def)
  from set_maxspeed_script [OF st x y legal a1 a2 a3 toks] obtain s' where
    "set_maxspeed fl s None (Some y) =
       (if py_eq fl (from_wire_speed fl sx) (x_mmps s) \<and> py_eq fl (from_wire_speed fl sy) y
        then Returns () s' else Raises (AssertionError []) s')"
    "written (port s') =
       written (port s) @
       [command_bytes (device_address s) (set_speed_command fl ''1'' (x_mmps s)),
        command_bytes (device_address s) (set_speed_command fl ''2'' y),
        command_bytes (device_address s) ''get maxspeed'']"
    by (elim exE conjE)
  then show ?thesis
    by (intro exI [of _ s'] conjI)
qed

lemma set_maxspeed_no_y:
  assumes st: "incoming (port s) = r1 ## r2 ## r3 ## rest"
    and legal: "legal_speed fl x" "legal_speed fl (y_mmps s)"
    and a1: "accepts (device_address s) (verbose s) reply r1"
    and a2: "accepts (device_address s) (verbose s) reply r2"
    and a3: "accepts (device_address s) (verbose s) reply r3"
    and toks: "map (py_float fl) (slice 4 6 (split (payload (fst r3)))) = [Some sx, Some sy]"
  shows "\<exists>s'. set_maxspeed fl s (Some x) None =
                  (if py_eq fl (from_wire_speed fl sx) x \<and>
                      py_eq fl (from_wire_speed fl sy) (y_mmps s)
                   then Returns () s' else Raises (AssertionError []) s') \<and>
           written (port s') =
             written (port s) @
             [command_bytes (device_address s) (set_speed_command fl ''1'' x),
              command_bytes (device_address s) (set_speed_command fl ''2'' (y_mmps s)),
              command_bytes (device_address s) ''get maxspeed'']"
proof -
  have x: "x = requested (Some x) (x_mmps s)" and y: "y_mmps s = requested None (y_mmps s)"
    by (simp_all add: requested_def)
  from set_maxspeed_script [OF st x y legal a1 a2 a3 toks] obtain s' where
    "set_maxspeed fl s (Some x) None =
       (if py_eq fl (from_wire_speed fl sx) x \<and> py_eq fl (from_wire_speed fl sy) (y_mmps s)
        then Returns () s' else Raises (AssertionError []) s')"
    "written (port s') =
       written (port s) @
       [command_bytes (device_address s) (set_speed_command fl ''1'' x),
        command_bytes (device_address s) (set_speed_command fl ''2'' (y_mmps s)),
        command_bytes (device_address s) ''get maxspeed'']"
    by (elim exE conjE)
  then show ?thesis
    by (intro exI [of _ s'] conjI)
qed

lemma set_maxspeed_after_readback:
  assumes st: "incoming (port s) = g ## r1 ## r2 ## r3 ## rest"
    and ag: "accepts (device_address s) (verbose s) reply g"
    and tg: "map (py_float fl) (slice 4 6 (split (payload (fst g)))) = [Some gx, Some gy]"
    and legal: "legal_speed fl (from_wire_speed fl gx)" "legal_speed fl (from_wire_speed fl gy)"
    and a1: "accepts (device_address s) (verbose s) reply r1"
    and a2: "accepts (device_address s) (verbose s) reply r2"
    and a3: "accepts (device_address s) (verbose s) reply r3"
    and toks: "map (py_float fl) (slice 4 6 (split (payload (fst r3)))) = [Some sx, Some sy]"
  shows "\<exists>s1 s2.
           get_maxspeed fl s = Returns (from_wire_speed fl gx, from_wire_speed fl gy) s1 \<and>
           set_maxspeed fl s1 None None =
             (if py_eq fl (from_wire_speed fl sx) (from_wire_speed fl gx) \<and>
                 py_eq fl (from_wire_speed fl sy) (from_wire_speed fl gy)
              then Returns () s2 else Raises (AssertionError []) s2) \<and>
           written (port s2) =
             written (port s) @
             [command_bytes (device_address s) ''get maxspeed'',
              command_bytes (device_address s)
                (set_speed_command fl ''1'' (from_wire_speed fl gx)),
              command_bytes (device_address s)
                (set_speed_command fl ''2'' (from_wire_speed fl gy)),
              command_bytes (device_address s) ''get maxspeed''] \<and>
           incoming (port s2) = rest \<and>
           x_mmps s2 = from_wire_speed fl sx \<and> y_mmps s2 = from_wire_speed fl sy"
proof -
  have ag': "accepts (device_address s) (verbose s) reply (shd (incoming (port s)))"
    unfolding st using ag by simp
  have tg': "map (py_float fl) (slice 4 6 (split (payload (fst (shd (incoming (port s))))))) =
               [Some gx, Some gy]"
    unfolding st using tg by simp
  from get_maxspeed_accepted [OF ag' tg'] obtain s1 where
    g: "get_maxspeed fl s = Returns (from_wire_speed fl gx, from_wire_speed fl gy) s1"
    and c: "x_mmps s1 = from_wire_speed fl gx" "y_mmps s1 = from_wire_speed fl gy"
    and p: "port s1 = exchange (port s) (command_bytes (device_address s) ''get maxspeed'')"
    and k: "keeps_setup s s1"
    by (elim exE conjE)
  from k have k': "device_address s1 = device_address s" "verbose s1 = verbose s"
    by (simp_all add: keeps_setup_def)
  have st1: "incoming (port s1) = r1 ## r2 ## r3 ## rest"
    unfolding p using st by simp
  have w1: "written (port s1) =
              written (port s) @ [command_bytes (device_address s) ''get maxspeed'']"
    unfolding p by simp
  have legal1: "legal_speed fl (x_mmps s1)" "legal_speed fl (y_mmps s1)"
    unfolding c by (rule legal)+
  have b1: "accepts (device_address s1) (verbose s1) reply r1"
    and b2: "accepts (device_address s1) (verbose s1) reply r2"
    and b3: "accepts (device_address s1) (verbose s1) reply r3"
    unfolding k' by (rule a1 a2 a3)+
  from set_maxspeed_no_arguments [OF st1 legal1 b1 b2 b3 toks] obtain s2 where
    r: "set_maxspeed fl s1 None None =
          (if py_eq fl (from_wire_speed fl sx) (x_mmps s1) \<and>
              py_eq fl (from_wire_speed fl sy) (y_mmps s1)
           then Returns () s2 else Raises (AssertionError []) s2)"
    and w2: "written (port s2) =
          written (port s1) @
          [command_bytes (device_address s1) (set_speed_command fl ''1'' (x_mmps s1)),
           command_bytes (device_address s1) (set_speed_command fl ''2'' (y_mmps s1)),
           command_bytes (device_address s1) ''get maxspeed'']"
    and i2: "incoming (port s2) = rest"
    and c2: "x_mmps s2 = from_wire_speed fl sx" "y_mmps s2 = from_wire_speed fl sy"
    by (elim exE conjE)
  have w: "written (port s2) =
             written (port s) @
             [command_bytes (device_address s) ''get maxspeed'',
              command_bytes (device_address s)
                (set_speed_command fl ''1'' (from_wire_speed fl gx)),
              command_bytes (device_address s)
                (set_speed_command fl ''2'' (from_wire_speed fl gy)),
              command_bytes (device_address s) ''get maxspeed'']"
    unfolding w2 w1 k' c by simp
  from g r [unfolded c] w i2 c2 show ?thesis
    by (intro exI [of _ s1] exI [of _ s2] conjI)
qed

text \<open>
  C10. An argument of \<^verbatim>\<open>set_maxspeed\<close> that is left out (\<open>None\<close>) is replaced by the cached
  speed of its axis, and the call goes on with it as with a speed that was passed. With
  the cached speeds within [0.01, 750] and a device that answers the three exchanges, a
  call with no argument writes \<^verbatim>\<open>1 set maxspeed\<close> and \<^verbatim>\<open>2 set maxspeed\<close> with
  \<^verbatim>\<open>str(1e6 * 1.6384 * cached)\<close> of the \<open>x\<close> and \<open>y\<close> cache, then the query, and returns if
  the read-back equals the cached speeds (it raises the AssertionError of line 280
  otherwise); a call with one argument left out does the same with the cached speed of
  that axis and the passed speed of the other. The cache is the last read-back: after
  \<^verbatim>\<open>get_maxspeed\<close> has read \<open>gx\<close> and \<open>gy\<close> from the device, the call with no argument sends
  \<^verbatim>\<open>round(1e-6 * gx / 1.6384, 3)\<close> and \<^verbatim>\<open>round(1e-6 * gy / 1.6384, 3)\<close> back, and the
  moves, the stops and the position query leave the cached speeds (\<open>speeds\<close>) as they
  are.
\<close>

theorem set_maxspeed_reapplies_cached:
  "(incoming (port s) = r1 ## r2 ## r3 ## rest \<and>
    legal_speed fl (x_mmps s) \<and> legal_speed fl (y_mmps s) \<and>
    accepts (device_address s) (verbose s) reply r1 \<and>
    accepts (device_address s) (verbose s) reply r2 \<and>
    accepts (device_address s) (verbose s) reply r3 \<and>
    map (py_float fl) (slice 4 6 (split (payload (fst r3)))) = [Some sx, Some sy] \<longrightarrow>
      (\<exists>s'. set_maxspeed fl s None None =
                  (if py_eq fl (from_wire_speed fl sx) (x_mmps s) \<and>
                      py_eq fl (from_wire_speed fl sy) (y_mmps s)
                   then Returns () s' else Raises (AssertionError []) s') \<and>
           written (port s') =
             written (port s) @
             [command_bytes (device_address s) (set_speed_command fl ''1'' (x_mmps s)),
              command_bytes (device_address s) (set_speed_command fl ''2'' (y_mmps s)),
              command_bytes (device_address s) ''get maxspeed''] \<and>
           incoming (port s') = rest \<and>
           x_mmps s' = from_wire_speed fl sx \<and> y_mmps s' = from_wire_speed fl sy)) \<and>
   (incoming (port s) = r1 ## r2 ## r3 ## rest \<and>
    legal_speed fl (x_mmps s) \<and> legal_speed fl vy \<and>
    accepts (device_address s) (verbose s) reply r1 \<and>
    accepts (device_address s) (verbose s) reply r2 \<and>
    accepts (device_address s) (verbose s) reply r3 \<and>
    map (py_float fl) (slice 4 6 (split (payload (fst r3)))) = [Some sx, Some sy] \<longrightarrow>
      (\<exists>s'. set_maxspeed fl s None (Some vy) =
                  (if py_eq fl (from_wire_speed fl sx) (x_mmps s) \<and>
                      py_eq fl (from_wire_speed fl sy) vy
                   then Returns () s' else Raises (AssertionError []) s') \<and>
           written (port s') =
             written (port s) @
             [command_bytes (device_address s) (set_speed_command fl ''1'' (x_mmps s)),
              command_bytes (device_address s) (set_speed_command fl ''2'' vy),
              command_bytes (device_address s) ''get maxspeed''])) \<and>
   (incoming (port s) = r1 ## r2 ## r3 ## rest \<and>
    legal_speed fl vx \<and> legal_speed fl (y_mmps s) \<and>
    accepts (device_address s) (verbose s) reply r1 \<and>
    accepts (device_address s) (verbose s) reply r2 \<and>
    accepts (device_address s) (verbose s) reply r3 \<and>
    map (py_float fl) (slice 4 6 (split (payload (fst r3)))) = [Some sx, Some sy] \<longrightarrow>
      (\<exists>s'. set_maxspeed fl s (Some vx) None =
                  (if py_eq fl (from_wire_speed fl sx) vx \<and>
                      py_eq fl (from_wire_speed fl sy) (y_mmps s)
                   then Returns () s' else Raises (AssertionError []) s') \<and>
           written (port s') =
             written (port s) @
             [command_bytes (device_address s) (set_speed_command fl ''1'' vx),
              command_bytes (device_address s) (set_speed_command fl ''2'' (y_mmps s)),
              command_bytes (device_address s) ''get maxspeed''])) \<and>
   (incoming (port s) = g ## r1 ## r2 ## r3 ## rest \<and>
    accepts (device_address s) (verbose s) reply g \<and>
    map (py_float fl) (slice 4 6 (split (payload (fst g)))) = [Some gx, Some gy] \<and>
    legal_speed fl (from_wire_speed fl gx) \<and> legal_speed fl (from_wire_speed fl gy) \<and>
    accepts (device_address s) (verbose s) reply r1 \<and>
    accepts (device_address s) (verbose s) reply r2 \<and>
    accepts (device_address s) (verbose s) reply r3 \<and>
    map (py_float fl) (slice 4 6 (split (payload (fst r3)))) = [Some sx, Some sy] \<longrightarrow>
      (\<exists>s1 s2.
           get_maxspeed fl s = Returns (from_wire_speed fl gx, from_wire_speed fl gy) s1 \<and>
           set_maxspeed fl s1 None None =
             (if py_eq fl (from_wire_speed fl sx) (from_wire_speed fl gx) \<and>
                 py_eq fl (from_wire_speed fl sy) (from_wire_speed fl gy)
              then Returns () s2 else Raises (AssertionError []) s2) \<and>
           written (port s2) =
             written (port s) @
             [command_bytes (device_address s) ''get maxspeed'',
              command_bytes (device_address s)
                (set_speed_command fl ''1'' (from_wire_speed fl gx)),
              command_bytes (device_address s)
                (set_speed_command fl ''2'' (from_wire_speed fl gy)),
              command_bytes (device_address s) ''get maxspeed''] \<and>
           incoming (port s2) = rest \<and>
           x_mmps s2 = from_wire_speed fl sx \<and> y_mmps s2 = from_wire_speed fl sy)) \<and>
   (move_mm fl s x y relative block = Some r \<longrightarrow> speeds (after r) = speeds s) \<and>
   speeds (after (get_position_mm fl s)) = speeds s \<and>
   speeds (after (stop_x s)) = speeds s \<and> speeds (after (stop_y s)) = speeds s \<and>
   speeds s = (x_mmps s, y_mmps s) \<and>
   legal_speed fl v = (py_le fl (py_lit fl (1 / 100)) v \<and> py_le fl v (py_lit fl 750)) \<and>
   set_speed_command fl axis v =
     axis @ '' set maxspeed '' @
     py_str fl (py_mul fl (py_mul fl (py_lit fl 1000000) (py_lit fl (16384 / 10000))) v) \<and>
   from_wire_speed fl v =
     py_round3 fl
       (py_div fl (py_mul fl (py_lit fl (1 / 1000000)) v) (py_lit fl (16384 / 10000)))"
  apply (intro conjI impI)
             apply (elim conjE, rule set_maxspeed_no_arguments; assumption)
            apply (elim conjE, rule set_maxspeed_no_x; assumption)
           apply (elim conjE, rule set_maxspeed_no_y; assumption)
          apply (elim conjE, rule set_maxspeed_after_readback; assumption)
         apply (erule move_mm_speeds)
        apply (rule get_position_mm_speeds)
       apply (rule stop_x_speeds)
      apply (rule stop_y_speeds)
     apply (rule speeds_def)
    apply (rule legal_speed_def)
   apply (rule set_speed_command_def)
  apply (rule from_wire_speed_def)
  done

theorem set_maxspeed_reapplies_cached_witness:
  "(\<exists>s'. set_maxspeed exact speed_cached None None = Returns () s' \<and>
      written (port s') =
        [command_bytes ''01'' ''1 set maxspeed 163840000.0'',
         command_bytes ''01'' ''2 set maxspeed 81920000.0'',
         command_bytes ''01'' ''get maxspeed''] \<and>
      x_mmps s' = 100 \<and> y_mmps s' = 50) \<and>
   (\<exists>s'. set_maxspeed exact speed_cached None (Some 50) = Returns () s' \<and>
      written (port s') =
        [command_bytes ''01'' ''1 set maxspeed 163840000.0'',
         command_bytes ''01'' ''2 set maxspeed 81920000.0'',
         command_bytes ''01'' ''get maxspeed'']) \<and>
   (\<exists>s'. set_maxspeed exact speed_cached (Some 100) None = Returns () s' \<and>
      written (port s') =
        [command_bytes ''01'' ''1 set maxspeed 163840000.0'',
         command_bytes ''01'' ''2 set maxspeed 81920000.0'',
         command_bytes ''01'' ''get maxspeed'']) \<and>
   (\<exists>s1 s2. get_maxspeed exact speed_reapplied = Returns (100, 50) s1 \<and>
      set_maxspeed exact s1 None None = Returns () s2 \<and>
      written (port s2) =
        [command_bytes ''01'' ''get maxspeed'',
         command_bytes ''01'' ''1 set maxspeed 163840000.0'',
         command_bytes ''01'' ''2 set maxspeed 81920000.0'',
         command_bytes ''01'' ''get maxspeed''] \<and>
      x_mmps s2 = 100 \<and> y_mmps s2 = 50) \<and>
   (\<exists>r. move_mm exact too_fast 1000 1000 False False = Some r \<and>
      speeds (after r) = (100, 100))"
proof -
  have b: "incoming (port speed_cached) =
      (''@01 1 OK IDLE -- 0'' @ CRLF, 0) ## (''@01 2 OK IDLE -- 0'' @ CRLF, 0) ##
      (''@01 0 OK IDLE -- 163840000 81920000'' @ CRLF, 0) ## sconst ([], 0)"
    by (simp add: speed_cached_def stage_def script_def)
  have c: "x_mmps speed_cached = 100" "y_mmps speed_cached = 50"
    "legal_speed exact 100" "legal_speed exact 50"
    by (simp_all add: legal_speed_def exact_def speed_cached_def stage_def)
  have d: "accepts (device_address speed_cached) (verbose speed_cached) reply
             (''@01 1 OK IDLE -- 0'' @ CRLF, 0)"
    "accepts (device_address speed_cached) (verbose speed_cached) reply
             (''@01 2 OK IDLE -- 0'' @ CRLF, 0)"
    "accepts (device_address speed_cached) (verbose speed_cached) reply
             (''@01 0 OK IDLE -- 163840000 81920000'' @ CRLF, 0)"
    by (simp_all add: speed_cached_def stage_def accepts_def string_defs)
  have e: "map (py_float exact)
             (slice 4 6 (split (payload (fst (''@01 0 OK IDLE -- 163840000 81920000'' @ CRLF,
                0::nat))))) = [Some 163840000, Some 81920000]"
    by (simp add: payload_def string_defs exact_defs)
  have f: "from_wire_speed exact 163840000 = 100" "from_wire_speed exact 81920000 = 50"
    "py_eq exact 100 100" "py_eq exact 50 50"
    by (simp_all add: from_wire_speed_def exact_defs)
  have g: "set_speed_command exact ''1'' 100 = ''1 set maxspeed 163840000.0''"
    "set_speed_command exact ''2'' 50 = ''2 set maxspeed 81920000.0''"
    by (simp_all add: set_speed_command_def exact_defs)
  have h: "written (port speed_cached) = []" "device_address speed_cached = ''01''"
    by (simp_all add: speed_cached_def stage_def)
  have one: "\<exists>s'. set_maxspeed exact speed_cached None None = Returns () s' \<and>
      written (port s') =
        [command_bytes ''01'' ''1 set maxspeed 163840000.0'',
         command_bytes ''01'' ''2 set maxspeed 81920000.0'',
         command_bytes ''01'' ''get maxspeed''] \<and>
      x_mmps s' = 100 \<and> y_mmps s' = 50"
    using set_maxspeed_reapplies_cached [where fl = exact and s = speed_cached
        and ?r1.0 = "(''@01 1 OK IDLE -- 0'' @ CRLF, 0)"
        and ?r2.0 = "(''@01 2 OK IDLE -- 0'' @ CRLF, 0)"
        and ?r3.0 = "(''@01 0 OK IDLE -- 163840000 81920000'' @ CRLF, 0)"
        and rest = "sconst ([], 0)" and sx = 163840000 and sy = 81920000,
        THEN conjunct1] b c d e f g h
    by (simp; blast)
  have two: "\<exists>s'. set_maxspeed exact speed_cached None (Some 50) = Returns () s' \<and>
      written (port s') =
        [command_bytes ''01'' ''1 set maxspeed 163840000.0'',
         command_bytes ''01'' ''2 set maxspeed 81920000.0'',
         command_bytes ''01'' ''get maxspeed'']"
    using set_maxspeed_reapplies_cached [where fl = exact and s = speed_cached and vy = 50
        and ?r1.0 = "(''@01 1 OK IDLE -- 0'' @ CRLF, 0)"
        and ?r2.0 = "(''@01 2 OK IDLE -- 0'' @ CRLF, 0)"
        and ?r3.0 = "(''@01 0 OK IDLE -- 163840000 81920000'' @ CRLF, 0)"
        and rest = "sconst ([], 0)" and sx = 163840000 and sy = 81920000,
        THEN conjunct2, THEN conjunct1] b c d e f g h
    by simp
  have three: "\<exists>s'. set_maxspeed exact speed_cached (Some 100) None = Returns () s' \<and>
      written (port s') =
        [command_bytes ''01'' ''1 set maxspeed 163840000.0'',
         command_bytes ''01'' ''2 set maxspeed 81920000.0'',
         command_bytes ''01'' ''get maxspeed'']"
    using set_maxspeed_reapplies_cached [where fl = exact and s = speed_cached and vx = 100
        and ?r1.0 = "(''@01 1 OK IDLE -- 0'' @ CRLF, 0)"
        and ?r2.0 = "(''@01 2 OK IDLE -- 0'' @ CRLF, 0)"
        and ?r3.0 = "(''@01 0 OK IDLE -- 163840000 81920000'' @ CRLF, 0)"
        and rest = "sconst ([], 0)" and sx = 163840000 and sy = 81920000,
        THEN conjunct2, THEN conjunct2, THEN conjunct1] b c d e f g h
    by simp
  have b': "incoming (port speed_reapplied) =
      (''@01 0 OK IDLE -- 163840000 81920000'' @ CRLF, 0) ##
      (''@01 1 OK IDLE -- 0'' @ CRLF, 0) ## (''@01 2 OK IDLE -- 0'' @ CRLF, 0) ##
      (''@01 0 OK IDLE -- 163840000 81920000'' @ CRLF, 0) ## sconst ([], 0)"
    by (simp add: speed_reapplied_def stage_def script_def)
  have d': "accepts (device_address speed_reapplied) (verbose speed_reapplied) reply
             (''@01 1 OK IDLE -- 0'' @ CRLF, 0)"
    "accepts (device_address speed_reapplied) (verbose speed_reapplied) reply
             (''@01 2 OK IDLE -- 0'' @ CRLF, 0)"
    "accepts (device_address speed_reapplied) (verbose speed_reapplied) reply
             (''@01 0 OK IDLE -- 163840000 81920000'' @ CRLF, 0)"
    by (simp_all add: speed_reapplied_def stage_def accepts_def string_defs)
  have h': "written (port speed_reapplied) = []" "device_address speed_reapplied = ''01''"
    by (simp_all add: speed_reapplied_def stage_def)
  have four: "\<exists>s1 s2. get_maxspeed exact speed_reapplied = Returns (100, 50) s1 \<and>
      set_maxspeed exact s1 None None = Returns () s2 \<and>
      written (port s2) =
        [command_bytes ''01'' ''get maxspeed'',
         command_bytes ''01'' ''1 set maxspeed 163840000.0'',
         command_bytes ''01'' ''2 set maxspeed 81920000.0'',
         command_bytes ''01'' ''get maxspeed''] \<and>
      x_mmps s2 = 100 \<and> y_mmps s2 = 50"
    using set_maxspeed_reapplies_cached [where fl = exact and s = speed_reapplied
        and g = "(''@01 0 OK IDLE -- 163840000 81920000'' @ CRLF, 0)"
        and ?r1.0 = "(''@01 1 OK IDLE -- 0'' @ CRLF, 0)"
        and ?r2.0 = "(''@01 2 OK IDLE -- 0'' @ CRLF, 0)"
        and ?r3.0 = "(''@01 0 OK IDLE -- 163840000 81920000'' @ CRLF, 0)"
        and rest = "sconst ([], 0)" and gx = 163840000 and gy = 81920000
        and sx = 163840000 and sy = 81920000,
        THEN conjunct2, THEN conjunct2, THEN conjunct2, THEN conjunct1]
      b' c(3,4) d' e f g h'
    by (simp; blast)
  have m: "incoming (port too_fast) = [] @- ([] @- ([] @- ([] @- ([] @- sconst ([], 0)))))"
    "\<not> moving_x too_fast" "\<not> moving_y too_fast"
    "\<not> in_limits exact (x_min_mm too_fast) (x_max_mm too_fast)
         (target exact (x_mm too_fast) 1000 False)"
    "\<not> in_limits exact (y_min_mm too_fast) (y_max_mm too_fast)
         (target exact (y_mm too_fast) 1000 False)"
    "speeds too_fast = (100, 100)"
    by (simp_all add: too_fast_def stage_def script_def in_limits_def target_def exact_def
        speeds_def)
  have "\<exists>s'. move_mm exact too_fast 1000 1000 False False = Some (Returns () s')"
    using move_mm_script [where fl = exact and s = too_fast and x = 1000 and y = 1000
        and relative = False and block = False and pre_x = "[]" and acks_x = "[]"
        and pre_y = "[]" and acks_y = "[]" and post = "[]" and rest = "sconst ([], 0)",
        OF m(1) _ refl _ _ refl] m(2-5)
    by (simp; blast)
  then obtain r where r: "move_mm exact too_fast 1000 1000 False False = Some r"
    by (elim exE)
  have five: "\<exists>r. move_mm exact too_fast 1000 1000 False False = Some r \<and>
      speeds (after r) = (100, 100)"
    using set_maxspeed_reapplies_cached [where fl = exact and s = too_fast and x = 1000
        and y = 1000 and relative = False and block = False and r = r,
        THEN conjunct2, THEN conjunct2, THEN conjunct2, THEN conjunct2, THEN conjunct1]
      r m(6)
    by simp
  from one two three four five show ?thesis
    by (intro conjI)
qed

end
